theory Spec2Isabelle
  imports Complex_Main "HOL-Library.Multiset" "HOL-Library.Product_Lexorder"
    "HOL-Library.List_Lexorder" "HOL-Library.Char_ord" "HOL-Library.Sublist"
begin

section \<open>Python values, errors and dictionaries\<close>

text \<open>
  The module under verification is \<^verbatim>\<open>youtube_dl/extractor/common.py\<close>. Its functions
  work on Python dictionaries with a documented set of keys (the format descriptors of
  the class docstring), on \<^verbatim>\<open>xml.etree\<close> element trees and on strings.

  Exceptions are values: every function that can raise returns \<open>error + 'a\<close>, with
  \<open>Inl\<close> for the exception. Python numbers (\<^verbatim>\<open>int\<close> and \<^verbatim>\<open>float\<close>, which the code
  mixes freely: \<^verbatim>\<open>preference -= 0.5\<close>) are rationals; \<^verbatim>\<open>/\<close> is the true division
  of Python 3. The numbers of the model are therefore the integers and the finite
  floats, with exact arithmetic: the floats \<^verbatim>\<open>nan\<close>, \<^verbatim>\<open>inf\<close> and \<^verbatim>\<open>-inf\<close> are not
  values of the model, and a statement about every descriptor is a statement about
  descriptors whose numbers are finite.

  The language is Python 3 (3.6 or later). A string is a list of characters, and a
  character of the model is a code point below 256; the sets of white space and of line
  boundaries below are those of Python for this range.
\<close>

datatype error =
    ExtractorError string
  | KeyError string
  | ValueError string
  | TypeError string
  | ZeroDivisionError
  | IndexError
  | StopIteration
  | RecursionError
  | Unmodelled string

type_synonym 'a result = "error + 'a"

definition bind :: "'a result \<Rightarrow> ('a \<Rightarrow> 'b result) \<Rightarrow> 'b result" where
  "bind m k = (case m of Inl e \<Rightarrow> Inl e | Inr x \<Rightarrow> k x)"

text \<open>Running a fallible function over a list stops at the first exception.\<close>

fun traverse :: "('a \<Rightarrow> 'b result) \<Rightarrow> 'a list \<Rightarrow> 'b list result" where
  "traverse g [] = Inr []"
| "traverse g (x # xs) =
     (case g x of Inl e \<Rightarrow> Inl e
      | Inr y \<Rightarrow> (case traverse g xs of Inl e \<Rightarrow> Inl e | Inr ys \<Rightarrow> Inr (y # ys)))"

text \<open>
  A dictionary entry is in one of three states, which the code tells apart
  (\<^verbatim>\<open>'tbr' not in f\<close> against \<^verbatim>\<open>f.get('tbr') is None\<close>): the key is missing, the key
  is bound to \<^verbatim>\<open>None\<close>, or it is bound to a value.
\<close>

datatype 'a slot = Absent | Null | Val 'a

text \<open>\<^verbatim>\<open>d.get(k)\<close>: \<^verbatim>\<open>None\<close> for a missing key and for a key bound to \<^verbatim>\<open>None\<close>.\<close>

fun get :: "'a slot \<Rightarrow> 'a option" where
  "get Absent = None"
| "get Null = None"
| "get (Val v) = Some v"

text \<open>Storing a Python value that may be \<^verbatim>\<open>None\<close> under a key.\<close>

fun store :: "'a option \<Rightarrow> 'a slot" where
  "store None = Null"
| "store (Some v) = Val v"

text \<open>\<^verbatim>\<open>d.update(e)\<close>, one key at a time: a key of \<^verbatim>\<open>e\<close> replaces the one of \<^verbatim>\<open>d\<close>.\<close>

fun update_slot :: "'a slot \<Rightarrow> 'a slot \<Rightarrow> 'a slot" where
  "update_slot old Absent = old"
| "update_slot old new = new"

text \<open>Truth value of an optional string: \<^verbatim>\<open>None\<close> and \<^verbatim>\<open>''\<close> are false.\<close>

fun truthy :: "string option \<Rightarrow> bool" where
  "truthy None = False"
| "truthy (Some s) = (s \<noteq> [])"

text \<open>\<^verbatim>\<open>ORDER.index(x)\<close> as an option: \<open>None\<close> where Python raises \<^verbatim>\<open>ValueError\<close>.\<close>

fun index :: "'a list \<Rightarrow> 'a \<Rightarrow> nat option" where
  "index [] x = None"
| "index (y # ys) x = (if y = x then Some 0 else map_option Suc (index ys x))"

text \<open>A \<^verbatim>\<open>for\<close> loop whose body may raise, over the state it updates.\<close>

fun for_each :: "('a \<Rightarrow> 's \<Rightarrow> 's result) \<Rightarrow> 'a list \<Rightarrow> 's \<Rightarrow> 's result" where
  "for_each body [] st = Inr st"
| "for_each body (x # xs) st = bind (body x st) (for_each body xs)"

section \<open>Strings\<close>

text \<open>\<^verbatim>\<open>p in s\<close> for strings.\<close>

fun contains :: "string \<Rightarrow> string \<Rightarrow> bool" where
  "contains [] p = (p = [])"
| "contains (c # cs) p = (prefix p (c # cs) \<or> contains cs p)"

text \<open>\<^verbatim>\<open>s.split(sep)\<close> for a one-character separator.\<close>

fun split_on :: "char \<Rightarrow> string \<Rightarrow> string list" where
  "split_on sep [] = [[]]"
| "split_on sep (c # cs) =
     (if c = sep then [] # split_on sep cs
      else (case split_on sep cs of [] \<Rightarrow> [[c]] | w # ws \<Rightarrow> (c # w) # ws))"

text \<open>\<^verbatim>\<open>sep.join(ws)\<close>\<close>

fun join :: "string \<Rightarrow> string list \<Rightarrow> string" where
  "join sep [] = []"
| "join sep [w] = w"
| "join sep (w # ws) = w @ sep @ join sep ws"

text \<open>
  \<^verbatim>\<open>s.replace(old, new)\<close>: every occurrence of \<open>old\<close>, found from left to right without
  overlap, becomes \<open>new\<close>. The code only calls it with a non-empty \<open>old\<close>.
\<close>

function replace :: "string \<Rightarrow> string \<Rightarrow> string \<Rightarrow> string" where
  "replace [] old new = []"
| "replace (c # cs) old new =
     (if old \<noteq> [] \<and> prefix old (c # cs)
      then new @ replace (drop (length old) (c # cs)) old new
      else c # replace cs old new)"
  by pat_completeness auto
termination
  by (relation "measure (\<lambda>(s, old, new). length s)") auto

text \<open>
  \<^verbatim>\<open>re.sub(pattern, new, s)\<close> for a pattern that is an alternative of literal strings
  (\<^verbatim>\<open>{[Bb]itrate}\<close>, \<^verbatim>\<open>{start[ _]time}\<close>) and a replacement without escapes.
\<close>

function replace_any :: "string list \<Rightarrow> string \<Rightarrow> string \<Rightarrow> string" where
  "replace_any olds new [] = []"
| "replace_any olds new (c # cs) =
     (case List.find (\<lambda>old. old \<noteq> [] \<and> prefix old (c # cs)) olds of
        Some old \<Rightarrow> new @ replace_any olds new (drop (length old) (c # cs))
      | None \<Rightarrow> c # replace_any olds new cs)"
  by pat_completeness auto
termination
  by (relation "measure (\<lambda>(olds, new, s). length s)") (auto simp: find_Some_iff)

text \<open>
  \<^verbatim>\<open>s.strip()\<close> removes at both ends the characters for which \<^verbatim>\<open>str.isspace\<close> holds:
  the space, the controls \<^verbatim>\<open>0x09\<close> to \<^verbatim>\<open>0x0D\<close> and \<^verbatim>\<open>0x1C\<close> to \<^verbatim>\<open>0x1F\<close>, the next
  line control \<^verbatim>\<open>0x85\<close> and the no-break space \<^verbatim>\<open>0xA0\<close>.
\<close>

definition is_space :: "char \<Rightarrow> bool" where
  "is_space c = (c \<in> set [CHR '' '', CHR 0x09, CHR 0x0A, CHR 0x0B, CHR 0x0C, CHR 0x0D,
                           CHR 0x1C, CHR 0x1D, CHR 0x1E, CHR 0x1F, CHR 0x85, CHR 0xA0])"

definition strip :: "string \<Rightarrow> string" where
  "strip s = rev (dropWhile is_space (rev (dropWhile is_space s)))"

text \<open>\<^verbatim>\<open>re.match(r'^https?://', u)\<close>\<close>

definition is_http_url :: "string \<Rightarrow> bool" where
  "is_http_url u = (prefix ''http://'' u \<or> prefix ''https://'' u)"

subsection \<open>Decimal numbers\<close>

fun parse_digits :: "nat \<Rightarrow> string \<Rightarrow> nat option" where
  "parse_digits acc [] = Some acc"
| "parse_digits acc (c # cs) =
     (case index ''0123456789'' c of
        None \<Rightarrow> None
      | Some v \<Rightarrow> parse_digits (10 * acc + v) cs)"

text \<open>
  The white space that \<^verbatim>\<open>int(s)\<close> and \<^verbatim>\<open>float(s)\<close> accept around a number: the
  controls \<^verbatim>\<open>0x1C\<close> to \<^verbatim>\<open>0x1F\<close>, which \<^verbatim>\<open>strip\<close> removes, are not part of it.
\<close>

definition is_number_space :: "char \<Rightarrow> bool" where
  "is_number_space c = (c \<in> set [CHR '' '', CHR 0x09, CHR 0x0A, CHR 0x0B, CHR 0x0C, CHR 0x0D,
                                  CHR 0x85, CHR 0xA0])"

definition strip_number :: "string \<Rightarrow> string" where
  "strip_number s = rev (dropWhile is_number_space (rev (dropWhile is_number_space s)))"

text \<open>
  The digits of a decimal literal: groups of digits separated by single underscores
  (\<^verbatim>\<open>int('1_000')\<close> is 1000), no group empty.
\<close>

definition digit_groups :: "string \<Rightarrow> nat option" where
  "digit_groups s =
     (let groups = split_on CHR ''_'' s
      in if [] \<in> set groups then None else parse_digits 0 (concat groups))"

text \<open>
  \<^verbatim>\<open>int(s)\<close> for a string: surrounding white space, an optional sign and the digits;
  \<^verbatim>\<open>ValueError\<close> otherwise. The interpreter's limit on the number of digits of the
  string (a setting of Python 3.11 and later) is left aside.
\<close>

definition py_int :: "string \<Rightarrow> int result" where
  "py_int s =
     (case strip_number s of
        [] \<Rightarrow> Inl (ValueError s)
      | c # cs \<Rightarrow>
          (if c = CHR ''-'' \<or> c = CHR ''+'' then
             (case digit_groups cs of
                Some n \<Rightarrow> Inr (if c = CHR ''-'' then - int n else int n)
              | None \<Rightarrow> Inl (ValueError s))
           else
             (case digit_groups (c # cs) of
                Some n \<Rightarrow> Inr (int n)
              | None \<Rightarrow> Inl (ValueError s))))"

text \<open>\<^verbatim>\<open>str(n)\<close> for an integer.\<close>

fun digits :: "nat \<Rightarrow> string" where
  "digits n = (if n < 10 then [''0123456789'' ! n]
               else digits (n div 10) @ [''0123456789'' ! (n mod 10)])"

declare digits.simps [simp del]

definition str_int :: "int \<Rightarrow> string" where
  "str_int i = (if i < 0 then CHR ''-'' # digits (nat (- i)) else digits (nat i))"

text \<open>\<^verbatim>\<open>'%s' % v\<close> and \<^verbatim>\<open>str(v)\<close> for a value that may be \<^verbatim>\<open>None\<close>.\<close>

definition str_opt_int :: "int option \<Rightarrow> string" where
  "str_opt_int v = (case v of None \<Rightarrow> ''None'' | Some i \<Rightarrow> str_int i)"

definition str_opt :: "string option \<Rightarrow> string" where
  "str_opt v = (case v of None \<Rightarrow> ''None'' | Some s \<Rightarrow> s)"

subsection \<open>The coercion helpers of \<^verbatim>\<open>utils\<close>\<close>

text \<open>
  Modelled from the spec: \<^verbatim>\<open>utils.int_or_none\<close> is imported from a module that is not
  among the sources. The specification lists it with the numeric coercion utilities,
  ``pure functions converting loosely-typed manifest attributes into typed values or
  \<^verbatim>\<open>None\<close>'', and has bitrates ``scaled \<open>\<div>\<close>1000 to kbit/s'' by it. Here: \<^verbatim>\<open>None\<close> for
  \<^verbatim>\<open>None\<close> and for a string that is not an integer, the integer floor-divided by
  \<open>scale\<close> otherwise.
\<close>

definition int_or_none :: "string option \<Rightarrow> int \<Rightarrow> int option" where
  "int_or_none v scale =
     (case v of
        None \<Rightarrow> None
      | Some s \<Rightarrow> (case py_int s of Inl e \<Rightarrow> None | Inr n \<Rightarrow> Some (n div scale)))"

text \<open>
  Modelled from the spec: \<^verbatim>\<open>utils.float_or_none\<close>, of the same group, on a number that
  may be \<^verbatim>\<open>None\<close>: the number divided by \<open>scale\<close>. Python's division by zero raises.
\<close>

definition float_or_none :: "rat option \<Rightarrow> rat \<Rightarrow> rat option result" where
  "float_or_none v scale =
     (case v of
        None \<Rightarrow> Inr None
      | Some x \<Rightarrow> (if scale = 0 then Inl ZeroDivisionError else Inr (Some (x / scale))))"

subsection \<open>The \<^verbatim>\<open>%\<close> operator on a template and a dictionary\<close>

text \<open>
  \<^verbatim>\<open>template % {key: number, ...}\<close>, for the conversions a DASH template is turned
  into: \<^verbatim>\<open>%%\<close>, and \<^verbatim>\<open>%(key)d\<close> with an optional \<^verbatim>\<open>0\<close> flag and width. A missing key
  raises \<^verbatim>\<open>KeyError\<close>, the value \<^verbatim>\<open>None\<close> raises \<^verbatim>\<open>TypeError\<close>, a template that ends
  inside a conversion raises \<^verbatim>\<open>ValueError\<close>. Any other conversion is outside the model
  (\<^const>\<open>Unmodelled\<close>). The scanner reads the template character by character and keeps
  what it is in the middle of.
\<close>

datatype scan = Plain | Percent | Key string | Spec string bool string

definition format_int :: "bool \<Rightarrow> string \<Rightarrow> int \<Rightarrow> string" where
  "format_int zero w n =
     (let body = digits (nat \<bar>n\<bar>);
          sign = (if n < 0 then ''-'' else '''');
          width = (case parse_digits 0 w of None \<Rightarrow> 0 | Some k \<Rightarrow> k);
          pad = width - (length sign + length body)
      in if zero then sign @ replicate pad (CHR ''0'') @ body
         else replicate pad (CHR '' '') @ sign @ body)"

fun py_format :: "scan \<Rightarrow> string \<Rightarrow> (string \<times> int option) list \<Rightarrow> string result" where
  "py_format Plain [] args = Inr []"
| "py_format Plain (c # cs) args =
     (if c = CHR ''%'' then py_format Percent cs args
      else bind (py_format Plain cs args) (\<lambda>r. Inr (c # r)))"
| "py_format Percent [] args = Inl (ValueError ''incomplete format'')"
| "py_format Percent (c # cs) args =
     (if c = CHR ''%'' then bind (py_format Plain cs args) (\<lambda>r. Inr (c # r))
      else if c = CHR ''('' then py_format (Key []) cs args
      else Inl (Unmodelled ''conversion without a key''))"
| "py_format (Key k) [] args = Inl (ValueError ''incomplete format key'')"
| "py_format (Key k) (c # cs) args =
     (if c = CHR '')'' then py_format (Spec k False []) cs args
      else py_format (Key (k @ [c])) cs args)"
| "py_format (Spec k zero w) [] args = Inl (ValueError ''incomplete format'')"
| "py_format (Spec k zero w) (c # cs) args =
     (if c = CHR ''0'' \<and> w = [] \<and> \<not> zero then py_format (Spec k True w) cs args
      else if index ''0123456789'' c \<noteq> None then py_format (Spec k zero (w @ [c])) cs args
      else if c = CHR ''d'' then
        (case map_of args k of
           None \<Rightarrow> Inl (KeyError k)
         | Some None \<Rightarrow> Inl (TypeError ''%d format: a number is required, not NoneType'')
         | Some (Some n) \<Rightarrow> bind (py_format Plain cs args) (\<lambda>r. Inr (format_int zero w n @ r)))
      else Inl (Unmodelled ''conversion''))"

section \<open>Element trees\<close>

text \<open>
  An \<^verbatim>\<open>xml.etree.ElementTree.Element\<close>: tag, attribute dictionary, text (which may be
  \<^verbatim>\<open>None\<close>) and children. \<^verbatim>\<open>e[i]\<close> indexes the children.
\<close>

datatype element =
  Element (tag: string) (attrib: "(string \<times> string) list") (etext: "string option")
          (children: "element list")

text \<open>\<^verbatim>\<open>e.get(k)\<close> and \<^verbatim>\<open>e.attrib.get(k)\<close>\<close>

definition attr :: "element \<Rightarrow> string \<Rightarrow> string option" where
  "attr e k = map_of (attrib e) k"

text \<open>
  \<^verbatim>\<open>e.find(path)\<close> and \<^verbatim>\<open>e.findall(path)\<close> for the paths the parsers use, which are
  single (namespace-qualified) tag names: the children with that tag.
\<close>

definition efind :: "element \<Rightarrow> string \<Rightarrow> element option" where
  "efind e path = List.find (\<lambda>c. tag c = path) (children e)"

definition findall :: "element \<Rightarrow> string \<Rightarrow> element list" where
  "findall e path = filter (\<lambda>c. tag c = path) (children e)"

text \<open>
  \<^verbatim>\<open>_xpath_ns(path, namespace)\<close>:
  \<^verbatim>\<open>if not namespace: return path\<close>, else every component of the path other than the
  empty one and \<^verbatim>\<open>.\<close> becomes \<^verbatim>\<open>'{%s}%s' % (namespace, c)\<close>.
\<close>

definition xpath_ns :: "string \<Rightarrow> string option \<Rightarrow> string" where
  "xpath_ns path namespace =
     (case namespace of
        None \<Rightarrow> path
      | Some ns \<Rightarrow>
          (if ns = [] then path
           else join ''/'' (map (\<lambda>c. if c = [] \<or> c = ''.'' then c else ''{'' @ ns @ ''}'' @ c)
                                (split_on CHR ''/'' path))))"

section \<open>Format descriptors\<close>

text \<open>
  A fragment of a fragmented format: \<^verbatim>\<open>{'url': ..., 'duration': ...}\<close>. The
  initialization fragment of a DASH format has no \<^verbatim>\<open>duration\<close> key.
\<close>

record fragment =
  frag_url :: "string option"
  frag_duration :: "rat slot"

text \<open>
  The value of the key \<^verbatim>\<open>_download_params\<close> of a Smooth Streaming format: what the
  fragment assembler needs to build container headers.
\<close>

record download_params =
  dp_duration :: int
  dp_timescale :: int
  dp_width :: int
  dp_height :: int
  dp_fourcc :: string
  codec_private_data :: "string option"
  sampling_rate :: "int option"
  channels :: "int option"
  bits_per_sample :: "int option"
  nal_unit_length_field :: "int option"

text \<open>
  The format descriptor: a dictionary with the keys of the class docstring that the
  parsers and the sort use.
\<close>

record format =
  format_id :: "string slot"
  url :: "string slot"
  manifest_url :: "string slot"
  ext :: "string slot"
  format_note :: "string slot"
  resolution :: "string slot"
  protocol :: "string slot"
  preference :: "rat slot"
  language :: "string slot"
  language_preference :: "rat slot"
  quality :: "rat slot"
  source_preference :: "rat slot"
  tbr :: "rat slot"
  abr :: "rat slot"
  vbr :: "rat slot"
  fps :: "rat slot"
  width :: "rat slot"
  height :: "rat slot"
  asr :: "rat slot"
  filesize :: "rat slot"
  filesize_approx :: "rat slot"
  vcodec :: "string slot"
  acodec :: "string slot"
  fragments :: "fragment list slot"
  download_params :: "download_params slot"

text \<open>The empty dictionary \<^verbatim>\<open>{}\<close>.\<close>

definition empty_format :: format where
  "empty_format = \<lparr>format_id = Absent, url = Absent, manifest_url = Absent, ext = Absent,
     format_note = Absent, resolution = Absent, protocol = Absent, preference = Absent,
     language = Absent, language_preference = Absent, quality = Absent,
     source_preference = Absent, tbr = Absent, abr = Absent, vbr = Absent, fps = Absent,
     width = Absent, height = Absent, asr = Absent, filesize = Absent,
     filesize_approx = Absent, vcodec = Absent, acodec = Absent, fragments = Absent,
     download_params = Absent\<rparr>"

text \<open>\<^verbatim>\<open>d.update(e)\<close> on descriptors.\<close>

definition update_format :: "format \<Rightarrow> format \<Rightarrow> format" where
  "update_format d e = \<lparr>
     format_id = update_slot (format_id d) (format_id e),
     url = update_slot (url d) (url e),
     manifest_url = update_slot (manifest_url d) (manifest_url e),
     ext = update_slot (ext d) (ext e),
     format_note = update_slot (format_note d) (format_note e),
     resolution = update_slot (resolution d) (resolution e),
     protocol = update_slot (protocol d) (protocol e),
     preference = update_slot (preference d) (preference e),
     language = update_slot (language d) (language e),
     language_preference = update_slot (language_preference d) (language_preference e),
     quality = update_slot (quality d) (quality e),
     source_preference = update_slot (source_preference d) (source_preference e),
     tbr = update_slot (tbr d) (tbr e),
     abr = update_slot (abr d) (abr e),
     vbr = update_slot (vbr d) (vbr e),
     fps = update_slot (fps d) (fps e),
     width = update_slot (width d) (width e),
     height = update_slot (height d) (height e),
     asr = update_slot (asr d) (asr e),
     filesize = update_slot (filesize d) (filesize e),
     filesize_approx = update_slot (filesize_approx d) (filesize_approx e),
     vcodec = update_slot (vcodec d) (vcodec e),
     acodec = update_slot (acodec d) (acodec e),
     fragments = update_slot (fragments d) (fragments e),
     download_params = update_slot (download_params d) (download_params e)\<rparr>"

section \<open>The environment of the module\<close>

text \<open>
  What the functions read from outside this file: the downloader option
  \<^verbatim>\<open>prefer_free_formats\<close>, the helpers of \<^verbatim>\<open>youtube_dl/utils.py\<close>,
  \<^verbatim>\<open>youtube_dl/compat.py\<close> and \<^verbatim>\<open>youtube_dl/downloader/f4m.py\<close> whose code is not
  among the sources, and the page fetcher. They are parameters: nothing is assumed about
  the values they return. A helper is taken to return a value; apart from the two
  fetchers, a helper that raises is outside the model. \<^verbatim>\<open>parse_codecs\<close> returns a
  dictionary with at most the keys \<^verbatim>\<open>vcodec\<close> and \<^verbatim>\<open>acodec\<close>, given here as the two
  entries. The fetchers
  \<^verbatim>\<open>_download_webpage_handle\<close> and \<^verbatim>\<open>_download_xml\<close> take the URL and the flag
  \<^verbatim>\<open>fatal\<close>; they raise, return \<^verbatim>\<open>False\<close> (\<open>None\<close> here), or return the document
  (for a page: its text and the final URL, \<^verbatim>\<open>urlh.geturl()\<close>).
\<close>

record environment =
  prefer_free_formats :: bool
  determine_ext :: "string option \<Rightarrow> string"
  determine_protocol :: "format \<Rightarrow> string"
  parse_duration :: "string option \<Rightarrow> rat option"
  mimetype2ext :: "string \<Rightarrow> string option"
  parse_codecs :: "string option \<Rightarrow> string slot \<times> string slot"
  urljoin :: "string \<Rightarrow> string \<Rightarrow> string option"
  compat_str :: "rat \<Rightarrow> string"
  urlparse_urljoin :: "string \<Rightarrow> string \<Rightarrow> string"
  parse_m3u8_attributes :: "string \<Rightarrow> (string \<rightharpoonup> string)"
  remove_encrypted_media :: "element list \<Rightarrow> element list"
  xpath_text :: "element \<Rightarrow> string list \<Rightarrow> string option"
  xpath_element :: "element \<Rightarrow> string list \<Rightarrow> element option"
  download_webpage_handle :: "string \<Rightarrow> bool \<Rightarrow> (string \<times> string) option result"
  download_xml :: "string \<Rightarrow> bool \<Rightarrow> element option result"

section \<open>The format selector: \<^verbatim>\<open>_sort_formats\<close>\<close>

text \<open>
  The first loop of \<^verbatim>\<open>_sort_formats\<close>:
  \<^verbatim>\<open>if 'tbr' not in f and f.get('abr') is not None and f.get('vbr') is not None:
      f['tbr'] = f['abr'] + f['vbr']\<close>
\<close>

definition synthesize_tbr :: "format \<Rightarrow> format" where
  "synthesize_tbr f =
     (case (tbr f, get (abr f), get (vbr f)) of
        (Absent, Some a, Some v) \<Rightarrow> f\<lparr>tbr := Val (a + v)\<rparr>
      | _ \<Rightarrow> f)"

text \<open>
  The workaround at the head of \<^verbatim>\<open>_formats_key\<close>, which writes to the descriptor:
  \<^verbatim>\<open>if not f.get('ext') and 'url' in f: f['ext'] = determine_ext(f['url'])\<close>
\<close>

definition derive_ext :: "environment \<Rightarrow> format \<Rightarrow> format" where
  "derive_ext E f =
     (if \<not> truthy (get (ext f)) \<and> url f \<noteq> Absent
      then f\<lparr>ext := Val (determine_ext E (get (url f)))\<rparr> else f)"

text \<open>
  The key tuple of \<^verbatim>\<open>_formats_key\<close> for \<^verbatim>\<open>field_preference=None\<close>: fifteen numbers
  and the format id, compared lexicographically as Python compares tuples (and strings).
\<close>

type_synonym sort_key =
  "rat \<times> rat \<times> rat \<times> rat \<times> rat \<times> rat \<times> rat \<times> rat \<times> rat \<times> rat \<times> rat \<times> rat \<times> rat \<times> rat \<times> rat \<times> string"

text \<open>\<^verbatim>\<open>f.get(field) if f.get(field) is not None else -1\<close>\<close>

definition or_minus_one :: "rat slot \<Rightarrow> rat" where
  "or_minus_one v = (case get v of None \<Rightarrow> - 1 | Some x \<Rightarrow> x)"

text \<open>
  \<^verbatim>\<open>try: ORDER.index(f['ext']) except ValueError: -1\<close>. The subscript \<^verbatim>\<open>f['ext']\<close>
  raises \<^verbatim>\<open>KeyError\<close> for a missing key, which the \<^verbatim>\<open>except\<close> clause does not catch.
\<close>

definition order_index :: "string list \<Rightarrow> string slot \<Rightarrow> rat result" where
  "order_index ORDER e =
     (case e of
        Absent \<Rightarrow> Inl (KeyError ''ext'')
      | Null \<Rightarrow> Inr (- 1)
      | Val x \<Rightarrow> Inr (case index ORDER x of None \<Rightarrow> - 1 | Some i \<Rightarrow> of_nat i))"

text \<open>
  \<^verbatim>\<open>_formats_key\<close>. It returns the descriptor as the call leaves it (its \<^verbatim>\<open>ext\<close> may
  have been written) together with the key. For a \<^verbatim>\<open>field_preference\<close> list the key is
  a tuple of the values of arbitrary fields, whose comparison depends on their types:
  that branch is outside the model (\<^const>\<open>Unmodelled\<close>). The value
  \<^verbatim>\<open>f.get('protocol') or determine_protocol(f)\<close> is computed before \<^verbatim>\<open>f['ext']\<close> is
  read.
\<close>

definition formats_key ::
    "environment \<Rightarrow> string list option \<Rightarrow> format \<Rightarrow> (format \<times> sort_key) result" where
  "formats_key E field_preference f0 =
     (let f = derive_ext E f0;
          preference0 =
            (case get (preference f) of
               Some p \<Rightarrow> p
             | None \<Rightarrow> (if get (ext f) \<in> {Some ''f4f'', Some ''f4m''} then 0 - 1 / 2 else 0));
          proto = (if truthy (get (protocol f)) then the (get (protocol f))
                   else determine_protocol E f);
          proto_preference =
            (if proto \<in> {''http'', ''https''} then 0
             else if proto = ''rtsp'' then - (1 / 2) else - (1 / 10))
      in if field_preference \<noteq> None then Inl (Unmodelled ''field_preference'')
         else bind
           (if get (vcodec f) = Some ''none''
            then bind
              (order_index
                 (if prefer_free_formats E
                  then [''aac'', ''mp3'', ''m4a'', ''webm'', ''ogg'', ''opus'']
                  else [''webm'', ''opus'', ''ogg'', ''mp3'', ''aac'', ''m4a''])
                 (ext f))
              (\<lambda>audio_ext_preference. Inr (preference0 - 50, 0, audio_ext_preference))
            else bind
              (order_index
                 (if prefer_free_formats E
                  then [''flv'', ''mp4'', ''webm'']
                  else [''webm'', ''flv'', ''mp4''])
                 (ext f))
              (\<lambda>ext_preference.
                 Inr (if get (acodec f) = Some ''none'' then preference0 - 40 else preference0,
                      ext_preference, 0)))
           (\<lambda>(preference1, ext_preference, audio_ext_preference).
              Inr (f,
                (preference1,
                 or_minus_one (language_preference f),
                 or_minus_one (quality f),
                 or_minus_one (tbr f),
                 or_minus_one (filesize f),
                 or_minus_one (vbr f),
                 or_minus_one (height f),
                 or_minus_one (width f),
                 proto_preference,
                 ext_preference,
                 or_minus_one (abr f),
                 audio_ext_preference,
                 or_minus_one (fps f),
                 or_minus_one (filesize_approx f),
                 or_minus_one (source_preference f),
                 (case get (format_id f) of None \<Rightarrow> [] | Some i \<Rightarrow> i)))))"

text \<open>
  \<^verbatim>\<open>_sort_formats(formats, field_preference)\<close>: the error for an empty list, the
  \<^verbatim>\<open>tbr\<close> loop, then
  \<^verbatim>\<open>formats.sort(key=_formats_key)\<close>. Python's \<^verbatim>\<open>list.sort\<close> calls the key function
  once for each element, in list order, and sorts stably by the keys; an exception of
  the key function leaves the call. The stable sort is \<^const>\<open>sort_key\<close>.
\<close>

definition sort_formats ::
    "environment \<Rightarrow> string list option \<Rightarrow> format list \<Rightarrow> format list result" where
  "sort_formats E field_preference formats =
     (if formats = [] then Inl (ExtractorError ''No video formats found'')
      else bind (traverse (formats_key E field_preference) (map synthesize_tbr formats))
             (\<lambda>keyed. Inr (map fst (sort_key snd keyed))))"

section \<open>The DASH parser: \<^verbatim>\<open>_parse_mpd_formats\<close>\<close>

text \<open>
  \<^verbatim>\<open>namespace = self._search_regex(r'(?i)^{([^}]+)?}MPD$', mpd_doc.tag, 'namespace',
  default=None)\<close>. \<^verbatim>\<open>_search_regex\<close> returns the first group that is not \<^verbatim>\<open>None\<close>
  with \<^verbatim>\<open>next(...)\<close>, which raises \<^verbatim>\<open>StopIteration\<close> when the tag is \<^verbatim>\<open>{}MPD\<close>:
  the pattern matches and its only group is empty. The pattern ignores case, and its
  \<^verbatim>\<open>$\<close> also matches before a line feed that ends the tag.
\<close>

definition ascii_lower :: "char \<Rightarrow> char" where
  "ascii_lower c = (case index ''ABCDEFGHIJKLMNOPQRSTUVWXYZ'' c of
                      None \<Rightarrow> c | Some i \<Rightarrow> ''abcdefghijklmnopqrstuvwxyz'' ! i)"

definition mpd_namespace :: "string \<Rightarrow> string option result" where
  "mpd_namespace t =
     (case t of
        [] \<Rightarrow> Inr None
      | c # cs \<Rightarrow>
          (if c = CHR ''{'' \<and>
              map ascii_lower (dropWhile (\<lambda>x. x \<noteq> CHR ''}'') cs)
                \<in> {''}mpd'', ''}mpd'' @ [CHR 0x0A]}
           then (if takeWhile (\<lambda>x. x \<noteq> CHR ''}'') cs = [] then Inl StopIteration
                 else Inr (Some (takeWhile (\<lambda>x. x \<noteq> CHR ''}'') cs)))
           else Inr None))"

text \<open>\<^verbatim>\<open>is_drm_protected(element)\<close>\<close>

definition is_drm_protected :: "string option \<Rightarrow> element \<Rightarrow> bool" where
  "is_drm_protected ns e = (efind e (xpath_ns ''ContentProtection'' ns) \<noteq> None)"

subsection \<open>The segment-addressing context\<close>

text \<open>One \<^verbatim>\<open>S\<close> element of a \<^verbatim>\<open>SegmentTimeline\<close>: \<^verbatim>\<open>{'t': ..., 'd': ..., 'r': ...}\<close>.\<close>

record s_entry =
  s_t :: int
  s_d :: int
  s_r :: int

text \<open>
  \<^verbatim>\<open>ms_info\<close>. The keys \<^verbatim>\<open>start_number\<close> and \<^verbatim>\<open>timescale\<close> are in the dictionary the
  walk starts from and are never removed; every other key may be missing. A fragment
  before its URL is joined to the base URL is a pair of URL and duration.
\<close>

type_synonym raw_fragment = "string \<times> rat slot"

record ms_info =
  start_number :: int
  timescale :: int
  total_number :: "int option"
  s_entries :: "s_entry list option"
  segment_duration :: "int option"
  initialization_url :: "string option"
  segment_urls :: "string list option"
  media_template :: "string option"
  ms_fragments :: "raw_fragment list option"

text \<open>\<^verbatim>\<open>int(e.get(k, 0))\<close>\<close>

definition int_attr_or_zero :: "element \<Rightarrow> string \<Rightarrow> int result" where
  "int_attr_or_zero e k = (case attr e k of None \<Rightarrow> Inr 0 | Some v \<Rightarrow> py_int v)"

text \<open>
  The body of the loop over the \<^verbatim>\<open>S\<close> elements in \<^verbatim>\<open>extract_common\<close>: first \<^verbatim>\<open>r\<close>,
  then \<^verbatim>\<open>t\<close>, then the mandatory \<^verbatim>\<open>d\<close> (\<^verbatim>\<open>s.attrib['d']\<close>).
\<close>

definition parse_s :: "element \<Rightarrow> s_entry result" where
  "parse_s e =
     bind (int_attr_or_zero e ''r'') (\<lambda>r.
     bind (int_attr_or_zero e ''t'') (\<lambda>t.
     bind (case attr e ''d'' of None \<Rightarrow> Inl (KeyError ''d'') | Some v \<Rightarrow> py_int v) (\<lambda>d.
       Inr \<lparr>s_t = t, s_d = d, s_r = r\<rparr>)))"

text \<open>\<^verbatim>\<open>v = source.get(k); if v: ms_info[key] = int(v)\<close>\<close>

definition int_if_given :: "string option \<Rightarrow> int option result" where
  "int_if_given v = (if truthy v then bind (py_int (the v)) (\<lambda>n. Inr (Some n)) else Inr None)"

definition extract_common :: "string option \<Rightarrow> element \<Rightarrow> ms_info \<Rightarrow> ms_info result" where
  "extract_common ns source ms_info =
     bind
       (case efind source (xpath_ns ''SegmentTimeline'' ns) of
          None \<Rightarrow> Inr ms_info
        | Some segment_timeline \<Rightarrow>
            (let s_e = findall segment_timeline (xpath_ns ''S'' ns)
             in if s_e = [] then Inr ms_info
                else bind (traverse parse_s s_e) (\<lambda>ss.
                  Inr (ms_info\<lparr>total_number := Some (sum_list (map (\<lambda>s. 1 + s_r s) ss)),
                               s_entries := Some ss\<rparr>))))
       (\<lambda>ms1.
     bind (int_if_given (attr source ''startNumber'')) (\<lambda>sn.
     bind (int_if_given (attr source ''timescale'')) (\<lambda>ts.
     bind (int_if_given (attr source ''duration'')) (\<lambda>sd.
       Inr (ms1\<lparr>start_number := (case sn of None \<Rightarrow> start_number ms1 | Some n \<Rightarrow> n),
                 timescale := (case ts of None \<Rightarrow> timescale ms1 | Some n \<Rightarrow> n),
                 segment_duration := (case sd of None \<Rightarrow> segment_duration ms1
                                      | Some n \<Rightarrow> Some n)\<rparr>)))))"

definition extract_Initialization :: "string option \<Rightarrow> element \<Rightarrow> ms_info \<Rightarrow> ms_info result" where
  "extract_Initialization ns source ms_info =
     (case efind source (xpath_ns ''Initialization'' ns) of
        None \<Rightarrow> Inr ms_info
      | Some initialization \<Rightarrow>
          (case attr initialization ''sourceURL'' of
             None \<Rightarrow> Inl (KeyError ''sourceURL'')
           | Some u \<Rightarrow> Inr (ms_info\<lparr>initialization_url := Some u\<rparr>)))"

definition extract_multisegment_info ::
    "string option \<Rightarrow> element \<Rightarrow> ms_info \<Rightarrow> ms_info result" where
  "extract_multisegment_info ns element ms_parent_info =
     (case efind element (xpath_ns ''SegmentList'' ns) of
        Some segment_list \<Rightarrow>
          bind (extract_common ns segment_list ms_parent_info) (\<lambda>ms1.
          bind (extract_Initialization ns segment_list ms1) (\<lambda>ms2.
            (let segment_urls_e = findall segment_list (xpath_ns ''SegmentURL'' ns)
             in if segment_urls_e = [] then Inr ms2
                else bind
                  (traverse (\<lambda>segment. case attr segment ''media'' of
                                          None \<Rightarrow> Inl (KeyError ''media'')
                                        | Some m \<Rightarrow> Inr m) segment_urls_e)
                  (\<lambda>urls. Inr (ms2\<lparr>segment_urls := Some urls\<rparr>)))))
      | None \<Rightarrow>
          (case efind element (xpath_ns ''SegmentTemplate'' ns) of
             None \<Rightarrow> Inr ms_parent_info
           | Some segment_template \<Rightarrow>
               bind (extract_common ns segment_template ms_parent_info) (\<lambda>ms1.
                 (let ms2 = (if truthy (attr segment_template ''media'')
                             then ms1\<lparr>media_template := attr segment_template ''media''\<rparr>
                             else ms1)
                  in if truthy (attr segment_template ''initialization'')
                     then Inr (ms2\<lparr>initialization_url :=
                                      attr segment_template ''initialization''\<rparr>)
                     else extract_Initialization ns segment_template ms2))))"

subsection \<open>The media template\<close>

text \<open>
  \<^verbatim>\<open>re.sub(r'\$(Number|Bandwidth|Time)\$', r'%(\1)d', t)\<close>: scanning from the left, each
  \<^verbatim>\<open>$Number$\<close>, \<^verbatim>\<open>$Bandwidth$\<close> or \<^verbatim>\<open>$Time$\<close> becomes \<^verbatim>\<open>%(Number)d\<close> and so on.
\<close>

definition identifiers :: "string list" where
  "identifiers = [''Number'', ''Bandwidth'', ''Time'']"

function sub_plain :: "string \<Rightarrow> string" where
  "sub_plain [] = []"
| "sub_plain (c # cs) =
     (case List.find (\<lambda>n. prefix (''$'' @ n @ ''$'') (c # cs)) identifiers of
        Some n \<Rightarrow> ''%('' @ n @ '')d'' @ sub_plain (drop (length n + 2) (c # cs))
      | None \<Rightarrow> c # sub_plain cs)"
  by pat_completeness auto
termination
  by (relation "measure length") auto

text \<open>
  \<^verbatim>\<open>re.sub(r'\$(Number|Bandwidth|Time)%([^$]+)\$', r'%(\1)\2', t)\<close>: after
  \<^verbatim>\<open>$Number%\<close> the greedy group takes every character up to the next \<^verbatim>\<open>$\<close>; the
  pattern matches when the group is not empty and that \<^verbatim>\<open>$\<close> exists.
\<close>

function sub_format :: "string \<Rightarrow> string" where
  "sub_format [] = []"
| "sub_format (c # cs) =
     (case List.find (\<lambda>n. prefix (''$'' @ n @ ''%'') (c # cs)) identifiers of
        Some n \<Rightarrow>
          (let rest = drop (length n + 2) (c # cs);
               spec = takeWhile (\<lambda>x. x \<noteq> CHR ''$'') rest;
               after = dropWhile (\<lambda>x. x \<noteq> CHR ''$'') rest
           in if spec \<noteq> [] \<and> after \<noteq> []
              then ''%('' @ n @ '')'' @ spec @ sub_format (tl after)
              else c # sub_format cs)
      | None \<Rightarrow> c # sub_format cs)"
  by pat_completeness auto
termination
  apply (relation "measure length")
     apply simp_all
  apply (rule le_less_trans [OF diff_le_self])
  apply (rule le_imp_less_Suc)
  apply (rule order_trans [OF length_dropWhile_le])
  apply simp
  done

text \<open>
  The four statements that turn the \<^verbatim>\<open>media\<close> attribute into a \<^verbatim>\<open>%\<close> template.
  \<^verbatim>\<open>str.replace\<close> with \<^verbatim>\<open>representation_id = None\<close> raises \<^verbatim>\<open>TypeError\<close>. The
  fourth statement, \<^verbatim>\<open>media_template.replace('$$', '$')\<close>, is an expression
  statement: its value is dropped and \<^verbatim>\<open>media_template\<close> stays as it was.
\<close>

definition prepare_media_template :: "string \<Rightarrow> string option \<Rightarrow> string result" where
  "prepare_media_template media_template0 representation_id =
     (case representation_id of
        None \<Rightarrow> Inl (TypeError ''replace() argument 2 must be str, not None'')
      | Some rid \<Rightarrow>
          (let media_template1 = replace media_template0 ''$RepresentationID$'' rid;
               media_template2 = sub_plain media_template1;
               media_template3 = sub_format media_template2;
               dropped = replace media_template3 ''$$'' ''$''
           in Inr media_template3))"

subsection \<open>Fragments of a Representation\<close>

text \<open>
  The branch \<^verbatim>\<open>'%(Number' in media_template and 's' not in representation_ms_info\<close>.
  The second operand of \<^verbatim>\<open>'total_number' not in representation_ms_info and
  'segment_duration'\<close> is a non-empty string literal, which is true.
\<close>

definition number_fragments ::
    "string \<Rightarrow> int option \<Rightarrow> rat option \<Rightarrow> ms_info \<Rightarrow> ms_info result" where
  "number_fragments template bandwidth period_duration ms =
     bind
       (if total_number ms = None then
          (case segment_duration ms of
             None \<Rightarrow> Inl (KeyError ''segment_duration'')
           | Some sd \<Rightarrow>
               bind (float_or_none (Some (of_int sd)) (of_int (timescale ms)))
                 (\<lambda>segment_duration1.
                    (case (period_duration, segment_duration1) of
                       (None, _) \<Rightarrow> Inl (TypeError ''float() argument must be a number'')
                     | (Some pd, None) \<Rightarrow> Inl (TypeError ''unsupported operand type'')
                     | (Some pd, Some d) \<Rightarrow>
                         (if d = 0 then Inl ZeroDivisionError
                          else Inr (segment_duration1,
                                    ms\<lparr>total_number := Some \<lceil>pd / d\<rceil>\<rparr>)))))
        else Inr (None, ms))
       (\<lambda>(segment_duration1, ms1).
          bind
            (traverse
               (\<lambda>segment_number.
                  bind (py_format Plain template
                          [(''Number'', Some segment_number), (''Bandwidth'', bandwidth)])
                    (\<lambda>u. Inr (u, store segment_duration1)))
               [start_number ms1 .. the (total_number ms1) + start_number ms1 - 1])
            (\<lambda>frags. Inr (ms1\<lparr>ms_fragments := Some frags\<rparr>)))"

text \<open>
  \<^verbatim>\<open>add_segment_url()\<close>: the closure reads \<^verbatim>\<open>segment_time\<close>, \<^verbatim>\<open>segment_d\<close> and
  \<^verbatim>\<open>segment_number\<close> and appends one fragment.
\<close>

definition add_segment_url ::
    "string \<Rightarrow> int option \<Rightarrow> int \<Rightarrow> int \<Rightarrow> int \<Rightarrow> int \<Rightarrow> raw_fragment list
       \<Rightarrow> raw_fragment list result" where
  "add_segment_url template bandwidth ts segment_time segment_d segment_number frags =
     bind (py_format Plain template
             [(''Time'', Some segment_time), (''Bandwidth'', bandwidth),
              (''Number'', Some segment_number)]) (\<lambda>segment_url.
     bind (float_or_none (Some (of_int segment_d)) (of_int ts)) (\<lambda>duration.
       Inr (frags @ [(segment_url, store duration)])))"

text \<open>
  The loop over the timeline, \<^verbatim>\<open>for num, s in enumerate(representation_ms_info['s'])\<close>,
  on the state \<open>(segment_time, segment_number, fragments)\<close>; \<open>repeat_segment\<close> is the
  body of the inner \<^verbatim>\<open>for r in range(s.get('r', 0))\<close>.
\<close>

definition repeat_segment ::
    "string \<Rightarrow> int option \<Rightarrow> int \<Rightarrow> int \<Rightarrow> nat \<Rightarrow> int \<times> int \<times> raw_fragment list
       \<Rightarrow> (int \<times> int \<times> raw_fragment list) result" where
  "repeat_segment template bandwidth ts segment_d r st =
     (case st of (segment_time, segment_number, frags) \<Rightarrow>
        bind (add_segment_url template bandwidth ts (segment_time + segment_d) segment_d
                segment_number frags)
          (\<lambda>frags1. Inr (segment_time + segment_d, segment_number + 1, frags1)))"

definition timeline_segment ::
    "string \<Rightarrow> int option \<Rightarrow> int \<Rightarrow> s_entry \<Rightarrow> int \<times> int \<times> raw_fragment list
       \<Rightarrow> (int \<times> int \<times> raw_fragment list) result" where
  "timeline_segment template bandwidth ts s st =
     (case st of (segment_time0, segment_number, frags) \<Rightarrow>
        (let segment_time = (if s_t s \<noteq> 0 then s_t s else segment_time0);
             segment_d = s_d s
         in bind (add_segment_url template bandwidth ts segment_time segment_d
                    segment_number frags) (\<lambda>frags1.
            bind (for_each (repeat_segment template bandwidth ts segment_d)
                    [0 ..< nat (s_r s)] (segment_time, segment_number + 1, frags1))
              (\<lambda>(segment_time2, segment_number2, frags2).
                 Inr (segment_time2 + segment_d, segment_number2, frags2)))))"

definition timeline_fragments :: "string \<Rightarrow> int option \<Rightarrow> ms_info \<Rightarrow> ms_info result" where
  "timeline_fragments template bandwidth ms =
     (case s_entries ms of
        None \<Rightarrow> Inl (KeyError ''s'')
      | Some ss \<Rightarrow>
          bind (for_each (timeline_segment template bandwidth (timescale ms)) ss
                  (0, start_number ms, []))
            (\<lambda>(segment_time, segment_number, frags). Inr (ms\<lparr>ms_fragments := Some frags\<rparr>)))"

text \<open>
  The branch \<^verbatim>\<open>'segment_urls' in representation_ms_info and 's' in
  representation_ms_info\<close>. \<^verbatim>\<open>s_num\<close> is set to \<open>0\<close> before the loop over the URLs and
  is not assigned again; the body reads \<^verbatim>\<open>representation_ms_info['s'][s_num]\<close> and
  appends \<^verbatim>\<open>s.get('r', 0) + 1\<close> fragments with the URL at hand.
\<close>

definition segment_list_url ::
    "s_entry list \<Rightarrow> int \<Rightarrow> nat \<Rightarrow> string \<Rightarrow> raw_fragment list \<Rightarrow> raw_fragment list result" where
  "segment_list_url ss ts s_num segment_url frags =
     (if s_num < length ss then
        for_each
          (\<lambda>r fs. bind (float_or_none (Some (of_int (s_d (ss ! s_num)))) (of_int ts))
                     (\<lambda>duration. Inr (fs @ [(segment_url, store duration)])))
          [0 ..< nat (s_r (ss ! s_num) + 1)] frags
      else Inl IndexError)"

definition segment_list_fragments :: "ms_info \<Rightarrow> ms_info result" where
  "segment_list_fragments ms =
     (let s_num = 0
      in bind (for_each (segment_list_url (the (s_entries ms)) (timescale ms) s_num)
                 (the (segment_urls ms)) [])
           (\<lambda>frags. Inr (ms\<lparr>ms_fragments := Some frags\<rparr>)))"

text \<open>
  The \<^verbatim>\<open>if\<close> / \<^verbatim>\<open>elif\<close> that fills \<^verbatim>\<open>representation_ms_info['fragments']\<close>, or leaves
  the key out.
\<close>

definition build_fragments ::
    "ms_info \<Rightarrow> string option \<Rightarrow> int option \<Rightarrow> rat option \<Rightarrow> ms_info result" where
  "build_fragments ms representation_id bandwidth period_duration =
     (if segment_urls ms = None \<and> media_template ms \<noteq> None then
        bind (prepare_media_template (the (media_template ms)) representation_id)
          (\<lambda>media_template1.
             if contains media_template1 ''%(Number'' \<and> s_entries ms = None
             then number_fragments media_template1 bandwidth period_duration ms
             else timeline_fragments media_template1 bandwidth ms)
      else if segment_urls ms \<noteq> None \<and> s_entries ms \<noteq> None then segment_list_fragments ms
      else Inr ms)"

subsection \<open>One Representation\<close>

text \<open>What a parser has produced so far: the formats and the warnings it reported.\<close>

record parser_state =
  formats :: "format list"
  warnings :: "string list"

text \<open>
  The state of the walk: the list \<^verbatim>\<open>formats\<close>, the parameter \<^verbatim>\<open>mpd_base_url\<close>, which
  the body assigns to (\<^verbatim>\<open>mpd_base_url += '/'\<close>), and the warnings handed to
  \<^verbatim>\<open>report_warning\<close>.
\<close>

record mpd_state = parser_state +
  mpd_base_url :: string

text \<open>
  The loop \<^verbatim>\<open>for element in (representation, adaptation_set, period, mpd_doc)\<close> that
  collects \<^verbatim>\<open>base_url\<close>; \<^verbatim>\<open>base_url_e.text + base_url\<close> raises \<^verbatim>\<open>TypeError\<close> for an
  element without text.
\<close>

fun collect_base_url :: "string option \<Rightarrow> element list \<Rightarrow> string \<Rightarrow> string result" where
  "collect_base_url ns [] base_url = Inr base_url"
| "collect_base_url ns (e # rest) base_url =
     (case efind e (xpath_ns ''BaseURL'' ns) of
        None \<Rightarrow> collect_base_url ns rest base_url
      | Some base_url_e \<Rightarrow>
          (case etext base_url_e of
             None \<Rightarrow> Inl (TypeError ''unsupported operand type(s) for +'')
           | Some t \<Rightarrow>
               (if is_http_url (t @ base_url) then Inr (t @ base_url)
                else collect_base_url ns rest (t @ base_url))))"

text \<open>
  \<^verbatim>\<open>if mpd_base_url and not re.match(r'^https?://', base_url): ...\<close>: the new
  \<^verbatim>\<open>mpd_base_url\<close> and \<^verbatim>\<open>base_url\<close>.
\<close>

definition join_mpd_base_url :: "string \<Rightarrow> string \<Rightarrow> string \<times> string" where
  "join_mpd_base_url mpd_base base_url =
     (if mpd_base \<noteq> [] \<and> \<not> is_http_url base_url then
        (let mpd_base1 = (if \<not> suffix ''/'' mpd_base \<and> \<not> prefix ''/'' base_url
                          then mpd_base @ ''/'' else mpd_base)
         in (mpd_base1, mpd_base1 @ base_url))
      else (mpd_base, base_url))"

text \<open>The dictionary \<^verbatim>\<open>f = {...}\<close> followed by \<^verbatim>\<open>f.update(parse_codecs(...))\<close>.\<close>

definition representation_format ::
    "environment \<Rightarrow> string option \<Rightarrow> string option \<Rightarrow> string option \<Rightarrow> element
       \<Rightarrow> (string \<rightharpoonup> string) \<Rightarrow> string \<Rightarrow> string \<Rightarrow> string \<Rightarrow> format" where
  "representation_format E ns mpd_id mpd_url representation_e representation_attrib mime_type
     content_type base_url =
     (let representation_id = representation_attrib ''id'';
          lang = representation_attrib ''lang'';
          url_el = efind representation_e (xpath_ns ''BaseURL'' ns);
          filesize1 = int_or_none
            (case url_el of
               None \<Rightarrow> None
             | Some e \<Rightarrow> attr e ''{http://youtube.com/yt/2012/10/10}contentLength'') 1;
          number = (\<lambda>v. store (map_option of_int v));
          codecs = parse_codecs E (representation_attrib ''codecs'')
      in empty_format\<lparr>
           format_id := (if truthy mpd_id
                         then Val (the mpd_id @ ''-'' @ str_opt representation_id)
                         else store representation_id),
           url := Val base_url,
           manifest_url := store mpd_url,
           ext := store (mimetype2ext E mime_type),
           width := number (int_or_none (representation_attrib ''width'') 1),
           height := number (int_or_none (representation_attrib ''height'') 1),
           tbr := number (int_or_none (representation_attrib ''bandwidth'') 1000),
           asr := number (int_or_none (representation_attrib ''audioSamplingRate'') 1),
           fps := number (int_or_none (representation_attrib ''frameRate'') 1),
           language := store (if lang \<in> {Some ''mul'', Some ''und'', Some ''zxx'', Some ''mis''}
                              then None else lang),
           format_note := Val (''DASH '' @ content_type),
           filesize := number filesize1,
           vcodec := fst codecs,
           acodec := snd codecs\<rparr>)"

text \<open>
  \<^verbatim>\<open>if 'fragments' in representation_ms_info: ...\<close>: the initialization fragment comes
  first and has no \<^verbatim>\<open>duration\<close> key; every fragment URL is then joined to \<^verbatim>\<open>base_url\<close>.
\<close>

definition add_fragments ::
    "environment \<Rightarrow> string \<Rightarrow> string option \<Rightarrow> int option \<Rightarrow> ms_info \<Rightarrow> format \<Rightarrow> format result" where
  "add_fragments E base_url representation_id bandwidth ms f =
     (case ms_fragments ms of
        None \<Rightarrow> Inr f
      | Some frags \<Rightarrow>
          (let f1 = f\<lparr>fragments := Val [], protocol := Val ''http_dash_segments''\<rparr>
           in bind
                (case initialization_url ms of
                   None \<Rightarrow> Inr (f1, [])
                 | Some iu \<Rightarrow>
                     (case representation_id of
                        None \<Rightarrow> Inl (TypeError ''replace() argument 2 must be str, not None'')
                      | Some rid \<Rightarrow>
                          (let initialization_url1 =
                                 replace (replace iu ''$RepresentationID$'' rid)
                                   ''$Bandwidth$'' (str_opt_int bandwidth)
                           in Inr (if \<not> truthy (get (url f1))
                                   then f1\<lparr>url := Val initialization_url1\<rparr> else f1,
                                   [(initialization_url1, Absent)]))))
                (\<lambda>(f2, init).
                   Inr (f2\<lparr>fragments :=
                              Val (map (\<lambda>(u, d). \<lparr>frag_url = urljoin E base_url u,
                                                   frag_duration = d\<rparr>)
                                     (init @ frags))\<rparr>))))"

text \<open>
  \<^verbatim>\<open>next(fo for fo in formats if fo['format_id'] == representation_id)\<close>: the position
  of the first format whose \<^verbatim>\<open>format_id\<close> equals the Representation's \<^verbatim>\<open>id\<close>, \<open>None\<close>
  for \<^verbatim>\<open>StopIteration\<close>.
\<close>

fun find_existing :: "format list \<Rightarrow> string option \<Rightarrow> nat option result" where
  "find_existing [] representation_id = Inr None"
| "find_existing (fo # rest) representation_id =
     (if format_id fo = Absent then Inl (KeyError ''format_id'')
      else if get (format_id fo) = representation_id then Inr (Some 0)
      else bind (find_existing rest representation_id) (\<lambda>r. Inr (map_option Suc r)))"

text \<open>
  The \<^verbatim>\<open>try\<close> / \<^verbatim>\<open>except StopIteration\<close> / \<^verbatim>\<open>else\<close> at the end of the body: a new
  descriptor is appended, or the one found is updated in place.
\<close>

definition merge_format ::
    "(string option \<rightharpoonup> format) \<Rightarrow> string option \<Rightarrow> format \<Rightarrow> format list \<Rightarrow> format list result" where
  "merge_format formats_dict representation_id f fs =
     bind (find_existing fs representation_id) (\<lambda>existing_format.
       (case existing_format of
          None \<Rightarrow>
            Inr (fs @ [update_format
                         (case formats_dict representation_id of
                            None \<Rightarrow> empty_format | Some full_info \<Rightarrow> full_info) f])
        | Some i \<Rightarrow> Inr (fs[i := update_format (fs ! i) f])))"

text \<open>The inputs of \<^verbatim>\<open>_parse_mpd_formats\<close> that stay fixed during the walk.\<close>

record mpd_input =
  mpd_doc :: element
  mpd_id :: "string option"
  formats_dict :: "string option \<rightharpoonup> format"
  mpd_url :: "string option"
  namespace :: "string option"

text \<open>
  The body of \<^verbatim>\<open>for representation in adaptation_set.findall(...)\<close>.
  \<^verbatim>\<open>representation_attrib['mimeType']\<close> raises \<^verbatim>\<open>KeyError\<close> when neither the
  Representation nor its AdaptationSet has the attribute.
\<close>

definition parse_representation ::
    "environment \<Rightarrow> mpd_input \<Rightarrow> element \<Rightarrow> rat option \<Rightarrow> element \<Rightarrow> ms_info \<Rightarrow> element
       \<Rightarrow> mpd_state \<Rightarrow> mpd_state result" where
  "parse_representation E I period period_duration adaptation_set adaption_set_ms_info
     representation_e st =
     (if is_drm_protected (namespace I) representation_e then Inr st
      else
        (let representation_attrib = map_of (attrib representation_e @ attrib adaptation_set)
         in case representation_attrib ''mimeType'' of
              None \<Rightarrow> Inl (KeyError ''mimeType'')
            | Some mime_type \<Rightarrow>
                (let content_type = (case split_on CHR ''/'' mime_type of
                                       [] \<Rightarrow> [] | w # ws \<Rightarrow> w)
                 in if content_type = ''text'' then Inr st
                    else if content_type = ''video'' \<or> content_type = ''audio'' then
                      bind (collect_base_url (namespace I)
                              [representation_e, adaptation_set, period, mpd_doc I] [])
                        (\<lambda>base_url0.
                      (case join_mpd_base_url (mpd_base_url st) base_url0 of
                         (mpd_base_url1, base_url) \<Rightarrow>
                      (let representation_id = representation_attrib ''id'';
                           bandwidth = int_or_none (representation_attrib ''bandwidth'') 1;
                           f = representation_format E (namespace I) (mpd_id I) (mpd_url I) representation_e
                                 representation_attrib mime_type content_type base_url
                       in bind (extract_multisegment_info (namespace I) representation_e
                                  adaption_set_ms_info) (\<lambda>representation_ms_info0.
                          bind (build_fragments representation_ms_info0 representation_id
                                  bandwidth period_duration) (\<lambda>representation_ms_info.
                          bind (add_fragments E base_url representation_id bandwidth
                                  representation_ms_info f) (\<lambda>f1.
                          bind (merge_format (formats_dict I) representation_id f1 (formats st))
                            (\<lambda>formats1.
                             Inr (st\<lparr>formats := formats1,
                                      mpd_base_url := mpd_base_url1\<rparr>))))))))
                    else Inr (st\<lparr>warnings := warnings st @
                                 [''Unknown MIME type '' @ mime_type @ '' in DASH manifest'']\<rparr>))))"

definition parse_adaptation_set ::
    "environment \<Rightarrow> mpd_input \<Rightarrow> element \<Rightarrow> rat option \<Rightarrow> ms_info \<Rightarrow> element
       \<Rightarrow> mpd_state \<Rightarrow> mpd_state result" where
  "parse_adaptation_set E I period period_duration period_ms_info adaptation_set st =
     (if is_drm_protected (namespace I) adaptation_set then Inr st
      else bind (extract_multisegment_info (namespace I) adaptation_set period_ms_info)
             (\<lambda>adaption_set_ms_info.
                for_each (parse_representation E I period period_duration adaptation_set
                            adaption_set_ms_info)
                  (findall adaptation_set (xpath_ns ''Representation'' (namespace I))) st))"

text \<open>\<^verbatim>\<open>x or y\<close> for numbers that may be \<^verbatim>\<open>None\<close>: \<open>x\<close> unless it is \<^verbatim>\<open>None\<close> or zero.\<close>

definition or_else :: "rat option \<Rightarrow> rat option \<Rightarrow> rat option" where
  "or_else x y = (case x of None \<Rightarrow> y | Some v \<Rightarrow> if v = 0 then y else x)"

definition parse_period ::
    "environment \<Rightarrow> mpd_input \<Rightarrow> rat option \<Rightarrow> element \<Rightarrow> mpd_state \<Rightarrow> mpd_state result" where
  "parse_period E I mpd_duration period st =
     (let period_duration = or_else (parse_duration E (attr period ''duration'')) mpd_duration
      in bind (extract_multisegment_info (namespace I) period
                 \<lparr>start_number = 1, timescale = 1, total_number = None, s_entries = None,
                  segment_duration = None, initialization_url = None, segment_urls = None,
                  media_template = None, ms_fragments = None\<rparr>)
           (\<lambda>period_ms_info.
              for_each (parse_adaptation_set E I period period_duration period_ms_info)
                (findall period (xpath_ns ''AdaptationSet'' (namespace I))) st))"

text \<open>
  \<^verbatim>\<open>_parse_mpd_formats(mpd_doc, mpd_id, mpd_base_url, formats_dict, mpd_url)\<close>. The
  result is the final state: its \<^const>\<open>formats\<close> is the list the function returns.
\<close>

definition parse_mpd_formats ::
    "environment \<Rightarrow> element \<Rightarrow> string option \<Rightarrow> string \<Rightarrow> (string option \<rightharpoonup> format)
       \<Rightarrow> string option \<Rightarrow> mpd_state result" where
  "parse_mpd_formats E doc id0 base_url0 dict0 url0 =
     (if attr doc ''type'' = Some ''dynamic''
      then Inr \<lparr>formats = [], warnings = [], mpd_base_url = base_url0\<rparr>
      else bind (mpd_namespace (tag doc)) (\<lambda>ns.
        (let I = \<lparr>mpd_doc = doc, mpd_id = id0, formats_dict = dict0, mpd_url = url0,
                  namespace = ns\<rparr>;
             mpd_duration = parse_duration E (attr doc ''mediaPresentationDuration'')
         in for_each (parse_period E I mpd_duration) (findall doc (xpath_ns ''Period'' ns))
              \<lparr>formats = [], warnings = [], mpd_base_url = base_url0\<rparr>)))"

section \<open>The Smooth Streaming parser: \<^verbatim>\<open>_parse_ism_formats\<close>\<close>

text \<open>\<^verbatim>\<open>a / b\<close> on numbers.\<close>

definition py_div :: "rat \<Rightarrow> rat \<Rightarrow> rat result" where
  "py_div a b = (if b = 0 then Inl ZeroDivisionError else Inr (a / b))"

text \<open>\<^verbatim>\<open>int_or_none(v) or default\<close>: the default also replaces zero.\<close>

definition int_or_default :: "string option \<Rightarrow> int \<Rightarrow> int" where
  "int_or_default v d =
     (case int_or_none v 1 of None \<Rightarrow> d | Some n \<Rightarrow> if n = 0 then d else n)"

text \<open>
  The body of \<^verbatim>\<open>for stream_fragment_index, stream_fragment in
  enumerate(stream_fragments)\<close>, on the state \<open>(fragment_ctx['time'], fragments)\<close>.
  When the chunk has no duration, the code reads
  \<^verbatim>\<open>stream_fragment[stream_fragment_index + 1].attrib['t']\<close>: the subscript is applied
  to the chunk element \<^verbatim>\<open>stream_fragment\<close>, so it selects a child of the chunk, and
  \<^verbatim>\<open>IndexError\<close> (the chunk has no such child) selects the stream duration.
\<close>

definition ism_fragment ::
    "environment \<Rightarrow> int \<Rightarrow> int \<Rightarrow> string \<Rightarrow> nat \<times> element \<Rightarrow> rat \<times> fragment list
       \<Rightarrow> (rat \<times> fragment list) result" where
  "ism_fragment E duration stream_timescale track_url_pattern indexed st =
     (case (indexed, st) of ((stream_fragment_index, stream_fragment), (time0, frags0)) \<Rightarrow>
        (let time1 = (case int_or_none (attr stream_fragment ''t'') 1 of
                        None \<Rightarrow> time0
                      | Some v \<Rightarrow> if v = 0 then time0 else of_int v);
             fragment_repeat = int_or_default (attr stream_fragment ''r'') 1;
             duration0 = int_or_none (attr stream_fragment ''d'') 1
         in bind
              (if duration0 = None \<or> duration0 = Some 0 then
                 bind
                   (if stream_fragment_index + 1 < length (children stream_fragment) then
                      (case attr (children stream_fragment ! (stream_fragment_index + 1)) ''t'' of
                         None \<Rightarrow> Inl (KeyError ''t'')
                       | Some v \<Rightarrow> py_int v)
                    else Inr duration)
                   (\<lambda>next_fragment_time.
                      py_div (of_int next_fragment_time - time1) (of_int fragment_repeat))
               else Inr (of_int (the duration0)))
              (\<lambda>fragment_duration.
                 for_each
                   (\<lambda>i (time, frags).
                      bind (py_div fragment_duration (of_int stream_timescale)) (\<lambda>d.
                        Inr (time + fragment_duration,
                             frags @ [\<lparr>frag_url = Some (replace_any
                                          [''{start time}'', ''{start_time}'']
                                          (compat_str E time) track_url_pattern),
                                       frag_duration = Val d\<rparr>])))
                   [0 ..< nat fragment_repeat] (time1, frags0))))"

text \<open>The body of \<^verbatim>\<open>for track in stream.findall('QualityLevel')\<close>.\<close>

definition ism_track ::
    "environment \<Rightarrow> string \<Rightarrow> string option \<Rightarrow> int \<Rightarrow> element \<Rightarrow> string \<Rightarrow> string
       \<Rightarrow> int \<Rightarrow> string option \<Rightarrow> element \<Rightarrow> parser_state \<Rightarrow> parser_state result" where
  "ism_track E ism_url ism_id duration stream stream_type url_pattern stream_timescale
     stream_name track st =
     (let fourcc = attr track ''FourCC''
      in if fourcc \<notin> {Some ''H264'', Some ''AVC1'', Some ''AACL''}
         then Inr (st\<lparr>warnings := warnings st @ [str_opt fourcc @ '' is not a supported codec'']\<rparr>)
         else
           (case attr track ''Bitrate'' of
              None \<Rightarrow> Inl (KeyError ''Bitrate'')
            | Some bitrate \<Rightarrow>
                bind (py_int bitrate) (\<lambda>bitrate_n.
                  (let tbr1 = bitrate_n div 1000;
                       width1 = int_or_none (attr track ''MaxWidth'') 1;
                       height1 = int_or_none (attr track ''MaxHeight'') 1;
                       sampling_rate1 = int_or_none (attr track ''SamplingRate'') 1;
                       track_url_pattern = urlparse_urljoin E ism_url
                         (replace_any [''{Bitrate}'', ''{bitrate}''] bitrate url_pattern);
                       stream_fragments = findall stream ''c'';
                       number = (\<lambda>v. store (map_option of_int v));
                       or_zero = (\<lambda>v. case v of None \<Rightarrow> 0 | Some n \<Rightarrow> n);
                       int_attr = (\<lambda>k d. case attr track k of
                                      None \<Rightarrow> Some d | Some v \<Rightarrow> int_or_none (Some v) 1)
                   in bind (for_each
                              (ism_fragment E duration stream_timescale track_url_pattern)
                              (List.enumerate 0 stream_fragments) (0, []))
                        (\<lambda>(time, frags).
                           Inr (st\<lparr>formats := formats st @
                             [empty_format\<lparr>
                                format_id := Val (join ''-''
                                  ((if truthy ism_id then [the ism_id] else []) @
                                   (if truthy stream_name then [the stream_name] else []) @
                                   [str_int tbr1])),
                                url := Val ism_url,
                                manifest_url := Val ism_url,
                                ext := Val (if stream_type = ''video'' then ''ismv'' else ''isma''),
                                width := number width1,
                                height := number height1,
                                tbr := Val (of_int tbr1),
                                asr := number sampling_rate1,
                                vcodec := (if stream_type = ''audio'' then Val ''none''
                                           else store fourcc),
                                acodec := (if stream_type = ''video'' then Val ''none''
                                           else store fourcc),
                                protocol := Val ''ism'',
                                fragments := Val frags,
                                download_params := Val \<lparr>
                                  dp_duration = duration,
                                  dp_timescale = stream_timescale,
                                  dp_width = or_zero width1,
                                  dp_height = or_zero height1,
                                  dp_fourcc = the fourcc,
                                  codec_private_data = attr track ''CodecPrivateData'',
                                  sampling_rate = sampling_rate1,
                                  channels = int_attr ''Channels'' 2,
                                  bits_per_sample = int_attr ''BitsPerSample'' 16,
                                  nal_unit_length_field = int_attr ''NALUnitLengthField'' 4\<rparr>\<rparr>]\<rparr>))))))"

text \<open>The body of \<^verbatim>\<open>for stream in ism_doc.findall('StreamIndex')\<close>.\<close>

definition ism_stream ::
    "environment \<Rightarrow> string \<Rightarrow> string option \<Rightarrow> int \<Rightarrow> int \<Rightarrow> element \<Rightarrow> parser_state
       \<Rightarrow> parser_state result" where
  "ism_stream E ism_url ism_id duration ts stream st =
     (case attr stream ''Type'' of
        None \<Rightarrow> Inr st
      | Some stream_type \<Rightarrow>
          (if stream_type \<noteq> ''video'' \<and> stream_type \<noteq> ''audio'' then Inr st
           else
             (case attr stream ''Url'' of
                None \<Rightarrow> Inl (KeyError ''Url'')
              | Some url_pattern \<Rightarrow>
                  for_each
                    (ism_track E ism_url ism_id duration stream stream_type url_pattern
                       (int_or_default (attr stream ''TimeScale'') ts) (attr stream ''Name''))
                    (findall stream ''QualityLevel'') st)))"

text \<open>\<^verbatim>\<open>_parse_ism_formats(ism_doc, ism_url, ism_id)\<close>\<close>

definition parse_ism_formats ::
    "environment \<Rightarrow> element \<Rightarrow> string \<Rightarrow> string option \<Rightarrow> parser_state result" where
  "parse_ism_formats E ism_doc ism_url ism_id =
     (if attr ism_doc ''IsLive'' = Some ''TRUE'' \<or> efind ism_doc ''Protection'' \<noteq> None
      then Inr \<lparr>formats = [], warnings = []\<rparr>
      else
        (case attr ism_doc ''Duration'' of
           None \<Rightarrow> Inl (KeyError ''Duration'')
         | Some duration_s \<Rightarrow>
             bind (py_int duration_s) (\<lambda>duration.
               for_each
                 (ism_stream E ism_url ism_id duration
                    (int_or_default (attr ism_doc ''TimeScale'') 10000000))
                 (findall ism_doc ''StreamIndex'') \<lparr>formats = [], warnings = []\<rparr>)))"

section \<open>The HLS parser: \<^verbatim>\<open>_extract_m3u8_formats\<close>\<close>

text \<open>
  \<^verbatim>\<open>_m3u8_meta_format(m3u8_url, ext, preference, m3u8_id)\<close>.
  \<^verbatim>\<open>'-'.join(filter(None, [m3u8_id, 'meta']))\<close> leaves out an empty or missing id;
  \<^verbatim>\<open>preference - 100 if preference else -100\<close> takes the second branch for \<^verbatim>\<open>None\<close>
  and for zero.
\<close>

definition m3u8_meta_format ::
    "string \<Rightarrow> string option \<Rightarrow> rat option \<Rightarrow> string option \<Rightarrow> format" where
  "m3u8_meta_format m3u8_url ext0 preference0 m3u8_id =
     empty_format\<lparr>
       format_id := Val (join ''-'' ((if truthy m3u8_id then [the m3u8_id] else []) @ [''meta''])),
       url := Val m3u8_url,
       ext := store ext0,
       protocol := Val ''m3u8'',
       preference := Val (case preference0 of
                            None \<Rightarrow> - 100
                          | Some p \<Rightarrow> if p = 0 then - 100 else p - 100),
       resolution := Val ''multiple'',
       format_note := Val ''Quality selection URL''\<rparr>"

text \<open>
  \<^verbatim>\<open>doc.splitlines()\<close>. A line ends at \<^verbatim>\<open>\\n\<close>, \<^verbatim>\<open>\\r\<close>, \<^verbatim>\<open>\\r\\n\<close> (one boundary),
  and at the controls \<^verbatim>\<open>0x0B\<close>, \<^verbatim>\<open>0x0C\<close>, \<^verbatim>\<open>0x1C\<close>, \<^verbatim>\<open>0x1D\<close>, \<^verbatim>\<open>0x1E\<close> and
  \<^verbatim>\<open>0x85\<close>; the boundaries are not part of the lines, and text after the last
  boundary is a line if it is not empty. The first argument is the line read so far, the
  second says that the last character was \<^verbatim>\<open>\\r\<close>.
\<close>

definition is_line_boundary :: "char \<Rightarrow> bool" where
  "is_line_boundary c = (c \<in> set [CHR 0x0B, CHR 0x0C, CHR 0x1C, CHR 0x1D, CHR 0x1E, CHR 0x85])"

fun splitlines_from :: "string \<Rightarrow> bool \<Rightarrow> string \<Rightarrow> string list" where
  "splitlines_from line cr [] = (if line = [] then [] else [line])"
| "splitlines_from line cr (c # cs) =
     (if c = CHR 0x0A then (if cr then splitlines_from [] False cs
                            else line # splitlines_from [] False cs)
      else if c = CHR 0x0D then line # splitlines_from [] True cs
      else if is_line_boundary c then line # splitlines_from [] False cs
      else splitlines_from (line @ [c]) False cs)"

definition splitlines :: "string \<Rightarrow> string list" where
  "splitlines doc = splitlines_from [] False doc"

text \<open>
  Modelled from the spec: \<^verbatim>\<open>utils.float_or_none\<close> on an attribute string, a pure
  function giving a typed value or \<^verbatim>\<open>None\<close>: a decimal number with an optional sign
  and fraction, divided by \<open>scale\<close>; \<^verbatim>\<open>None\<close> for \<^verbatim>\<open>None\<close> and for any other string.
\<close>

definition py_float :: "string \<Rightarrow> rat option" where
  "py_float s0 =
     (let s = strip_number s0;
          negative = prefix ''-'' s;
          body = (if prefix ''-'' s \<or> prefix ''+'' s then tl s else s);
          whole = takeWhile (\<lambda>c. c \<noteq> CHR ''.'') body;
          frac = (case dropWhile (\<lambda>c. c \<noteq> CHR ''.'') body of [] \<Rightarrow> [] | c # cs \<Rightarrow> cs)
      in if whole @ frac = [] then None
         else
           (case (parse_digits 0 whole, parse_digits 0 frac) of
              (Some w, Some f) \<Rightarrow>
                Some ((if negative then - 1 else 1) *
                      (of_nat w + of_nat f / of_nat (10 ^ length frac)))
            | _ \<Rightarrow> None))"

definition float_or_none_str :: "string option \<Rightarrow> rat \<Rightarrow> rat option" where
  "float_or_none_str v scale =
     (case v of None \<Rightarrow> None | Some s \<Rightarrow> map_option (\<lambda>x. x / scale) (py_float s))"

text \<open>
  \<^verbatim>\<open>re.search(r'(?P<width>\\d+)[xX](?P<height>\\d+)', resolution)\<close>: the first run of
  digits that is followed by \<^verbatim>\<open>x\<close> or \<^verbatim>\<open>X\<close> and a digit, and the run of digits after
  it. \<open>width_digits\<close> holds the digits of the run being read.
\<close>

definition is_digit :: "char \<Rightarrow> bool" where
  "is_digit c = (index ''0123456789'' c \<noteq> None)"

fun search_resolution :: "string \<Rightarrow> string \<Rightarrow> (string \<times> string) option" where
  "search_resolution width_digits [] = None"
| "search_resolution width_digits (c # cs) =
     (if is_digit c then search_resolution (width_digits @ [c]) cs
      else if width_digits \<noteq> [] \<and> (c = CHR ''x'' \<or> c = CHR ''X'') \<and>
              takeWhile is_digit cs \<noteq> []
      then Some (width_digits, takeWhile is_digit cs)
      else search_resolution [] cs)"

text \<open>
  \<^verbatim>\<open>re.search(r'audio.*?(?:%3D|=)(\\d+)(?:-video.*?(?:%3D|=)(\\d+))?', url)\<close> for a URL
  (which holds no line break): \<open>after_separator\<close> finds the first \<^verbatim>\<open>%3D\<close> or \<^verbatim>\<open>=\<close>
  that a digit follows and returns the digits and what comes after them.
\<close>

fun after_separator :: "string \<Rightarrow> (string \<times> string) option" where
  "after_separator [] = None"
| "after_separator (c # cs) =
     (let r = (if c = CHR ''='' then cs else if prefix ''%3D'' (c # cs) then drop 2 cs else [])
      in if takeWhile is_digit r \<noteq> []
         then Some (takeWhile is_digit r, dropWhile is_digit r)
         else after_separator cs)"

fun search_usp :: "string \<Rightarrow> (string \<times> string option) option" where
  "search_usp [] = None"
| "search_usp (c # cs) =
     (if prefix ''audio'' (c # cs) then
        (case after_separator (drop 4 cs) of
           None \<Rightarrow> None
         | Some (abr_digits, rest) \<Rightarrow>
             Some (abr_digits,
                   if prefix ''-video'' rest
                   then map_option fst (after_separator (drop 6 rest)) else None))
      else search_usp cs)"

text \<open>The variables the loop over the lines carries.\<close>

record m3u8_state =
  audio_in_video_stream :: "string \<rightharpoonup> bool"
  last_info :: "string \<rightharpoonup> string"
  last_media :: "string \<rightharpoonup> string"
  hls_formats :: "format list"

text \<open>\<^verbatim>\<open>a or b\<close> on optional strings.\<close>

definition or_str :: "string option \<Rightarrow> string option \<Rightarrow> string option" where
  "or_str a b = (if truthy a then a else b)"

text \<open>\<^verbatim>\<open>format_url = lambda u: u if re.match(r'^https?://', u) else urljoin(m3u8_url, u)\<close>\<close>

definition format_url :: "environment \<Rightarrow> string \<Rightarrow> string \<Rightarrow> string" where
  "format_url E m3u8_url u = (if is_http_url u then u else urlparse_urljoin E m3u8_url u)"

text \<open>The branch of the loop for a line that starts with \<^verbatim>\<open>#EXT-X-MEDIA:\<close>.\<close>

definition m3u8_media_line ::
    "environment \<Rightarrow> string \<Rightarrow> string option \<Rightarrow> string \<Rightarrow> rat option \<Rightarrow> string
       \<Rightarrow> m3u8_state \<Rightarrow> m3u8_state" where
  "m3u8_media_line E m3u8_url ext0 entry_protocol preference0 line st =
     (let media = parse_m3u8_attributes E line;
          media_type = media ''TYPE''
      in if media_type = Some ''VIDEO'' \<or> media_type = Some ''AUDIO'' then
           (let group_id = media ''GROUP-ID'';
                media_url = media ''URI''
            in if truthy media_url then
                 (let f = empty_format\<lparr>
                        format_id := Val (join ''-''
                          (map the (filter truthy [group_id, media ''NAME'']))),
                        url := Val (format_url E m3u8_url (the media_url)),
                        language := store (media ''LANGUAGE''),
                        ext := store ext0,
                        protocol := Val entry_protocol,
                        preference := store preference0\<rparr>
                  in if media_type = Some ''AUDIO''
                     then st\<lparr>
                       audio_in_video_stream :=
                         (if truthy group_id \<and>
                             audio_in_video_stream st (the group_id) \<noteq> Some True
                          then (audio_in_video_stream st)(the group_id \<mapsto> False)
                          else audio_in_video_stream st),
                       hls_formats := hls_formats st @ [f\<lparr>vcodec := Val ''none''\<rparr>]\<rparr>
                     else st\<lparr>hls_formats := hls_formats st @ [f]\<rparr>)
               else st\<lparr>
                 last_media := media,
                 audio_in_video_stream :=
                   (if media_type = Some ''AUDIO'' \<and> truthy group_id
                    then (audio_in_video_stream st)(the group_id \<mapsto> True)
                    else audio_in_video_stream st)\<rparr>)
         else st)"

text \<open>The last branch of the loop: the line is the URI of a stream.\<close>

definition m3u8_stream_line ::
    "environment \<Rightarrow> string \<Rightarrow> string option \<Rightarrow> string \<Rightarrow> rat option \<Rightarrow> string option
       \<Rightarrow> bool \<Rightarrow> string \<Rightarrow> m3u8_state \<Rightarrow> m3u8_state" where
  "m3u8_stream_line E m3u8_url ext0 entry_protocol preference0 m3u8_id live line st =
     (let tbr1 = int_or_none
                   (or_str (last_info st ''AVERAGE-BANDWIDTH'') (last_info st ''BANDWIDTH'')) 1000;
          stream_name = or_str (last_info st ''NAME'') (last_media st ''NAME'');
          format_id1 =
            (if truthy m3u8_id then [the m3u8_id] else []) @
            (if \<not> live
             then [if truthy stream_name then the stream_name
                   else str_int (if tbr1 \<noteq> None \<and> tbr1 \<noteq> Some 0 then the tbr1
                                 else int (length (hls_formats st)))]
             else []);
          manifest_url1 = format_url E m3u8_url (strip line);
          f = empty_format\<lparr>
                format_id := Val (join ''-'' format_id1),
                url := Val manifest_url1,
                manifest_url := Val manifest_url1,
                tbr := store (map_option of_int tbr1),
                ext := store ext0,
                fps := store (float_or_none_str (last_info st ''FRAME-RATE'') 1),
                protocol := Val entry_protocol,
                preference := store preference0\<rparr>;
          f1 = (case last_info st ''RESOLUTION'' of
                  None \<Rightarrow> f
                | Some res \<Rightarrow>
                    (case search_resolution [] res of
                       None \<Rightarrow> f
                     | Some (w, h) \<Rightarrow>
                         f\<lparr>width := store (map_option of_nat (parse_digits 0 w)),
                           height := store (map_option of_nat (parse_digits 0 h))\<rparr>));
          f2 = (case search_usp manifest_url1 of
                  None \<Rightarrow> f1
                | Some (abr1, vbr1) \<Rightarrow>
                    f1\<lparr>vbr := store (float_or_none_str vbr1 1000),
                       abr := store (float_or_none_str (Some abr1) 1000)\<rparr>);
          codecs = parse_codecs E (last_info st ''CODECS'');
          f3 = f2\<lparr>vcodec := update_slot (vcodec f2) (fst codecs),
                   acodec := update_slot (acodec f2) (snd codecs)\<rparr>;
          f4 = (if (case last_info st ''AUDIO'' of
                      None \<Rightarrow> None | Some g \<Rightarrow> audio_in_video_stream st g) = Some False
                then f3\<lparr>acodec := Val ''none''\<rparr> else f3)
      in st\<lparr>hls_formats := hls_formats st @ [f4], last_info := Map.empty,
             last_media := Map.empty\<rparr>)"

text \<open>The body of \<^verbatim>\<open>for line in m3u8_doc.splitlines()\<close>.\<close>

definition m3u8_line ::
    "environment \<Rightarrow> string \<Rightarrow> string option \<Rightarrow> string \<Rightarrow> rat option \<Rightarrow> string option
       \<Rightarrow> bool \<Rightarrow> string \<Rightarrow> m3u8_state \<Rightarrow> m3u8_state" where
  "m3u8_line E m3u8_url ext0 entry_protocol preference0 m3u8_id live line st =
     (if prefix ''#EXT-X-STREAM-INF:'' line
      then st\<lparr>last_info := parse_m3u8_attributes E line\<rparr>
      else if prefix ''#EXT-X-MEDIA:'' line
      then m3u8_media_line E m3u8_url ext0 entry_protocol preference0 line st
      else if prefix ''#'' line \<or> strip line = [] then st
      else m3u8_stream_line E m3u8_url ext0 entry_protocol preference0 m3u8_id live line st)"

text \<open>
  \<^verbatim>\<open>_extract_m3u8_formats(m3u8_url, video_id, ext, entry_protocol, preference, m3u8_id,
  note, errnote, fatal, live)\<close>; \<^verbatim>\<open>video_id\<close>, \<^verbatim>\<open>note\<close> and \<^verbatim>\<open>errnote\<close> only reach
  the messages of the fetcher and are left out.
\<close>

definition extract_m3u8_formats ::
    "environment \<Rightarrow> string \<Rightarrow> string option \<Rightarrow> string \<Rightarrow> rat option \<Rightarrow> string option
       \<Rightarrow> bool \<Rightarrow> bool \<Rightarrow> format list result" where
  "extract_m3u8_formats E m3u8_url0 ext0 entry_protocol preference0 m3u8_id fatal live =
     bind (download_webpage_handle E m3u8_url0 fatal) (\<lambda>res.
       (case res of
          None \<Rightarrow> Inr []
        | Some (m3u8_doc, m3u8_url) \<Rightarrow>
            (if contains m3u8_doc ''#EXT-X-TARGETDURATION''
             then Inr [empty_format\<lparr>url := Val m3u8_url, format_id := store m3u8_id,
                         ext := store ext0, protocol := Val entry_protocol,
                         preference := store preference0\<rparr>]
             else Inr (hls_formats
                    (fold (m3u8_line E m3u8_url ext0 entry_protocol preference0 m3u8_id live)
                       (splitlines m3u8_doc)
                       \<lparr>audio_in_video_stream = Map.empty, last_info = Map.empty,
                        last_media = Map.empty,
                        hls_formats = [m3u8_meta_format m3u8_url ext0 preference0 m3u8_id]\<rparr>)))))"

section \<open>The HDS parser: \<^verbatim>\<open>_parse_f4m_formats\<close>\<close>

text \<open>
  The test at the head of \<^verbatim>\<open>_parse_f4m_formats\<close>: whether the manifest is refused as
  an Akamai player verification challenge. \<^verbatim>\<open>';' in akamai_pv.text\<close> raises
  \<^verbatim>\<open>TypeError\<close> for an element without text.
\<close>

definition akamai_challenge :: "element \<Rightarrow> bool result" where
  "akamai_challenge manifest =
     (case efind manifest ''{http://ns.adobe.com/f4m/1.0}pv-2.0'' of
        None \<Rightarrow> Inr False
      | Some akamai_pv \<Rightarrow>
          (case etext akamai_pv of
             None \<Rightarrow> Inl (TypeError ''argument of type NoneType is not iterable'')
           | Some t \<Rightarrow>
               (if contains t '';'' then
                  (let playerVerificationChallenge =
                         (case split_on CHR '';'' t of [] \<Rightarrow> [] | w # ws \<Rightarrow> w)
                   in Inr (strip playerVerificationChallenge \<noteq> []))
                else Inr False)))"

text \<open>
  The body of \<^verbatim>\<open>for i, media_el in enumerate(media_nodes)\<close>, on the state
  \<open>(formats, manifest_url)\<close>: the loop assigns to the parameter \<^verbatim>\<open>manifest_url\<close>.
  \<open>extract\<close> stands for the recursive call \<^verbatim>\<open>self._extract_f4m_formats(manifest_url,
  video_id, preference=preference, f4m_id=f4m_id, transform_source=transform_source,
  fatal=fatal)\<close>.
\<close>

definition f4m_media ::
    "(string \<Rightarrow> format list result) \<Rightarrow> environment \<Rightarrow> rat option \<Rightarrow> string option \<Rightarrow> bool
       \<Rightarrow> string option \<Rightarrow> string \<Rightarrow> string option \<Rightarrow> element option \<Rightarrow> string option
       \<Rightarrow> nat \<times> element \<Rightarrow> format list \<times> string \<Rightarrow> (format list \<times> string) result" where
  "f4m_media extract E preference0 f4m_id fatal m3u8_id manifest_version base_url
     bootstrap_info vcodec0 indexed st =
     (case (indexed, st) of ((i, media_el), (fs, manifest_url0)) \<Rightarrow>
        (let tbr1 = int_or_none (attr media_el ''bitrate'') 1;
             width1 = int_or_none (attr media_el ''width'') 1;
             height1 = int_or_none (attr media_el ''height'') 1;
             number = (\<lambda>v. map_option of_int v);
             format_id1 = join ''-''
               ((if truthy f4m_id then [the f4m_id] else []) @
                [str_int (case tbr1 of None \<Rightarrow> int i | Some b \<Rightarrow> b)]);
             entry = (\<lambda>manifest_url1.
               empty_format\<lparr>
                 format_id := Val format_id1,
                 url := Val manifest_url1,
                 manifest_url := Val manifest_url1,
                 ext := (if bootstrap_info \<noteq> None then Val ''flv'' else Null),
                 tbr := store (number tbr1),
                 width := store (number width1),
                 height := store (number height1),
                 vcodec := store vcodec0,
                 preference := store preference0\<rparr>)
         in if bootstrap_info = None then
              (let media_url0 = (if manifest_version = ''2.0'' then attr media_el ''href''
                                 else None);
                   media_url = (if media_url0 = None then attr media_el ''url'' else media_url0)
               in if \<not> truthy media_url then Inr (fs, manifest_url0)
                  else
                    (let manifest_url1 =
                           (if is_http_url (the media_url) then the media_url
                            else (if truthy base_url then the base_url
                                  else join ''/'' (butlast (split_on CHR ''/'' manifest_url0)))
                                 @ ''/'' @ the media_url);
                         ext1 = determine_ext E (Some manifest_url1)
                     in if ext1 = ''f4m'' then
                          bind (extract manifest_url1) (\<lambda>f4m_formats.
                            Inr (fs @
                              (case f4m_formats of
                                 [f] \<Rightarrow>
                                   [f\<lparr>tbr := store (or_else (get (tbr f)) (number tbr1)),
                                      width := store (or_else (get (width f)) (number width1)),
                                      height := store (or_else (get (height f)) (number height1)),
                                      format_id := (if tbr1 = None \<or> tbr1 = Some 0
                                                    then store (get (format_id f))
                                                    else Val format_id1),
                                      vcodec := store vcodec0\<rparr>]
                               | _ \<Rightarrow> f4m_formats),
                              manifest_url1))
                        else if ext1 = ''m3u8'' then
                          bind (extract_m3u8_formats E manifest_url1 (Some ''mp4'') ''m3u8''
                                  preference0 m3u8_id fatal False) (\<lambda>m3u8_formats.
                            Inr (fs @ m3u8_formats, manifest_url1))
                        else Inr (fs @ [entry manifest_url1], manifest_url1)))
            else Inr (fs @ [entry manifest_url0], manifest_url0)))"

text \<open>The body of \<^verbatim>\<open>_parse_f4m_formats\<close>, with the recursive call as a parameter.\<close>

definition f4m_body ::
    "(string \<Rightarrow> format list result) \<Rightarrow> environment \<Rightarrow> element \<Rightarrow> string \<Rightarrow> rat option
       \<Rightarrow> string option \<Rightarrow> bool \<Rightarrow> string option \<Rightarrow> format list result" where
  "f4m_body extract E manifest manifest_url0 preference0 f4m_id fatal m3u8_id =
     bind (akamai_challenge manifest) (\<lambda>refused.
       if refused then Inr []
       else
         (let media_nodes1 = findall manifest ''{http://ns.adobe.com/f4m/1.0}media'';
              manifest_version = (if media_nodes1 = [] then ''2.0'' else ''1.0'');
              media_nodes2 = (if media_nodes1 = []
                              then findall manifest ''{http://ns.adobe.com/f4m/2.0}media''
                              else media_nodes1);
              media_nodes = remove_encrypted_media E media_nodes2
          in if media_nodes = [] then Inr []
             else
               (let base_url0 = xpath_text E manifest
                      [''{http://ns.adobe.com/f4m/1.0}baseURL'',
                       ''{http://ns.adobe.com/f4m/2.0}baseURL''];
                    base_url = (if truthy base_url0 then Some (strip (the base_url0))
                                else base_url0);
                    bootstrap_info = xpath_element E manifest
                      [''{http://ns.adobe.com/f4m/1.0}bootstrapInfo'',
                       ''{http://ns.adobe.com/f4m/2.0}bootstrapInfo''];
                    mime_type = xpath_text E manifest
                      [''{http://ns.adobe.com/f4m/1.0}mimeType'',
                       ''{http://ns.adobe.com/f4m/2.0}mimeType''];
                    vcodec0 = (if truthy mime_type \<and> prefix ''audio/'' (the mime_type)
                               then Some ''none'' else None)
                in bind (for_each
                           (f4m_media extract E preference0 f4m_id fatal m3u8_id
                              manifest_version base_url bootstrap_info vcodec0)
                           (List.enumerate 0 media_nodes) ([], manifest_url0))
                     (\<lambda>(fs, manifest_url1). Inr fs))))"

text \<open>
  \<^verbatim>\<open>_extract_f4m_formats\<close> fetches a manifest and hands it to \<^verbatim>\<open>_parse_f4m_formats\<close>,
  which calls \<^verbatim>\<open>_extract_f4m_formats\<close> for a media entry that is itself a manifest.
  Nothing in the code bounds this recursion; Python ends it with \<^verbatim>\<open>RecursionError\<close>.
  The first argument is the number of nested manifests that may still be fetched. The
  recursive call does not pass \<^verbatim>\<open>m3u8_id\<close> on.
\<close>

fun extract_f4m_formats ::
    "nat \<Rightarrow> environment \<Rightarrow> string \<Rightarrow> rat option \<Rightarrow> string option \<Rightarrow> bool \<Rightarrow> string option
       \<Rightarrow> format list result" where
  "extract_f4m_formats 0 E manifest_url0 preference0 f4m_id fatal m3u8_id = Inl RecursionError"
| "extract_f4m_formats (Suc depth) E manifest_url0 preference0 f4m_id fatal m3u8_id =
     bind (download_xml E manifest_url0 fatal) (\<lambda>manifest.
       (case manifest of
          None \<Rightarrow> Inr []
        | Some m \<Rightarrow>
            f4m_body (\<lambda>u. extract_f4m_formats depth E u preference0 f4m_id fatal None)
              E m manifest_url0 preference0 f4m_id fatal m3u8_id))"

text \<open>
  \<^verbatim>\<open>_parse_f4m_formats(manifest, manifest_url, video_id, preference, f4m_id,
  transform_source, fatal, m3u8_id)\<close>; \<^verbatim>\<open>video_id\<close> and \<^verbatim>\<open>transform_source\<close> only reach
  the fetcher and are left out.
\<close>

definition parse_f4m_formats ::
    "nat \<Rightarrow> environment \<Rightarrow> element \<Rightarrow> string \<Rightarrow> rat option \<Rightarrow> string option \<Rightarrow> bool
       \<Rightarrow> string option \<Rightarrow> format list result" where
  "parse_f4m_formats depth E manifest manifest_url0 preference0 f4m_id fatal m3u8_id =
     f4m_body (\<lambda>u. extract_f4m_formats depth E u preference0 f4m_id fatal None)
       E manifest manifest_url0 preference0 f4m_id fatal m3u8_id"

section \<open>Example inputs\<close>

text \<open>
  A choice of the environment: helpers that answer with fixed values, a fetcher that
  returns a master playlist of two streams, and an attribute parser that knows the two
  \<^verbatim>\<open>#EXT-X-STREAM-INF\<close> lines of that playlist. The other environments differ from it
  in the playlist that is fetched and in the lines the attribute parser knows.
\<close>

definition example_playlist :: string where
  "example_playlist =
     ''#EXTM3U'' @ [CHR 0x0A] @
     ''#EXT-X-STREAM-INF:BANDWIDTH=500000'' @ [CHR 0x0A] @
     ''low.m3u8'' @ [CHR 0x0A] @
     ''#EXT-X-STREAM-INF:BANDWIDTH=1500000'' @ [CHR 0x0A] @
     ''high.m3u8'' @ [CHR 0x0A]"

definition example_environment :: environment where
  "example_environment = \<lparr>
     prefer_free_formats = False,
     determine_ext = (\<lambda>u. ''mp4''),
     determine_protocol = (\<lambda>f. ''http''),
     parse_duration = (\<lambda>v. None),
     mimetype2ext = (\<lambda>m. Some ''mp4''),
     parse_codecs = (\<lambda>c. (Absent, Absent)),
     urljoin = (\<lambda>b u. Some (b @ u)),
     compat_str = (\<lambda>t. str_int \<lfloor>t\<rfloor>),
     urlparse_urljoin = (\<lambda>b u. b @ u),
     parse_m3u8_attributes =
       (\<lambda>line. if line = ''#EXT-X-STREAM-INF:BANDWIDTH=500000''
                then [''BANDWIDTH'' \<mapsto> ''500000'']
                else if line = ''#EXT-X-STREAM-INF:BANDWIDTH=1500000''
                then [''BANDWIDTH'' \<mapsto> ''1500000'']
                else Map.empty),
     remove_encrypted_media = (\<lambda>nodes. nodes),
     xpath_text = (\<lambda>e paths. None),
     xpath_element = (\<lambda>e paths. None),
     download_webpage_handle = (\<lambda>u fatal. Inr (Some (example_playlist, u))),
     download_xml = (\<lambda>u fatal. Inr None)\<rparr>"

text \<open>
  A master playlist whose two streams also give \<^verbatim>\<open>AVERAGE-BANDWIDTH\<close>, 400000 and
  1200000.
\<close>

definition average_playlist :: string where
  "average_playlist =
     ''#EXTM3U'' @ [CHR 0x0A] @
     ''#EXT-X-STREAM-INF:AVERAGE-BANDWIDTH=400000,BANDWIDTH=500000'' @ [CHR 0x0A] @
     ''low.m3u8'' @ [CHR 0x0A] @
     ''#EXT-X-STREAM-INF:AVERAGE-BANDWIDTH=1200000,BANDWIDTH=1500000'' @ [CHR 0x0A] @
     ''high.m3u8'' @ [CHR 0x0A]"

definition average_environment :: environment where
  "average_environment = example_environment\<lparr>
     parse_m3u8_attributes :=
       (\<lambda>line. if line = ''#EXT-X-STREAM-INF:AVERAGE-BANDWIDTH=400000,BANDWIDTH=500000''
                then [''AVERAGE-BANDWIDTH'' \<mapsto> ''400000'', ''BANDWIDTH'' \<mapsto> ''500000'']
                else if line = ''#EXT-X-STREAM-INF:AVERAGE-BANDWIDTH=1200000,BANDWIDTH=1500000''
                then [''AVERAGE-BANDWIDTH'' \<mapsto> ''1200000'', ''BANDWIDTH'' \<mapsto> ''1500000'']
                else Map.empty),
     download_webpage_handle := (\<lambda>u fatal. Inr (Some (average_playlist, u)))\<rparr>"

text \<open>
  A master playlist with an audio rendition (\<^verbatim>\<open>#EXT-X-MEDIA\<close>), a blank line, a comment
  and a \<^verbatim>\<open>\\r\\n\<close> line end around its two streams.
\<close>

definition rendition_playlist :: string where
  "rendition_playlist =
     ''#EXTM3U'' @ [CHR 0x0A] @
     ''#EXT-X-MEDIA:TYPE=AUDIO,GROUP-ID=aud,NAME=en,URI=audio.m3u8'' @ [CHR 0x0A] @
     ''#EXT-X-STREAM-INF:BANDWIDTH=500000'' @ [CHR 0x0A] @
     ''low.m3u8'' @ [CHR 0x0D, CHR 0x0A] @
     [CHR 0x0A] @
     ''#EXT-X-STREAM-INF:BANDWIDTH=1500000'' @ [CHR 0x0A] @
     ''# the best one'' @ [CHR 0x0A] @
     ''high.m3u8''"

definition rendition_environment :: environment where
  "rendition_environment = example_environment\<lparr>
     parse_m3u8_attributes :=
       (\<lambda>line. if line = ''#EXT-X-MEDIA:TYPE=AUDIO,GROUP-ID=aud,NAME=en,URI=audio.m3u8''
                then [''TYPE'' \<mapsto> ''AUDIO'', ''GROUP-ID'' \<mapsto> ''aud'', ''NAME'' \<mapsto> ''en'',
                      ''URI'' \<mapsto> ''audio.m3u8'']
                else parse_m3u8_attributes example_environment line),
     download_webpage_handle := (\<lambda>u fatal. Inr (Some (rendition_playlist, u)))\<rparr>"

text \<open>Three descriptors: audio only, video only, and both.\<close>

definition audio_only :: format where
  "audio_only = empty_format\<lparr>format_id := Val ''a'', url := Val ''http://h/a.m4a'', vcodec := Val ''none''\<rparr>"

definition muxed :: format where
  "muxed = empty_format\<lparr>format_id := Val ''m'', url := Val ''http://h/m.mp4'', ext := Val ''mp4''\<rparr>"

definition video_only :: format where
  "video_only = empty_format\<lparr>format_id := Val ''v'', url := Val ''http://h/v.mp4'', acodec := Val ''none''\<rparr>"

text \<open>
  A descriptor of a fragmented format that has its \<^verbatim>\<open>fragments\<close> and neither \<^verbatim>\<open>url\<close>
  nor \<^verbatim>\<open>ext\<close>.
\<close>

definition fragments_only :: format where
  "fragments_only = empty_format\<lparr>format_id := Val ''d'', protocol := Val ''http_dash_segments'',
     fragments := Val [\<lparr>frag_url = Some ''s1'', frag_duration = Absent\<rparr>]\<rparr>"

text \<open>
  DASH manifests. \<open>timeline_mpd\<close>: one Representation with a \<^verbatim>\<open>SegmentTemplate\<close> whose
  \<^verbatim>\<open>SegmentTimeline\<close> is the single entry \<^verbatim>\<open>{t: 0, d: 10, r: 2}\<close>, with timescale 1.
\<close>

definition timeline_mpd :: "string \<Rightarrow> element" where
  "timeline_mpd tmpl =
     Element ''MPD'' [] None
       [Element ''Period'' [] None
          [Element ''AdaptationSet'' [(''mimeType'', ''video/mp4'')] None
             [Element ''Representation'' [(''id'', ''v1''), (''bandwidth'', ''500000'')] None
                [Element ''SegmentTemplate'' [(''media'', tmpl), (''timescale'', ''1'')] None
                   [Element ''SegmentTimeline'' [] None
                      [Element ''S'' [(''t'', ''0''), (''d'', ''10''), (''r'', ''2'')] None []]]]]]]"

text \<open>Two Periods that each hold a Representation with the id \<^verbatim>\<open>1\<close>.\<close>

definition repeated_id_mpd :: element where
  "repeated_id_mpd =
     Element ''MPD'' [] None
       [Element ''Period'' [] None
          [Element ''AdaptationSet'' [(''mimeType'', ''video/mp4'')] None
             [Element ''Representation'' [(''id'', ''1''), (''bandwidth'', ''500000'')] None
                [Element ''BaseURL'' [] (Some ''a.mp4'') []]]],
        Element ''Period'' [] None
          [Element ''AdaptationSet'' [(''mimeType'', ''video/mp4'')] None
             [Element ''Representation'' [(''id'', ''1''), (''bandwidth'', ''800000'')] None
                [Element ''BaseURL'' [] (Some ''b.mp4'') []]]]]"

text \<open>
  A Representation with a \<^verbatim>\<open>SegmentList\<close> of three URLs and a timeline of two entries,
  \<^verbatim>\<open>{d: 10, r: 1}\<close> and \<^verbatim>\<open>{d: 20}\<close>: three segments in all.
\<close>

definition segment_list_mpd :: element where
  "segment_list_mpd =
     Element ''MPD'' [] None
       [Element ''Period'' [] None
          [Element ''AdaptationSet'' [(''mimeType'', ''video/mp4'')] None
             [Element ''Representation'' [(''id'', ''v1''), (''bandwidth'', ''500000'')] None
                [Element ''SegmentList'' [] None
                   [Element ''SegmentTimeline'' [] None
                      [Element ''S'' [(''d'', ''10''), (''r'', ''1'')] None [],
                       Element ''S'' [(''d'', ''20'')] None []],
                    Element ''SegmentURL'' [(''media'', ''a.m4s'')] None [],
                    Element ''SegmentURL'' [(''media'', ''b.m4s'')] None [],
                    Element ''SegmentURL'' [(''media'', ''c.m4s'')] None []]]]]]"

text \<open>Two Representations; the second has no \<^verbatim>\<open>mimeType\<close>, nor has its AdaptationSet.\<close>

definition good_representation :: element where
  "good_representation =
     Element ''Representation''
       [(''id'', ''good''), (''mimeType'', ''video/mp4''), (''bandwidth'', ''500000'')]
       None [Element ''BaseURL'' [] (Some ''a.mp4'') []]"

definition bad_representation :: element where
  "bad_representation =
     Element ''Representation'' [(''id'', ''bad''), (''bandwidth'', ''800000'')]
       None [Element ''BaseURL'' [] (Some ''b.mp4'') []]"

definition mixed_adaptation_set :: element where
  "mixed_adaptation_set =
     Element ''AdaptationSet'' [] None [good_representation, bad_representation]"

definition mixed_period :: element where
  "mixed_period = Element ''Period'' [] None [mixed_adaptation_set]"

definition missing_mime_mpd :: element where
  "missing_mime_mpd = Element ''MPD'' [] None [mixed_period]"

text \<open>The same Period after a Period whose only Representation is well formed.\<close>

definition good_period :: element where
  "good_period =
     Element ''Period'' [] None
       [Element ''AdaptationSet'' [(''mimeType'', ''audio/mp4'')] None
          [Element ''Representation'' [(''id'', ''audio''), (''bandwidth'', ''128000'')] None
             [Element ''BaseURL'' [] (Some ''c.mp4'') []]]]"

definition late_missing_mime_mpd :: element where
  "late_missing_mime_mpd = Element ''MPD'' [] None [good_period, mixed_period]"

text \<open>
  A Smooth Streaming manifest of duration 30 whose first chunk has no duration and whose
  second chunk starts at 10.
\<close>

definition two_chunk_ism :: element where
  "two_chunk_ism =
     Element ''SmoothStreamingMedia'' [(''Duration'', ''30''), (''TimeScale'', ''1'')] None
       [Element ''StreamIndex''
          [(''Type'', ''video''),
           (''Url'', ''QualityLevels({bitrate})/Fragments(video={start time})'')] None
          [Element ''QualityLevel'' [(''FourCC'', ''H264''), (''Bitrate'', ''1000000'')] None [],
           Element ''c'' [(''t'', ''0'')] None [],
           Element ''c'' [(''t'', ''10''), (''d'', ''20'')] None []]]"

text \<open>A Smooth Streaming manifest of duration 20 with one chunk, repeated twice.\<close>

definition repeated_chunk_ism :: element where
  "repeated_chunk_ism =
     Element ''SmoothStreamingMedia'' [(''Duration'', ''20''), (''TimeScale'', ''1'')] None
       [Element ''StreamIndex''
          [(''Type'', ''video''),
           (''Url'', ''QualityLevels({bitrate})/Fragments(video={start time})'')] None
          [Element ''QualityLevel'' [(''FourCC'', ''H264''), (''Bitrate'', ''1000000'')] None [],
           Element ''c'' [(''t'', ''0''), (''r'', ''2'')] None []]]"

text \<open>An F4M manifest with a player verification challenge and a media entry.\<close>

definition akamai_pv_element :: element where
  "akamai_pv_element =
     Element ''{http://ns.adobe.com/f4m/1.0}pv-2.0'' [] (Some ''Zm9v;hdntl=exp'') []"

definition akamai_manifest :: element where
  "akamai_manifest =
     Element ''{http://ns.adobe.com/f4m/1.0}manifest'' [] None
       [akamai_pv_element,
        Element ''{http://ns.adobe.com/f4m/1.0}media''
          [(''url'', ''stream''), (''bitrate'', ''800'')] None []]"

text \<open>The same manifest with a challenge text that holds no \<^verbatim>\<open>;\<close>.\<close>

definition plain_challenge_manifest :: element where
  "plain_challenge_manifest =
     Element ''{http://ns.adobe.com/f4m/1.0}manifest'' [] None
       [Element ''{http://ns.adobe.com/f4m/1.0}pv-2.0'' [] (Some ''Zm9v'') [],
        Element ''{http://ns.adobe.com/f4m/1.0}media''
          [(''url'', ''stream''), (''bitrate'', ''800'')] None []]"

section \<open>Properties of the format selector\<close>

lemma bind_Inr [simp]: "bind (Inr x) k = k x"
  by (simp add: bind_def)

lemma bind_Inl [simp]: "bind (Inl e) k = Inl e"
  by (simp add: bind_def)

lemma traverse_Inr:
  "(\<And>x. x \<in> set xs \<Longrightarrow> g x = Inr (h x)) \<Longrightarrow> traverse g xs = Inr (map h xs)"
  by (induction xs) simp_all

lemma traverse_Inl:
  assumes "\<And>x. x \<in> set xs \<Longrightarrow> g x = Inl e \<or> (\<exists>y. g x = Inr y)"
    and "\<exists>x\<in>set xs. g x = Inl e"
  shows "traverse g xs = Inl e"
  using assms
proof (induction xs)
  case Nil
  then show ?case by simp
next
  case (Cons a xs)
  show ?case
  proof (cases "g a")
    case (Inl e')
    with Cons.prems(1) [of a] show ?thesis by simp
  next
    case (Inr y)
    with Cons.prems(2) have "\<exists>x\<in>set xs. g x = Inl e" by auto
    with Cons.IH Cons.prems(1) have "traverse g xs = Inl e" by simp
    with Inr show ?thesis by simp
  qed
qed

lemma derive_ext_idem: "derive_ext E (derive_ext E f) = derive_ext E f"
  by (simp add: derive_ext_def)

lemma derive_ext_has_ext: "ext f \<noteq> Absent \<or> url f \<noteq> Absent \<Longrightarrow> ext (derive_ext E f) \<noteq> Absent"
  by (cases "ext f") (auto simp: derive_ext_def)

lemma order_index_total: "e \<noteq> Absent \<Longrightarrow> \<exists>i. order_index ORDER e = Inr i"
  by (cases e) (simp_all add: order_index_def)

lemma formats_key_fst: "formats_key E None f = Inr (f', k) \<Longrightarrow> f' = derive_ext E f"
  by (auto simp: formats_key_def Let_def bind_def split: sum.splits if_splits prod.splits)

lemma formats_key_derive_ext: "formats_key E None (derive_ext E f) = formats_key E None f"
  by (simp add: formats_key_def derive_ext_idem)

lemma formats_key_total:
  assumes "ext f \<noteq> Absent \<or> url f \<noteq> Absent"
  shows "\<exists>k. formats_key E None f = Inr (derive_ext E f, k)"
proof -
  have e: "ext (derive_ext E f) \<noteq> Absent"
    using assms by (rule derive_ext_has_ext)
  show ?thesis
  proof (cases "get (vcodec (derive_ext E f)) = Some ''none''")
    case True
    from order_index_total [OF e] obtain i where
      "order_index (if prefer_free_formats E
                  then [''aac'', ''mp3'', ''m4a'', ''webm'', ''ogg'', ''opus'']
                  else [''webm'', ''opus'', ''ogg'', ''mp3'', ''aac'', ''m4a'']) (ext (derive_ext E f)) = Inr i"
      by blast
    with True show ?thesis by (simp add: formats_key_def Let_def)
  next
    case False
    from order_index_total [OF e] obtain i where
      "order_index (if prefer_free_formats E
                  then [''flv'', ''mp4'', ''webm'']
                  else [''webm'', ''flv'', ''mp4'']) (ext (derive_ext E f)) = Inr i"
      by blast
    with False show ?thesis by (simp add: formats_key_def Let_def)
  qed
qed

lemma synthesize_tbr_url: "url (synthesize_tbr f) = url f"
  by (simp add: synthesize_tbr_def split: slot.splits option.splits)

lemma synthesize_tbr_ext: "ext (synthesize_tbr f) = ext f"
  by (simp add: synthesize_tbr_def split: slot.splits option.splits)

lemma sorted_le_last: "sorted ks \<Longrightarrow> k \<in> set ks \<Longrightarrow> k \<le> last (ks :: 'k::linorder list)"
  by (induction ks) auto

lemma less_by_fst: "fst x < fst y \<Longrightarrow> x < (y :: ('a::linorder) \<times> ('b::linorder))"
  by (cases x, cases y) (simp add: less_prod_def)

text \<open>
  A dictionary with neither \<^verbatim>\<open>ext\<close> nor \<^verbatim>\<open>url\<close>: the workaround leaves it as it is
  and the subscript \<^verbatim>\<open>f['ext']\<close> raises.
\<close>

lemma formats_key_without_ext:
  assumes "ext f = Absent" and "url f = Absent"
  shows "formats_key E None f = Inl (KeyError ''ext'')"
  using assms by (simp add: formats_key_def derive_ext_def order_index_def Let_def)

text \<open>The leading components of the key, read off the descriptor the call leaves.\<close>

lemma formats_key_components:
  assumes "formats_key E None f = Inr (f', k)"
  shows "fst k =
      (case get (preference f') of
         Some p \<Rightarrow> p
       | None \<Rightarrow> if get (ext f') \<in> {Some ''f4f'', Some ''f4m''} then - (1 / 2) else 0)
      - (if get (vcodec f') = Some ''none'' then 50
         else if get (acodec f') = Some ''none'' then 40 else 0) \<and>
    fst (snd k) = or_minus_one (language_preference f') \<and>
    fst (snd (snd k)) = or_minus_one (quality f') \<and>
    fst (snd (snd (snd k))) = or_minus_one (tbr f')"
proof (cases "get (vcodec (derive_ext E f)) = Some ''none''")
  case True
  show ?thesis
  proof (cases "order_index (if prefer_free_formats E
                  then [''aac'', ''mp3'', ''m4a'', ''webm'', ''ogg'', ''opus'']
                  else [''webm'', ''opus'', ''ogg'', ''mp3'', ''aac'', ''m4a''])
                 (ext (derive_ext E f))")
    case (Inl e)
    with True assms show ?thesis by (simp add: formats_key_def Let_def)
  next
    case (Inr i)
    with True assms have "f' = derive_ext E f" and "fst k =
        (case get (preference f') of
           Some p \<Rightarrow> p
         | None \<Rightarrow> if get (ext f') \<in> {Some ''f4f'', Some ''f4m''} then 0 - 1 / 2 else 0) - 50"
      and "fst (snd k) = or_minus_one (language_preference f')"
      and "fst (snd (snd k)) = or_minus_one (quality f')"
      and "fst (snd (snd (snd k))) = or_minus_one (tbr f')"
      by (auto simp add: formats_key_def Let_def)
    with True show ?thesis by (simp split: option.splits)
  qed
next
  case False
  show ?thesis
  proof (cases "order_index (if prefer_free_formats E
                  then [''flv'', ''mp4'', ''webm'']
                  else [''webm'', ''flv'', ''mp4''])
                 (ext (derive_ext E f))")
    case (Inl e)
    with False assms show ?thesis by (simp add: formats_key_def Let_def)
  next
    case (Inr i)
    with False assms have "f' = derive_ext E f" and "fst k =
        (if get (acodec f') = Some ''none''
         then (case get (preference f') of
                 Some p \<Rightarrow> p
               | None \<Rightarrow> if get (ext f') \<in> {Some ''f4f'', Some ''f4m''} then 0 - 1 / 2 else 0) - 40
         else (case get (preference f') of
                 Some p \<Rightarrow> p
               | None \<Rightarrow> if get (ext f') \<in> {Some ''f4f'', Some ''f4m''} then 0 - 1 / 2 else 0))"
      and "fst (snd k) = or_minus_one (language_preference f')"
      and "fst (snd (snd k)) = or_minus_one (quality f')"
      and "fst (snd (snd (snd k))) = or_minus_one (tbr f')"
      by (auto simp add: formats_key_def Let_def)
    with False show ?thesis by (simp split: option.splits)
  qed
qed

lemma formats_key_primary:
  assumes "get (preference f) = None" and "url f \<noteq> Absent"
  shows "\<exists>k. formats_key E None f = Inr (derive_ext E f, k) \<and>
     fst k = (if get (ext (derive_ext E f)) \<in> {Some ''f4f'', Some ''f4m''} then - (1 / 2) else 0)
       - (if get (vcodec f) = Some ''none'' then 50
          else if get (acodec f) = Some ''none'' then 40 else 0)"
proof -
  have p: "get (preference (derive_ext E f)) = None"
    and v: "vcodec (derive_ext E f) = vcodec f" and a: "acodec (derive_ext E f) = acodec f"
    using assms(1) by (simp_all add: derive_ext_def)
  from formats_key_total [of f E] assms(2) obtain k
    where k: "formats_key E None f = Inr (derive_ext E f, k)" by blast
  then have "fst k = (if get (ext (derive_ext E f)) \<in> {Some ''f4f'', Some ''f4m''} then - (1 / 2) else 0)
       - (if get (vcodec f) = Some ''none'' then 50
          else if get (acodec f) = Some ''none'' then 40 else 0)"
    using p v a
    by (auto simp: formats_key_def Let_def bind_def split: sum.splits if_splits)
  with k show ?thesis by blast
qed

text \<open>
  The three example descriptors: the call fills in their \<^verbatim>\<open>ext\<close> and orders them by
  the penalty of their codecs.
\<close>

lemma sorted_example:
  "sort_formats example_environment None [muxed, video_only, audio_only] =
     Inr [audio_only\<lparr>ext := Val ''mp4''\<rparr>, video_only\<lparr>ext := Val ''mp4''\<rparr>, muxed]"
  by (simp add: sort_formats_def synthesize_tbr_def formats_key_def derive_ext_def
      order_index_def or_minus_one_def muxed_def video_only_def audio_only_def
      empty_format_def example_environment_def Let_def less_eq_prod_def less_prod_def)

text \<open>
  C1, as stated, fails. The claim is about every non-empty list of descriptors, and a
  descriptor may have neither the key \<^verbatim>\<open>ext\<close> nor the key \<^verbatim>\<open>url\<close> (a fragmented
  format that is described by its \<^verbatim>\<open>fragments\<close>). On the list that holds the one
  descriptor \<open>fragments_only\<close> the call does not leave a sorted list: it raises
  \<^verbatim>\<open>KeyError('ext')\<close>.
\<close>

theorem descriptor_without_ext_counterexample:
  "sort_formats example_environment None [fragments_only] = Inl (KeyError ''ext'')"
  by (simp add: sort_formats_def fragments_only_def synthesize_tbr_def formats_key_def
      derive_ext_def order_index_def empty_format_def Let_def)

text \<open>
  C1, amended. \<^verbatim>\<open>_sort_formats\<close> raises \<^verbatim>\<open>ExtractorError('No video formats found')\<close>
  for the empty list. For a non-empty list and no \<^verbatim>\<open>field_preference\<close> there are two
  cases. If some descriptor has neither the key \<^verbatim>\<open>ext\<close> nor the key \<^verbatim>\<open>url\<close>, the call
  raises \<^verbatim>\<open>KeyError('ext')\<close>. If every descriptor has one of the two keys, the call
  returns; the list it leaves is a permutation of the descriptors (with \<^verbatim>\<open>tbr\<close> and
  \<^verbatim>\<open>ext\<close> filled in as the call does), the composite keys \<open>ks\<close> of its elements,
  computed again by \<^verbatim>\<open>_formats_key\<close>, are in ascending order, and the key of the last
  element is greater than or equal to every key. The first four components of each key
  are the \<^verbatim>\<open>preference\<close> of the descriptor (\<open>0\<close> when it has none, \<open>-0.5\<close> for the
  extensions \<^verbatim>\<open>f4f\<close> and \<^verbatim>\<open>f4m\<close>) lowered by the penalty of its codecs, and its
  \<^verbatim>\<open>language_preference\<close>, \<^verbatim>\<open>quality\<close> and \<^verbatim>\<open>tbr\<close>, with \<open>-1\<close> for a missing value.
  The numbers of the descriptors are finite: with a \<^verbatim>\<open>nan\<close> among them Python's order
  of the keys is not total, and \<^verbatim>\<open>list.sort\<close> need not sort.
\<close>

theorem sort_formats_sorted:
  "sort_formats E field_preference [] = Inl (ExtractorError ''No video formats found'') \<and>
   (L \<noteq> [] \<longrightarrow>
     ((\<exists>f\<in>set L. ext f = Absent \<and> url f = Absent) \<longrightarrow>
        sort_formats E None L = Inl (KeyError ''ext'')) \<and>
     ((\<forall>f\<in>set L. ext f \<noteq> Absent \<or> url f \<noteq> Absent) \<longrightarrow>
        (\<exists>L' ks. sort_formats E None L = Inr L' \<and>
           mset L' = mset (map (\<lambda>f. derive_ext E (synthesize_tbr f)) L) \<and>
           length ks = length L' \<and>
           map (formats_key E None) L' = map Inr (zip L' ks) \<and>
           map (\<lambda>k. (fst k, fst (snd k), fst (snd (snd k)), fst (snd (snd (snd k))))) ks =
             map (\<lambda>f. ((case get (preference f) of
                           Some p \<Rightarrow> p
                         | None \<Rightarrow> if get (ext f) \<in> {Some ''f4f'', Some ''f4m''}
                                   then - (1 / 2) else 0)
                        - (if get (vcodec f) = Some ''none'' then 50
                           else if get (acodec f) = Some ''none'' then 40 else 0),
                        or_minus_one (language_preference f),
                        or_minus_one (quality f),
                        or_minus_one (tbr f))) L' \<and>
           sorted ks \<and> (\<forall>k\<in>set ks. k \<le> last ks))))"
proof (intro conjI impI)
  show "sort_formats E field_preference [] = Inl (ExtractorError ''No video formats found'')"
    by (simp add: sort_formats_def)
next
  assume ne: "L \<noteq> []" and bad: "\<exists>f\<in>set L. ext f = Absent \<and> url f = Absent"
  have "traverse (formats_key E None) (map synthesize_tbr L) = Inl (KeyError ''ext'')"
  proof (rule traverse_Inl)
    fix f assume "f \<in> set (map synthesize_tbr L)"
    show "formats_key E None f = Inl (KeyError ''ext'') \<or> (\<exists>y. formats_key E None f = Inr y)"
    proof (cases "ext f = Absent \<and> url f = Absent")
      case True
      then show ?thesis by (simp add: formats_key_without_ext)
    next
      case False
      then have "ext f \<noteq> Absent \<or> url f \<noteq> Absent" by blast
      from formats_key_total [OF this, of E] show ?thesis by blast
    qed
  next
    from bad obtain f where "f \<in> set L" and "ext f = Absent" and "url f = Absent" by blast
    then have "synthesize_tbr f \<in> set (map synthesize_tbr L)"
      and "formats_key E None (synthesize_tbr f) = Inl (KeyError ''ext'')"
      by (simp_all add: formats_key_without_ext synthesize_tbr_ext synthesize_tbr_url)
    then show "\<exists>f\<in>set (map synthesize_tbr L). formats_key E None f = Inl (KeyError ''ext'')"
      by blast
  qed
  then show "sort_formats E None L = Inl (KeyError ''ext'')"
    using ne by (simp add: sort_formats_def)
next
  assume ne: "L \<noteq> []" and present: "\<forall>f\<in>set L. ext f \<noteq> Absent \<or> url f \<noteq> Absent"
  let ?pin = "\<lambda>f. ((case get (preference f) of
                           Some p \<Rightarrow> p
                         | None \<Rightarrow> if get (ext f) \<in> {Some ''f4f'', Some ''f4m''}
                                   then - (1 / 2) else 0)
                        - (if get (vcodec f) = Some ''none'' then 50
                           else if get (acodec f) = Some ''none'' then 40 else 0),
                        or_minus_one (language_preference f),
                        or_minus_one (quality f),
                        or_minus_one (tbr f))"
  let ?proj = "\<lambda>k :: sort_key. (fst k, fst (snd k), fst (snd (snd k)), fst (snd (snd (snd k))))"
  define h where "h f = (derive_ext E f, snd (projr (formats_key E None f)))" for f
  define keyed where "keyed = map h (map synthesize_tbr L)"
  have key_h: "formats_key E None f = Inr (h f)" if "ext f \<noteq> Absent \<or> url f \<noteq> Absent" for f
    using formats_key_total [OF that, of E] by (auto simp: h_def)
  have "traverse (formats_key E None) (map synthesize_tbr L) = Inr keyed"
    unfolding keyed_def
    by (rule traverse_Inr) (use present in \<open>auto simp: key_h synthesize_tbr_url synthesize_tbr_ext\<close>)
  then have res: "sort_formats E None L = Inr (map fst (sort_key snd keyed))"
    using ne by (simp add: sort_formats_def)
  have again: "formats_key E None (fst p) = Inr p" if "p \<in> set keyed" for p
  proof -
    from that obtain f where f: "f \<in> set L" and p: "p = h (synthesize_tbr f)"
      by (auto simp: keyed_def)
    have "ext (synthesize_tbr f) \<noteq> Absent \<or> url (synthesize_tbr f) \<noteq> Absent"
      using present f by (simp add: synthesize_tbr_url synthesize_tbr_ext)
    then have "formats_key E None (synthesize_tbr f) = Inr p"
      using p by (simp add: key_h)
    moreover have "fst p = derive_ext E (synthesize_tbr f)"
      by (simp add: p h_def)
    ultimately show ?thesis
      by (simp add: formats_key_derive_ext)
  qed
  have pinned: "?proj (snd p) = ?pin (fst p)" if "p \<in> set keyed" for p
  proof -
    from again [OF that] have "formats_key E None (fst p) = Inr (fst p, snd p)" by simp
    from formats_key_components [OF this] show ?thesis by simp
  qed
  let ?L' = "map fst (sort_key snd keyed)" and ?ks = "map snd (sort_key snd keyed)"
  have "mset ?L' = mset (map fst keyed)"
    by (metis mset_map mset_sort)
  then have perm: "mset ?L' = mset (map (\<lambda>f. derive_ext E (synthesize_tbr f)) L)"
    by (simp add: keyed_def h_def comp_def)
  have recompute: "map (formats_key E None) ?L' = map Inr (zip ?L' ?ks)"
    by (simp add: zip_map_fst_snd again)
  have pins: "map ?proj ?ks = map ?pin ?L'"
    by (simp add: pinned del: split_paired_All)
  have srt: "sorted ?ks"
    by (rule sorted_sort_key)
  then have "\<forall>k\<in>set ?ks. k \<le> last ?ks"
    by (blast intro: sorted_le_last)
  with res perm recompute pins srt
  show "\<exists>L' ks. sort_formats E None L = Inr L' \<and>
           mset L' = mset (map (\<lambda>f. derive_ext E (synthesize_tbr f)) L) \<and>
           length ks = length L' \<and>
           map (formats_key E None) L' = map Inr (zip L' ks) \<and>
           map ?proj ks = map ?pin L' \<and>
           sorted ks \<and> (\<forall>k\<in>set ks. k \<le> last ks)"
    by (intro exI [of _ ?L'] exI [of _ ?ks]) simp
qed

theorem sort_formats_sorted_witness:
  "[muxed, video_only, audio_only] \<noteq> [] \<and>
   url muxed \<noteq> Absent \<and> url video_only \<noteq> Absent \<and> url audio_only \<noteq> Absent \<and>
   sort_formats example_environment None [muxed, video_only, audio_only] =
     Inr [audio_only\<lparr>ext := Val ''mp4''\<rparr>, video_only\<lparr>ext := Val ''mp4''\<rparr>, muxed] \<and>
   (\<exists>ks. length ks = 3 \<and>
      map (formats_key example_environment None)
        [audio_only\<lparr>ext := Val ''mp4''\<rparr>, video_only\<lparr>ext := Val ''mp4''\<rparr>, muxed] =
      map Inr (zip [audio_only\<lparr>ext := Val ''mp4''\<rparr>, video_only\<lparr>ext := Val ''mp4''\<rparr>, muxed] ks) \<and>
      map fst ks = [- 50, - 40, 0] \<and> sorted ks \<and> (\<forall>k\<in>set ks. k \<le> last ks)) \<and>
   ext (fragments_only\<lparr>format_id := Val ''k''\<rparr>) = Absent \<and>
   url (fragments_only\<lparr>format_id := Val ''k''\<rparr>) = Absent \<and>
   sort_formats example_environment None [muxed, fragments_only\<lparr>format_id := Val ''k''\<rparr>]
     = Inl (KeyError ''ext'')"
proof -
  have 1: "url muxed \<noteq> Absent" "url video_only \<noteq> Absent" "url audio_only \<noteq> Absent"
    by (simp_all add: muxed_def video_only_def audio_only_def empty_format_def)
  have 2: "ext (fragments_only\<lparr>format_id := Val ''k''\<rparr>) = Absent"
    "url (fragments_only\<lparr>format_id := Val ''k''\<rparr>) = Absent"
    by (simp_all add: fragments_only_def empty_format_def)
  from sort_formats_sorted
    [where E = example_environment and L = "[muxed, video_only, audio_only]"
       and field_preference = None] 1
  have "\<exists>L' ks. sort_formats example_environment None [muxed, video_only, audio_only] = Inr L' \<and>
      mset L' = mset (map (\<lambda>f. derive_ext example_environment (synthesize_tbr f))
                             [muxed, video_only, audio_only]) \<and>
      length ks = length L' \<and>
      map (formats_key example_environment None) L' = map Inr (zip L' ks) \<and>
      map (\<lambda>k. (fst k, fst (snd k), fst (snd (snd k)), fst (snd (snd (snd k))))) ks =
             map (\<lambda>f. ((case get (preference f) of
                           Some p \<Rightarrow> p
                         | None \<Rightarrow> if get (ext f) \<in> {Some ''f4f'', Some ''f4m''}
                                   then - (1 / 2) else 0)
                        - (if get (vcodec f) = Some ''none'' then 50
                           else if get (acodec f) = Some ''none'' then 40 else 0),
                        or_minus_one (language_preference f),
                        or_minus_one (quality f),
                        or_minus_one (tbr f))) L' \<and>
      sorted ks \<and> (\<forall>k\<in>set ks. k \<le> last ks)"
    by simp
  then obtain L' ks where s: "sort_formats example_environment None [muxed, video_only, audio_only]
      = Inr L'"
    and k: "length ks = length L'"
      "map (formats_key example_environment None) L' = map Inr (zip L' ks)"
      "map (\<lambda>k. (fst k, fst (snd k), fst (snd (snd k)), fst (snd (snd (snd k))))) ks =
             map (\<lambda>f. ((case get (preference f) of
                           Some p \<Rightarrow> p
                         | None \<Rightarrow> if get (ext f) \<in> {Some ''f4f'', Some ''f4m''}
                                   then - (1 / 2) else 0)
                        - (if get (vcodec f) = Some ''none'' then 50
                           else if get (acodec f) = Some ''none'' then 40 else 0),
                        or_minus_one (language_preference f),
                        or_minus_one (quality f),
                        or_minus_one (tbr f))) L'"
      "sorted ks" "\<forall>k\<in>set ks. k \<le> last ks"
    by blast
  have L': "L' = [audio_only\<lparr>ext := Val ''mp4''\<rparr>, video_only\<lparr>ext := Val ''mp4''\<rparr>, muxed]"
    using s by (simp add: sorted_example)
  have "map fst (map (\<lambda>k. (fst k, fst (snd k), fst (snd (snd k)), fst (snd (snd (snd k))))) ks)
          = [- 50, - 40, 0]"
    unfolding k(3) L'
    by (simp add: muxed_def video_only_def audio_only_def empty_format_def)
  then have f: "map fst ks = [- 50, - 40, 0]"
    by (simp add: comp_def)
  from sort_formats_sorted
    [where E = example_environment and L = "[muxed, fragments_only\<lparr>format_id := Val ''k''\<rparr>]"
       and field_preference = None] 2
  have e: "sort_formats example_environment None [muxed, fragments_only\<lparr>format_id := Val ''k''\<rparr>]
     = Inl (KeyError ''ext'')"
    by simp
  from 1 2 s k f e show ?thesis
    unfolding L' by (intro conjI exI [of _ ks]) simp_all
qed


text \<open>
  C10. With no explicit \<^verbatim>\<open>preference\<close>, the first key component is the base value
  (\<open>0\<close>, or \<open>-0.5\<close> for the extensions \<^verbatim>\<open>f4f\<close> and \<^verbatim>\<open>f4m\<close>) lowered by 50 for an
  audio-only descriptor (\<^verbatim>\<open>vcodec == 'none'\<close>) and by 40 for a video-only one
  (\<^verbatim>\<open>acodec == 'none'\<close>, \<^verbatim>\<open>vcodec\<close> not); so the key of an audio-only descriptor is
  strictly below the key of a video-only one, which is strictly below the key of a
  descriptor with both, whatever their other fields are.
\<close>

theorem codec_penalty_order:
  assumes "get (preference a) = None" and "get (preference v) = None"
    and "get (preference m) = None"
    and "get (url a) \<noteq> None" and "get (url v) \<noteq> None" and "get (url m) \<noteq> None"
    and "get (vcodec a) = Some ''none''"
    and "get (vcodec v) \<noteq> Some ''none''" and "get (acodec v) = Some ''none''"
    and "get (vcodec m) \<noteq> Some ''none''" and "get (acodec m) \<noteq> Some ''none''"
  shows "\<exists>ka kv km.
     formats_key E None a = Inr (derive_ext E a, ka) \<and>
     formats_key E None v = Inr (derive_ext E v, kv) \<and>
     formats_key E None m = Inr (derive_ext E m, km) \<and>
     fst ka = (if get (ext (derive_ext E a)) \<in> {Some ''f4f'', Some ''f4m''}
               then - (1 / 2) else 0) - 50 \<and>
     fst kv = (if get (ext (derive_ext E v)) \<in> {Some ''f4f'', Some ''f4m''}
               then - (1 / 2) else 0) - 40 \<and>
     fst km = (if get (ext (derive_ext E m)) \<in> {Some ''f4f'', Some ''f4m''}
               then - (1 / 2) else 0) \<and>
     ka < kv \<and> kv < km"
proof -
  have present: "url a \<noteq> Absent" "url v \<noteq> Absent" "url m \<noteq> Absent"
    using assms(4,5,6) by auto
  from formats_key_primary [OF assms(1) present(1), of E] assms(7) obtain ka where
    ka: "formats_key E None a = Inr (derive_ext E a, ka)"
      "fst ka = (if get (ext (derive_ext E a)) \<in> {Some ''f4f'', Some ''f4m''}
               then - (1 / 2) else 0) - 50"
    by auto
  from formats_key_primary [OF assms(2) present(2), of E] assms(8,9) obtain kv where
    kv: "formats_key E None v = Inr (derive_ext E v, kv)"
      "fst kv = (if get (ext (derive_ext E v)) \<in> {Some ''f4f'', Some ''f4m''}
               then - (1 / 2) else 0) - 40"
    by auto
  from formats_key_primary [OF assms(3) present(3), of E] assms(10,11) obtain km where
    km: "formats_key E None m = Inr (derive_ext E m, km)"
      "fst km = (if get (ext (derive_ext E m)) \<in> {Some ''f4f'', Some ''f4m''}
               then - (1 / 2) else 0)"
    by auto
  have "fst ka < fst kv" using ka(2) kv(2) by (simp split: if_splits)
  then have 1: "ka < kv" by (rule less_by_fst)
  have "fst kv < fst km" using kv(2) km(2) by (simp split: if_splits)
  then have 2: "kv < km" by (rule less_by_fst)
  from ka kv km 1 2 show ?thesis by blast
qed

theorem codec_penalty_order_witness:
  "get (preference audio_only) = None \<and> get (preference video_only) = None \<and>
   get (preference muxed) = None \<and>
   get (url audio_only) \<noteq> None \<and> get (url video_only) \<noteq> None \<and>
   get (url muxed) \<noteq> None \<and>
   get (vcodec audio_only) = Some ''none'' \<and>
   get (vcodec video_only) \<noteq> Some ''none'' \<and> get (acodec video_only) = Some ''none'' \<and>
   get (vcodec muxed) \<noteq> Some ''none'' \<and> get (acodec muxed) \<noteq> Some ''none'' \<and>
   (\<exists>ka kv km.
     formats_key example_environment None audio_only = Inr (derive_ext example_environment audio_only, ka) \<and>
     formats_key example_environment None video_only = Inr (derive_ext example_environment video_only, kv) \<and>
     formats_key example_environment None muxed = Inr (derive_ext example_environment muxed, km) \<and>
     fst ka = - 50 \<and> fst kv = - 40 \<and> fst km = 0 \<and> ka < kv \<and> kv < km)"
  using codec_penalty_order [of audio_only video_only muxed example_environment]
  by (simp add: muxed_def video_only_def audio_only_def empty_format_def derive_ext_def
      example_environment_def)

section \<open>Properties of the DASH parser\<close>

lemmas mpd_walk_defs = parse_mpd_formats_def parse_period_def parse_adaptation_set_def
  parse_representation_def mpd_namespace_def attr_def findall_def efind_def xpath_ns_def
  is_drm_protected_def join_mpd_base_url_def is_http_url_def representation_format_def
  add_fragments_def merge_format_def or_else_def empty_format_def update_format_def
  str_opt_def str_opt_int_def

lemmas ms_info_defs = extract_multisegment_info_def extract_common_def
  extract_Initialization_def parse_s_def int_attr_or_zero_def int_if_given_def

lemmas number_defs = py_int_def strip_number_def is_number_space_def digit_groups_def
  int_or_none_def float_or_none_def str_int_def digits.simps format_int_def

lemmas fragment_defs = build_fragments_def timeline_fragments_def timeline_segment_def
  repeat_segment_def add_segment_url_def number_fragments_def segment_list_fragments_def
  segment_list_url_def upt_conv_Cons

text \<open>
  The timeline branch on any segment-addressing context with the timeline
  \<^verbatim>\<open>[{t: 0, d: 10, r: 2}]\<close> and timescale 1: three fragments, at the times 0, 10 and
  20 and the numbers \<^verbatim>\<open>start_number\<close>, \<^verbatim>\<open>start_number + 1\<close> and \<^verbatim>\<open>start_number + 2\<close>.
\<close>

lemma build_fragments_timeline:
  assumes "segment_urls ms = None" and "media_template ms = Some tmpl"
    and "s_entries ms = Some [\<lparr>s_t = 0, s_d = 10, s_r = 2\<rparr>]" and "timescale ms = 1"
    and "prepare_media_template tmpl rid = Inr t"
    and "py_format Plain t [(''Time'', Some 0), (''Bandwidth'', bw),
           (''Number'', Some (start_number ms))] = Inr u0"
    and "py_format Plain t [(''Time'', Some 10), (''Bandwidth'', bw),
           (''Number'', Some (start_number ms + 1))] = Inr u1"
    and "py_format Plain t [(''Time'', Some 20), (''Bandwidth'', bw),
           (''Number'', Some (start_number ms + 2))] = Inr u2"
  shows "build_fragments ms rid bw pd =
           Inr (ms\<lparr>ms_fragments := Some [(u0, Val 10), (u1, Val 10), (u2, Val 10)]\<rparr>)"
  using assms
  by (simp add: build_fragments_def timeline_fragments_def timeline_segment_def
      repeat_segment_def add_segment_url_def float_or_none_def upt_conv_Cons Let_def
      add.assoc)

text \<open>
  C2. A Representation whose \<^verbatim>\<open>SegmentTemplate\<close> has the timeline
  \<^verbatim>\<open>[{t: 0, d: 10, r: 2}]\<close> and timescale 1, with any non-empty media template:
  \<^verbatim>\<open>_parse_mpd_formats\<close> returns one descriptor with exactly three fragments. Their
  URLs are the template (as prepared into \<open>t\<close>) filled in with \<^verbatim>\<open>Time\<close> 0, 10 and 20
  and \<^verbatim>\<open>Number\<close> 1, 2 and 3, joined to the base URL, and each has the duration 10.
\<close>

theorem mpd_timeline_fragments:
  assumes "tmpl \<noteq> []"
    and "prepare_media_template tmpl (Some ''v1'') = Inr t"
    and "py_format Plain t [(''Time'', Some 0), (''Bandwidth'', Some 500000),
           (''Number'', Some 1)] = Inr u0"
    and "py_format Plain t [(''Time'', Some 10), (''Bandwidth'', Some 500000),
           (''Number'', Some 2)] = Inr u1"
    and "py_format Plain t [(''Time'', Some 20), (''Bandwidth'', Some 500000),
           (''Number'', Some 3)] = Inr u2"
  shows "\<exists>st f. parse_mpd_formats E (timeline_mpd tmpl) mpd_id0 [] Map.empty mpd_url0 = Inr st \<and>
           formats st = [f] \<and>
           fragments f = Val [\<lparr>frag_url = urljoin E [] u0, frag_duration = Val 10\<rparr>,
                              \<lparr>frag_url = urljoin E [] u1, frag_duration = Val 10\<rparr>,
                              \<lparr>frag_url = urljoin E [] u2, frag_duration = Val 10\<rparr>]"
  using assms
  by (simp add: timeline_mpd_def mpd_walk_defs ms_info_defs number_defs fragment_defs Let_def)


text \<open>
  The instance for the template \<^verbatim>\<open>seg-$Time$.m4s\<close>: the fragments are
  \<^verbatim>\<open>seg-0.m4s\<close>, \<^verbatim>\<open>seg-10.m4s\<close> and \<^verbatim>\<open>seg-20.m4s\<close>.
\<close>

theorem mpd_timeline_fragments_witness:
  "''seg-$Time$.m4s'' \<noteq> [] \<and>
   prepare_media_template ''seg-$Time$.m4s'' (Some ''v1'') = Inr ''seg-%(Time)d.m4s'' \<and>
   py_format Plain ''seg-%(Time)d.m4s'' [(''Time'', Some 0), (''Bandwidth'', Some 500000),
     (''Number'', Some 1)] = Inr ''seg-0.m4s'' \<and>
   py_format Plain ''seg-%(Time)d.m4s'' [(''Time'', Some 10), (''Bandwidth'', Some 500000),
     (''Number'', Some 2)] = Inr ''seg-10.m4s'' \<and>
   py_format Plain ''seg-%(Time)d.m4s'' [(''Time'', Some 20), (''Bandwidth'', Some 500000),
     (''Number'', Some 3)] = Inr ''seg-20.m4s'' \<and>
   (\<exists>st f. parse_mpd_formats example_environment (timeline_mpd ''seg-$Time$.m4s'') None []
              Map.empty None = Inr st \<and>
           formats st = [f] \<and>
           fragments f = Val [\<lparr>frag_url = Some ''seg-0.m4s'', frag_duration = Val 10\<rparr>,
                              \<lparr>frag_url = Some ''seg-10.m4s'', frag_duration = Val 10\<rparr>,
                              \<lparr>frag_url = Some ''seg-20.m4s'', frag_duration = Val 10\<rparr>])"
proof -
  have 1: "''seg-$Time$.m4s'' \<noteq> []" by simp
  have 2: "prepare_media_template ''seg-$Time$.m4s'' (Some ''v1'') = Inr ''seg-%(Time)d.m4s''"
    by (simp add: prepare_media_template_def identifiers_def)
  have 3: "py_format Plain ''seg-%(Time)d.m4s'' [(''Time'', Some 0), (''Bandwidth'', Some 500000),
     (''Number'', Some 1)] = Inr ''seg-0.m4s''"
    by (simp add: format_int_def digits.simps)
  have 4: "py_format Plain ''seg-%(Time)d.m4s'' [(''Time'', Some 10), (''Bandwidth'', Some 500000),
     (''Number'', Some 2)] = Inr ''seg-10.m4s''"
    by (simp add: format_int_def digits.simps)
  have 5: "py_format Plain ''seg-%(Time)d.m4s'' [(''Time'', Some 20), (''Bandwidth'', Some 500000),
     (''Number'', Some 3)] = Inr ''seg-20.m4s''"
    by (simp add: format_int_def digits.simps)
  from mpd_timeline_fragments [OF 1 2 3 4 5, of example_environment None None] 1 2 3 4 5
  show ?thesis by (simp add: example_environment_def)
qed

text \<open>
  C9. The statement \<^verbatim>\<open>media_template.replace('$$', '$')\<close> does not assign its result,
  so \<^verbatim>\<open>$$\<close> is not turned into \<^verbatim>\<open>$\<close>: for the media template
  \<^verbatim>\<open>seg$$-$Time$.m4s\<close> the prepared template is \<^verbatim>\<open>seg$$-%(Time)d.m4s\<close> and the three
  fragment URLs of \<open>timeline_mpd\<close> are \<^verbatim>\<open>seg$$-0.m4s\<close>, \<^verbatim>\<open>seg$$-10.m4s\<close> and
  \<^verbatim>\<open>seg$$-20.m4s\<close>, each with both dollar signs.
\<close>

theorem dollar_escape_kept:
  "prepare_media_template ''seg$$-$Time$.m4s'' (Some ''v1'') = Inr ''seg$$-%(Time)d.m4s'' \<and>
   (\<exists>st f. parse_mpd_formats E (timeline_mpd ''seg$$-$Time$.m4s'') None [] Map.empty None
             = Inr st \<and>
           formats st = [f] \<and>
           fragments f = Val [\<lparr>frag_url = urljoin E [] ''seg$$-0.m4s'', frag_duration = Val 10\<rparr>,
                              \<lparr>frag_url = urljoin E [] ''seg$$-10.m4s'', frag_duration = Val 10\<rparr>,
                              \<lparr>frag_url = urljoin E [] ''seg$$-20.m4s'', frag_duration = Val 10\<rparr>])"
  by (simp add: timeline_mpd_def mpd_walk_defs ms_info_defs number_defs fragment_defs Let_def
      prepare_media_template_def identifiers_def)

text \<open>
  C3. The lookup for an existing descriptor compares \<^verbatim>\<open>fo['format_id']\<close> with the bare
  Representation id, while \<^verbatim>\<open>format_id\<close> is built as \<^verbatim>\<open>mpd_id + '-' + id\<close>. With the
  prefix \<^verbatim>\<open>dash\<close>, the two Periods of \<open>repeated_id_mpd\<close> give two descriptors that
  both have the \<^verbatim>\<open>format_id\<close> \<^verbatim>\<open>dash-1\<close>; without a prefix the second occurrence is
  merged into the first and one descriptor is returned, with the later URL.
\<close>

theorem repeated_id_duplicated:
  "(\<exists>st. parse_mpd_formats E repeated_id_mpd (Some ''dash'') [] Map.empty None = Inr st \<and>
      map format_id (formats st) = [Val ''dash-1'', Val ''dash-1''] \<and>
      map url (formats st) = [Val ''a.mp4'', Val ''b.mp4'']) \<and>
   (\<exists>st. parse_mpd_formats E repeated_id_mpd None [] Map.empty None = Inr st \<and>
      map format_id (formats st) = [Val ''1''] \<and>
      map url (formats st) = [Val ''b.mp4''])"
  by (simp add: repeated_id_mpd_def mpd_walk_defs ms_info_defs number_defs fragment_defs Let_def)

text \<open>
  The \<^verbatim>\<open>SegmentList\<close> branch in general: every URL is repeated \<open>r + 1\<close> times, with
  \<open>r\<close> and \<open>d\<close> of the first timeline entry.
\<close>

lemma for_each_append:
  "for_each (\<lambda>r fs. Inr (fs @ [x])) rs frags = Inr (frags @ replicate (length rs) x)"
  by (induction rs arbitrary: frags) (simp_all add: replicate_append_same)

lemma segment_list_url_eq:
  assumes "ts \<noteq> 0"
  shows "segment_list_url (s0 # ss) ts 0 u frags =
     Inr (frags @ replicate (nat (s_r s0 + 1)) (u, Val (of_int (s_d s0) / of_int ts)))"
  using assms by (simp add: segment_list_url_def float_or_none_def for_each_append)

lemma for_each_segment_list_url:
  assumes "ts \<noteq> 0"
  shows "for_each (segment_list_url (s0 # ss) ts 0) urls frags =
     Inr (frags @ concat (map (\<lambda>u. replicate (nat (s_r s0 + 1))
                             (u, Val (of_int (s_d s0) / of_int ts))) urls))"
  by (induction urls arbitrary: frags) (simp_all add: segment_list_url_eq [OF assms])

lemma segment_list_fragments_eq:
  assumes "s_entries ms = Some (s0 # ss)" and "segment_urls ms = Some urls"
    and "timescale ms \<noteq> 0"
  shows "segment_list_fragments ms =
     Inr (ms\<lparr>ms_fragments := Some (concat (map (\<lambda>u. replicate (nat (s_r s0 + 1))
              (u, Val (of_int (s_d s0) / of_int (timescale ms)))) urls))\<rparr>)"
  using assms by (simp add: segment_list_fragments_def for_each_segment_list_url)

text \<open>
  C4. In the \<^verbatim>\<open>SegmentList\<close> branch \<^verbatim>\<open>s_num\<close> stays \<open>0\<close>: every URL of the list
  is emitted \<open>r + 1\<close> times with the \<open>r\<close> and \<open>d\<close> of the first timeline entry. For
  \<open>segment_list_mpd\<close> (URLs \<^verbatim>\<open>a\<close>, \<^verbatim>\<open>b\<close>, \<^verbatim>\<open>c\<close>; timeline \<^verbatim>\<open>{d: 10, r: 1}\<close>,
  \<^verbatim>\<open>{d: 20}\<close>) the fragments are \<^verbatim>\<open>a, a, b, b, c, c\<close>, all of duration 10: the second
  fragment is not the second URL, and no fragment has the duration 20.
\<close>

theorem segment_list_urls_repeated:
  "\<exists>st f. parse_mpd_formats E segment_list_mpd None [] Map.empty None = Inr st \<and>
     formats st = [f] \<and>
     fragments f = Val [\<lparr>frag_url = urljoin E [] ''a.m4s'', frag_duration = Val 10\<rparr>,
                        \<lparr>frag_url = urljoin E [] ''a.m4s'', frag_duration = Val 10\<rparr>,
                        \<lparr>frag_url = urljoin E [] ''b.m4s'', frag_duration = Val 10\<rparr>,
                        \<lparr>frag_url = urljoin E [] ''b.m4s'', frag_duration = Val 10\<rparr>,
                        \<lparr>frag_url = urljoin E [] ''c.m4s'', frag_duration = Val 10\<rparr>,
                        \<lparr>frag_url = urljoin E [] ''c.m4s'', frag_duration = Val 10\<rparr>]"
  by (simp add: segment_list_mpd_def mpd_walk_defs ms_info_defs number_defs fragment_defs Let_def)

text \<open>
  C7, as stated, fails: in \<open>missing_mime_mpd\<close> the first Representation is well formed
  and the second lacks \<^verbatim>\<open>mimeType\<close>; the call raises \<^verbatim>\<open>KeyError('mimeType')\<close> and
  returns no descriptor, the one of the first Representation included.
\<close>

theorem missing_mimeType_counterexample:
  "parse_mpd_formats example_environment missing_mime_mpd None [] Map.empty None
     = Inl (KeyError ''mimeType'')"
  by (simp add: missing_mime_mpd_def mixed_period_def mixed_adaptation_set_def
      good_representation_def bad_representation_def mpd_walk_defs ms_info_defs number_defs
      fragment_defs Let_def example_environment_def)

lemma for_each_split:
  "for_each body (xs @ x # ys) st =
     bind (for_each body xs st) (\<lambda>st'. bind (body x st') (for_each body ys))"
  by (induction xs arbitrary: st) (simp_all add: bind_def split: sum.splits)

lemma for_each_aborts:
  assumes "x \<in> set xs" and "\<And>st. \<exists>e. body x st = Inl e"
  shows "\<exists>e. for_each body xs st = Inl e"
proof -
  from assms(1) obtain ys zs where xs: "xs = ys @ x # zs"
    by (auto simp: in_set_conv_decomp)
  show ?thesis
  proof (cases "for_each body ys st")
    case (Inl e)
    then show ?thesis by (simp add: xs for_each_split)
  next
    case (Inr st')
    from assms(2) [of st'] obtain e where "body x st' = Inl e" by blast
    with Inr show ?thesis by (simp add: xs for_each_split)
  qed
qed

lemma bind_aborts: "(\<And>x. \<exists>e. k x = Inl e) \<Longrightarrow> \<exists>e. bind m k = Inl e"
  by (cases m) simp_all

lemma parse_representation_missing_mimeType:
  assumes "\<not> is_drm_protected (namespace I) r"
    and "attr r ''mimeType'' = None" and "attr a ''mimeType'' = None"
  shows "parse_representation E I p pd a ms r st = Inl (KeyError ''mimeType'')"
  using assms by (simp add: parse_representation_def attr_def map_add_def)

lemma parse_adaptation_set_aborts:
  assumes "\<not> is_drm_protected (namespace I) a"
    and "r \<in> set (findall a (xpath_ns ''Representation'' (namespace I)))"
    and "\<not> is_drm_protected (namespace I) r"
    and "attr r ''mimeType'' = None" and "attr a ''mimeType'' = None"
  shows "\<exists>e. parse_adaptation_set E I p pd ms a st = Inl e"
proof -
  have "\<exists>e. for_each (parse_representation E I p pd a ms')
              (findall a (xpath_ns ''Representation'' (namespace I))) st = Inl e" for ms'
    using assms(2)
    by (rule for_each_aborts)
       (simp add: parse_representation_missing_mimeType [OF assms(3) assms(4) assms(5)])
  then show ?thesis
    using assms(1) by (simp add: parse_adaptation_set_def bind_aborts)
qed

lemma parse_period_aborts:
  assumes "a \<in> set (findall p (xpath_ns ''AdaptationSet'' (namespace I)))"
    and "\<not> is_drm_protected (namespace I) a"
    and "r \<in> set (findall a (xpath_ns ''Representation'' (namespace I)))"
    and "\<not> is_drm_protected (namespace I) r"
    and "attr r ''mimeType'' = None" and "attr a ''mimeType'' = None"
  shows "\<exists>e. parse_period E I d p st = Inl e"
proof -
  have "\<exists>e. for_each (parse_adaptation_set E I p pd ms)
              (findall p (xpath_ns ''AdaptationSet'' (namespace I))) st = Inl e" for pd ms
    using assms(1)
    by (rule for_each_aborts)
       (rule parse_adaptation_set_aborts [OF assms(2) assms(3) assms(4) assms(5) assms(6)])
  then show ?thesis
    by (simp add: parse_period_def Let_def bind_aborts)
qed

text \<open>
  The exception itself. Let the Representation \<open>r\<close> come after the Representations
  \<open>rs\<close> in its AdaptationSet \<open>a\<close>, \<open>a\<close> after the AdaptationSets \<open>as\<close> in its Period
  \<open>p\<close>, and \<open>p\<close> after the Periods \<open>ps\<close>. If all that the parser does before it reaches
  \<open>r\<close> raises nothing, then the call raises \<^verbatim>\<open>KeyError('mimeType')\<close>.
\<close>

lemma parse_adaptation_set_KeyError:
  assumes "\<not> is_drm_protected (namespace I) a"
    and "findall a (xpath_ns ''Representation'' (namespace I)) = rs @ r # rs'"
    and "\<not> is_drm_protected (namespace I) r"
    and "attr r ''mimeType'' = None" and "attr a ''mimeType'' = None"
    and "extract_multisegment_info (namespace I) a pms = Inr ams"
    and "for_each (parse_representation E I p pd a ams) rs st = Inr st'"
  shows "parse_adaptation_set E I p pd pms a st = Inl (KeyError ''mimeType'')"
  using assms(1,2,6,7)
  by (simp add: parse_adaptation_set_def for_each_split
      parse_representation_missing_mimeType [OF assms(3) assms(4) assms(5)])

lemma parse_period_KeyError:
  assumes "findall p (xpath_ns ''AdaptationSet'' (namespace I)) = as @ a # as'"
    and "\<not> is_drm_protected (namespace I) a"
    and "findall a (xpath_ns ''Representation'' (namespace I)) = rs @ r # rs'"
    and "\<not> is_drm_protected (namespace I) r"
    and "attr r ''mimeType'' = None" and "attr a ''mimeType'' = None"
    and "extract_multisegment_info (namespace I) p
           \<lparr>start_number = 1, timescale = 1, total_number = None, s_entries = None,
            segment_duration = None, initialization_url = None, segment_urls = None,
            media_template = None, ms_fragments = None\<rparr> = Inr pms"
    and "for_each (parse_adaptation_set E I p
                     (or_else (parse_duration E (attr p ''duration'')) d) pms) as st = Inr st1"
    and "extract_multisegment_info (namespace I) a pms = Inr ams"
    and "for_each (parse_representation E I p
                     (or_else (parse_duration E (attr p ''duration'')) d) a ams) rs st1
           = Inr st2"
  shows "parse_period E I d p st = Inl (KeyError ''mimeType'')"
  using assms(1,7,8)
  by (simp add: parse_period_def Let_def for_each_split
      parse_adaptation_set_KeyError [OF assms(2) assms(3) assms(4) assms(5) assms(6) assms(9)
        assms(10)])

text \<open>
  C7, amended. In a manifest that is not \<^verbatim>\<open>dynamic\<close>, let a Representation \<open>r\<close> lack
  \<^verbatim>\<open>mimeType\<close> on itself and on its AdaptationSet \<open>a\<close>, and let neither of the two hold
  a \<^verbatim>\<open>ContentProtection\<close> element. Then \<^verbatim>\<open>_parse_mpd_formats\<close> does not skip it: the
  call raises an exception and returns no descriptors, whatever the other
  Representations of the manifest are. The exception is \<^verbatim>\<open>KeyError('mimeType')\<close>
  whenever nothing that the parser does before it reaches \<open>r\<close> raises: the Periods \<open>ps\<close>
  before the Period \<open>p\<close> of \<open>r\<close>, the segment information of \<open>p\<close>, the AdaptationSets
  \<open>as\<close> before \<open>a\<close> in \<open>p\<close>, the segment information of \<open>a\<close>, and the Representations
  \<open>rs\<close> before \<open>r\<close> in \<open>a\<close>.
\<close>

theorem mpd_missing_mimeType_aborts:
  assumes "attr doc ''type'' \<noteq> Some ''dynamic''"
    and "mpd_namespace (tag doc) = Inr ns"
    and "findall doc (xpath_ns ''Period'' ns) = ps @ p # ps'"
    and "findall p (xpath_ns ''AdaptationSet'' ns) = as @ a # as'"
    and "\<not> is_drm_protected ns a"
    and "findall a (xpath_ns ''Representation'' ns) = rs @ r # rs'"
    and "\<not> is_drm_protected ns r"
    and "attr r ''mimeType'' = None" and "attr a ''mimeType'' = None"
  shows "(\<exists>e. parse_mpd_formats E doc id0 base0 dict0 url0 = Inl e) \<and>
    (let I = \<lparr>mpd_doc = doc, mpd_id = id0, formats_dict = dict0, mpd_url = url0,
               namespace = ns\<rparr>;
         d = parse_duration E (attr doc ''mediaPresentationDuration'');
         pd = or_else (parse_duration E (attr p ''duration'')) d
     in \<forall>st1 pms st2 ams st3.
          for_each (parse_period E I d) ps
            \<lparr>formats = [], warnings = [], mpd_base_url = base0\<rparr> = Inr st1 \<longrightarrow>
          extract_multisegment_info ns p
            \<lparr>start_number = 1, timescale = 1, total_number = None, s_entries = None,
             segment_duration = None, initialization_url = None, segment_urls = None,
             media_template = None, ms_fragments = None\<rparr> = Inr pms \<longrightarrow>
          for_each (parse_adaptation_set E I p pd pms) as st1 = Inr st2 \<longrightarrow>
          extract_multisegment_info ns a pms = Inr ams \<longrightarrow>
          for_each (parse_representation E I p pd a ams) rs st2 = Inr st3 \<longrightarrow>
          parse_mpd_formats E doc id0 base0 dict0 url0 = Inl (KeyError ''mimeType''))"
proof -
  define I where "I = \<lparr>mpd_doc = doc, mpd_id = id0, formats_dict = dict0, mpd_url = url0,
                        namespace = ns\<rparr>"
  define d where "d = parse_duration E (attr doc ''mediaPresentationDuration'')"
  define pd where "pd = or_else (parse_duration E (attr p ''duration'')) d"
  define st0 :: mpd_state where "st0 = \<lparr>formats = [], warnings = [], mpd_base_url = base0\<rparr>"
  have ns: "namespace I = ns" by (simp add: I_def)
  have run: "parse_mpd_formats E doc id0 base0 dict0 url0 =
      for_each (parse_period E I d) (findall doc (xpath_ns ''Period'' ns)) st0"
    using assms(1,2) by (simp add: parse_mpd_formats_def Let_def I_def d_def st0_def)
  have members: "p \<in> set (findall doc (xpath_ns ''Period'' ns))"
    "a \<in> set (findall p (xpath_ns ''AdaptationSet'' ns))"
    "r \<in> set (findall a (xpath_ns ''Representation'' ns))"
    by (simp_all add: assms(3,4,6))
  have "\<exists>e. for_each (parse_period E I d) (findall doc (xpath_ns ''Period'' ns)) st0 = Inl e"
    using members(1)
    by (rule for_each_aborts)
       (rule parse_period_aborts [of a _ I r],
        use members(2,3) assms(5,7,8,9) in \<open>simp_all add: ns\<close>)
  then have always: "\<exists>e. parse_mpd_formats E doc id0 base0 dict0 url0 = Inl e"
    by (simp add: run)
  have exact: "parse_mpd_formats E doc id0 base0 dict0 url0 = Inl (KeyError ''mimeType'')"
    if "for_each (parse_period E I d) ps st0 = Inr st1"
      and "extract_multisegment_info ns p
            \<lparr>start_number = 1, timescale = 1, total_number = None, s_entries = None,
             segment_duration = None, initialization_url = None, segment_urls = None,
             media_template = None, ms_fragments = None\<rparr> = Inr pms"
      and "for_each (parse_adaptation_set E I p pd pms) as st1 = Inr st2"
      and "extract_multisegment_info ns a pms = Inr ams"
      and "for_each (parse_representation E I p pd a ams) rs st2 = Inr st3"
    for st1 pms st2 ams st3
  proof -
    have "parse_period E I d p st1 = Inl (KeyError ''mimeType'')"
      by (rule parse_period_KeyError [where a = a and r = r and as = as and rs = rs
            and pms = pms and ams = ams and ?st1.0 = st2 and ?st2.0 = st3])
         (use assms(4-9) that in \<open>simp_all add: ns pd_def\<close>)
    then show ?thesis
      using that(1) by (simp add: run assms(3) for_each_split)
  qed
  show ?thesis
    unfolding Let_def
    using always exact [unfolded I_def d_def pd_def st0_def] by blast
qed

theorem mpd_missing_mimeType_aborts_witness:
  "attr late_missing_mime_mpd ''type'' \<noteq> Some ''dynamic'' \<and>
   mpd_namespace (tag late_missing_mime_mpd) = Inr None \<and>
   findall late_missing_mime_mpd (xpath_ns ''Period'' None) = [good_period] @ mixed_period # [] \<and>
   findall mixed_period (xpath_ns ''AdaptationSet'' None) = [] @ mixed_adaptation_set # [] \<and>
   \<not> is_drm_protected None mixed_adaptation_set \<and>
   findall mixed_adaptation_set (xpath_ns ''Representation'' None) =
     [good_representation] @ bad_representation # [] \<and>
   \<not> is_drm_protected None bad_representation \<and>
   attr bad_representation ''mimeType'' = None \<and>
   attr mixed_adaptation_set ''mimeType'' = None \<and>
   parse_mpd_formats example_environment late_missing_mime_mpd None [] Map.empty None
     = Inl (KeyError ''mimeType'')"
proof -
  let ?I = "\<lparr>mpd_doc = late_missing_mime_mpd, mpd_id = None, formats_dict = Map.empty,
              mpd_url = None, namespace = None\<rparr>"
  let ?d = "parse_duration example_environment
              (attr late_missing_mime_mpd ''mediaPresentationDuration'')"
  let ?pd = "or_else (parse_duration example_environment (attr mixed_period ''duration'')) ?d"
  let ?ms = "\<lparr>start_number = 1, timescale = 1, total_number = None, s_entries = None,
             segment_duration = None, initialization_url = None, segment_urls = None,
             media_template = None, ms_fragments = None\<rparr>"
  have 1: "attr late_missing_mime_mpd ''type'' \<noteq> Some ''dynamic''"
    by (simp add: late_missing_mime_mpd_def attr_def)
  have 2: "mpd_namespace (tag late_missing_mime_mpd) = Inr None"
    by (simp add: late_missing_mime_mpd_def mpd_namespace_def)
  have 3: "findall late_missing_mime_mpd (xpath_ns ''Period'' None)
             = [good_period] @ mixed_period # []"
    by (simp add: late_missing_mime_mpd_def good_period_def mixed_period_def findall_def
        xpath_ns_def)
  have 4: "findall mixed_period (xpath_ns ''AdaptationSet'' None)
             = [] @ mixed_adaptation_set # []"
    by (simp add: mixed_period_def mixed_adaptation_set_def findall_def xpath_ns_def)
  have 5: "\<not> is_drm_protected None mixed_adaptation_set"
    by (simp add: mixed_adaptation_set_def good_representation_def bad_representation_def
        is_drm_protected_def efind_def xpath_ns_def)
  have 6: "findall mixed_adaptation_set (xpath_ns ''Representation'' None) =
             [good_representation] @ bad_representation # []"
    by (simp add: mixed_adaptation_set_def good_representation_def bad_representation_def
        findall_def xpath_ns_def)
  have 7: "\<not> is_drm_protected None bad_representation"
    by (simp add: bad_representation_def is_drm_protected_def efind_def xpath_ns_def)
  have 8: "attr bad_representation ''mimeType'' = None"
    by (simp add: bad_representation_def attr_def)
  have 9: "attr mixed_adaptation_set ''mimeType'' = None"
    by (simp add: mixed_adaptation_set_def attr_def)
  define st1 :: mpd_state where "st1 =
    \<lparr>formats = [empty_format\<lparr>format_id := Val ''audio'', url := Val ''c.mp4'',
        manifest_url := Null, ext := Val ''mp4'', width := Null, height := Null,
        tbr := Val 128, asr := Null, fps := Null, language := Null,
        format_note := Val ''DASH audio'', filesize := Null\<rparr>],
     warnings = [], mpd_base_url = []\<rparr>"
  have a: "for_each (parse_period example_environment ?I ?d) [good_period]
                 \<lparr>formats = [], warnings = [], mpd_base_url = []\<rparr> = Inr st1"
    by (simp add: late_missing_mime_mpd_def good_period_def mixed_period_def mpd_walk_defs
        ms_info_defs number_defs fragment_defs Let_def example_environment_def st1_def)
  have b: "extract_multisegment_info None mixed_period ?ms = Inr ?ms"
    by (simp add: mixed_period_def mixed_adaptation_set_def bad_representation_def
        extract_multisegment_info_def efind_def xpath_ns_def)
  have c: "for_each (parse_adaptation_set example_environment ?I mixed_period ?pd ?ms) [] st1
             = Inr st1"
    by simp
  have d: "extract_multisegment_info None mixed_adaptation_set ?ms = Inr ?ms"
    by (simp add: mixed_adaptation_set_def good_representation_def bad_representation_def
        extract_multisegment_info_def efind_def xpath_ns_def)
  have "\<exists>st3. for_each (parse_representation example_environment ?I mixed_period ?pd
                 mixed_adaptation_set ?ms) [good_representation] st1 = Inr st3"
    by (simp add: late_missing_mime_mpd_def mixed_period_def mixed_adaptation_set_def
        good_representation_def bad_representation_def good_period_def mpd_walk_defs
        ms_info_defs number_defs fragment_defs Let_def example_environment_def st1_def)
  then obtain st3 where e: "for_each (parse_representation example_environment ?I mixed_period
      ?pd mixed_adaptation_set ?ms) [good_representation] st1 = Inr st3" ..
  from mpd_missing_mimeType_aborts [OF 1 2 3 4 5 6 7 8 9,
      of example_environment None "[]" Map.empty None] a b c d e
  have "parse_mpd_formats example_environment late_missing_mime_mpd None [] Map.empty None
     = Inl (KeyError ''mimeType'')"
    unfolding Let_def by blast
  with 1 2 3 4 5 6 7 8 9 show ?thesis by blast
qed

section \<open>Properties of the Smooth Streaming parser\<close>

lemmas ism_defs = parse_ism_formats_def ism_stream_def ism_track_def ism_fragment_def
  int_or_default_def py_div_def attr_def findall_def efind_def empty_format_def
  enumerate_eq_zip upt_conv_Cons

text \<open>
  The last chunk: with the stream duration 20 and the single chunk \<^verbatim>\<open>{t: 0, r: 2}\<close> the
  two repetitions get the duration \<open>(20 - 0) / 2 = 10\<close> each.
\<close>

lemma ism_last_chunk_repeated:
  "\<exists>st f frags. parse_ism_formats E repeated_chunk_ism ism_url None = Inr st \<and>
     formats st = [f] \<and> fragments f = Val frags \<and>
     map frag_duration frags = [Val 10, Val 10]"
  by (simp add: repeated_chunk_ism_def ism_defs number_defs Let_def)

text \<open>
  C5. For a chunk without \<^verbatim>\<open>d\<close> the code reads the start of the next chunk from a
  child of the chunk element, not from the next element of \<^verbatim>\<open>stream_fragments\<close>; a
  chunk has no children, so the stream duration is used although a following chunk
  exists. In \<open>two_chunk_ism\<close> (duration 30, timescale 1; a chunk at 0 without \<^verbatim>\<open>d\<close>,
  then a chunk at 10 with \<^verbatim>\<open>d = 20\<close>) the first fragment gets the duration
  \<open>(30 - 0) / 1 = 30\<close>, not \<open>(10 - 0) / 1 = 10\<close>.
\<close>

theorem ism_missing_duration_uses_stream_duration:
  "\<exists>st f frags. parse_ism_formats E two_chunk_ism ism_url None = Inr st \<and>
     formats st = [f] \<and> fragments f = Val frags \<and>
     map frag_duration frags = [Val 30, Val 20]"
  by (simp add: two_chunk_ism_def ism_defs number_defs Let_def)

section \<open>Properties of the HLS parser\<close>

lemma m3u8_stream_line_shape:
  "m3u8_stream_line E u e p pr i live line st =
     st\<lparr>hls_formats := hls_formats st @
           [last (hls_formats (m3u8_stream_line E u e p pr i live line st))],
        last_info := Map.empty, last_media := Map.empty\<rparr>"
  by (simp add: m3u8_stream_line_def Let_def)

lemma m3u8_stream_line_tbr:
  "tbr (last (hls_formats (m3u8_stream_line E u e p pr i live line st))) =
     store (map_option of_int (int_or_none
              (or_str (last_info st ''AVERAGE-BANDWIDTH'') (last_info st ''BANDWIDTH'')) 1000))"
  unfolding m3u8_stream_line_def Let_def
  by (simp split: option.split prod.split)

lemma m3u8_stream_line_live_id:
  "format_id (last (hls_formats (m3u8_stream_line E u e p pr i True line st))) =
     Val (join ''-'' (if truthy i then [the i] else []))"
  unfolding m3u8_stream_line_def Let_def
  by (simp split: option.split prod.split)

lemma m3u8_stream_line_id:
  "format_id (last (hls_formats (m3u8_stream_line E u e p pr i False line st))) =
     Val (join ''-''
       ((if truthy i then [the i] else []) @
        [if truthy (or_str (last_info st ''NAME'') (last_media st ''NAME''))
         then the (or_str (last_info st ''NAME'') (last_media st ''NAME''))
         else str_int
           (if int_or_none (or_str (last_info st ''AVERAGE-BANDWIDTH'')
                 (last_info st ''BANDWIDTH'')) 1000 \<noteq> None \<and>
               int_or_none (or_str (last_info st ''AVERAGE-BANDWIDTH'')
                 (last_info st ''BANDWIDTH'')) 1000 \<noteq> Some 0
            then the (int_or_none (or_str (last_info st ''AVERAGE-BANDWIDTH'')
                        (last_info st ''BANDWIDTH'')) 1000)
            else int (length (hls_formats st)))]))"
  unfolding m3u8_stream_line_def Let_def
  by (auto split: option.split prod.split)

lemma m3u8_line_comment:
  "prefix ''#'' line \<or> strip line = [] \<Longrightarrow> \<not> prefix ''#EXT-X-STREAM-INF:'' line \<Longrightarrow>
   \<not> prefix ''#EXT-X-MEDIA:'' line \<Longrightarrow> m3u8_line E u e p pr i live line st = st"
  by (simp add: m3u8_line_def)

lemma m3u8_line_stream_inf:
  "prefix ''#EXT-X-STREAM-INF:'' line \<Longrightarrow>
   m3u8_line E u e p pr i live line st = st\<lparr>last_info := parse_m3u8_attributes E line\<rparr>"
  by (simp add: m3u8_line_def)

lemma m3u8_line_uri:
  assumes "\<not> prefix ''#'' line" and "strip line \<noteq> []"
  shows "m3u8_line E u e p pr i live line st = m3u8_stream_line E u e p pr i live line st"
proof -
  have "\<not> prefix ''#EXT-X-STREAM-INF:'' line" "\<not> prefix ''#EXT-X-MEDIA:'' line"
    using assms(1) by (auto simp: prefix_def)
  with assms show ?thesis by (simp add: m3u8_line_def)
qed

text \<open>
  An \<^verbatim>\<open>#EXT-X-MEDIA\<close> line leaves \<^verbatim>\<open>last_info\<close> as it is and appends at most one
  descriptor, which has no \<^verbatim>\<open>tbr\<close> key.
\<close>

lemma m3u8_media_line_last_info:
  "last_info (m3u8_media_line E u e p pr line st) = last_info st"
  by (simp add: m3u8_media_line_def Let_def)

lemma m3u8_media_line_formats:
  "\<exists>ms. hls_formats (m3u8_media_line E u e p pr line st) = hls_formats st @ ms \<and>
        (\<forall>f\<in>set ms. tbr f = Absent)"
  by (simp add: m3u8_media_line_def Let_def empty_format_def)

lemma m3u8_line_other:
  assumes "\<not> prefix ''#EXT-X-STREAM-INF:'' l" and "prefix ''#'' l \<or> strip l = []"
  shows "last_info (m3u8_line E u e p pr i live l st) = last_info st \<and>
     (\<exists>ms. hls_formats (m3u8_line E u e p pr i live l st) = hls_formats st @ ms \<and>
           (\<forall>f\<in>set ms. tbr f = Absent)) \<and>
     (\<not> prefix ''#EXT-X-MEDIA:'' l \<longrightarrow> m3u8_line E u e p pr i live l st = st)"
proof (cases "prefix ''#EXT-X-MEDIA:'' l")
  case True
  with assms(1) have "m3u8_line E u e p pr i live l st = m3u8_media_line E u e p pr l st"
    by (simp add: m3u8_line_def)
  with True show ?thesis
    by (simp add: m3u8_media_line_last_info m3u8_media_line_formats)
next
  case False
  with assms have "m3u8_line E u e p pr i live l st = st"
    by (simp add: m3u8_line_comment)
  with False show ?thesis by simp
qed

lemma fold_other_lines:
  assumes "\<forall>l\<in>set cs. \<not> prefix ''#EXT-X-STREAM-INF:'' l \<and> (prefix ''#'' l \<or> strip l = [])"
  shows "last_info (fold (m3u8_line E u e p pr i live) cs st) = last_info st \<and>
     (\<exists>ms. hls_formats (fold (m3u8_line E u e p pr i live) cs st) = hls_formats st @ ms \<and>
           (\<forall>f\<in>set ms. tbr f = Absent)) \<and>
     ((\<forall>l\<in>set cs. \<not> prefix ''#EXT-X-MEDIA:'' l) \<longrightarrow>
        fold (m3u8_line E u e p pr i live) cs st = st)"
  using assms
proof (induction cs arbitrary: st)
  case Nil
  then show ?case by simp
next
  case (Cons l cs)
  let ?st = "m3u8_line E u e p pr i live l st"
  from Cons.prems have l: "\<not> prefix ''#EXT-X-STREAM-INF:'' l" "prefix ''#'' l \<or> strip l = []"
    and cs: "\<forall>l\<in>set cs. \<not> prefix ''#EXT-X-STREAM-INF:'' l \<and> (prefix ''#'' l \<or> strip l = [])"
    by simp_all
  from m3u8_line_other [OF l, of E u e p pr i live st] obtain ms where
    1: "last_info ?st = last_info st" "hls_formats ?st = hls_formats st @ ms"
       "\<forall>f\<in>set ms. tbr f = Absent"
       "\<not> prefix ''#EXT-X-MEDIA:'' l \<longrightarrow> ?st = st"
    by blast
  from Cons.IH [OF cs, of ?st] obtain ms' where
    2: "last_info (fold (m3u8_line E u e p pr i live) cs ?st) = last_info ?st"
       "hls_formats (fold (m3u8_line E u e p pr i live) cs ?st) = hls_formats ?st @ ms'"
       "\<forall>f\<in>set ms'. tbr f = Absent"
       "(\<forall>l\<in>set cs. \<not> prefix ''#EXT-X-MEDIA:'' l) \<longrightarrow>
          fold (m3u8_line E u e p pr i live) cs ?st = ?st"
    by blast
  have "hls_formats (fold (m3u8_line E u e p pr i live) (l # cs) st) = hls_formats st @ (ms @ ms')"
    and "\<forall>f\<in>set (ms @ ms'). tbr f = Absent"
    using 1(2,3) 2(2,3) by auto
  then have "\<exists>ms. hls_formats (fold (m3u8_line E u e p pr i live) (l # cs) st) = hls_formats st @ ms \<and>
           (\<forall>f\<in>set ms. tbr f = Absent)"
    by blast
  moreover have "last_info (fold (m3u8_line E u e p pr i live) (l # cs) st) = last_info st"
    using 1(1) 2(1) by simp
  moreover have "(\<forall>l\<in>set (l # cs). \<not> prefix ''#EXT-X-MEDIA:'' l) \<longrightarrow>
        fold (m3u8_line E u e p pr i live) (l # cs) st = st"
    using 1(4) 2(4) by auto
  ultimately show ?case by blast
qed

text \<open>
  One entry of a master playlist: an \<^verbatim>\<open>#EXT-X-STREAM-INF\<close> line, other tags, comments
  and blank lines, and the URI line. It appends the descriptors \<open>ms\<close> of
  \<^verbatim>\<open>#EXT-X-MEDIA\<close> lines, which have no \<^verbatim>\<open>tbr\<close>, and then the descriptor of the stream.
\<close>

lemma m3u8_entry:
  assumes "prefix ''#EXT-X-STREAM-INF:'' info"
    and "\<forall>l\<in>set cs. \<not> prefix ''#EXT-X-STREAM-INF:'' l \<and> (prefix ''#'' l \<or> strip l = [])"
    and "\<not> prefix ''#'' uri" and "strip uri \<noteq> []"
  shows "\<exists>ms f st'.
     fold (m3u8_line E u e p pr i live) ([info] @ cs @ [uri]) st = st' \<and>
     hls_formats st' = hls_formats st @ ms @ [f] \<and>
     (\<forall>f\<in>set ms. tbr f = Absent) \<and>
     last_info st' = Map.empty \<and>
     tbr f = store (map_option of_int (int_or_none
              (or_str (parse_m3u8_attributes E info ''AVERAGE-BANDWIDTH'')
                      (parse_m3u8_attributes E info ''BANDWIDTH'')) 1000)) \<and>
     (live \<longrightarrow> format_id f = Val (join ''-'' (if truthy i then [the i] else []))) \<and>
     ((\<forall>l\<in>set cs. \<not> prefix ''#EXT-X-MEDIA:'' l) \<longrightarrow>
        ms = [] \<and> last_media st' = Map.empty \<and>
        f = last (hls_formats (m3u8_stream_line E u e p pr i live uri
                    (st\<lparr>last_info := parse_m3u8_attributes E info\<rparr>))))"
proof -
  let ?line = "m3u8_line E u e p pr i live"
  define s1 where "s1 = st\<lparr>last_info := parse_m3u8_attributes E info\<rparr>"
  define s2 where "s2 = fold ?line cs s1"
  define f where "f = last (hls_formats (m3u8_stream_line E u e p pr i live uri s2))"
  define s3 where "s3 = s2\<lparr>hls_formats := hls_formats s2 @ [f],
     last_info := Map.empty, last_media := Map.empty\<rparr>"
  have l1: "?line info st = s1"
    unfolding s1_def using assms(1) by (rule m3u8_line_stream_inf)
  from fold_other_lines [OF assms(2), of E u e p pr i live s1] obtain ms where
    2: "last_info s2 = last_info s1" "hls_formats s2 = hls_formats s1 @ ms"
       "\<forall>f\<in>set ms. tbr f = Absent"
       "(\<forall>l\<in>set cs. \<not> prefix ''#EXT-X-MEDIA:'' l) \<longrightarrow> s2 = s1"
    unfolding s2_def by blast
  have "?line uri s2 = m3u8_stream_line E u e p pr i live uri s2"
    using assms(3,4) by (rule m3u8_line_uri)
  also have "\<dots> = s3"
    unfolding s3_def f_def by (rule m3u8_stream_line_shape)
  finally have l3: "?line uri s2 = s3" .
  have run: "fold ?line ([info] @ cs @ [uri]) st = s3"
    using l3 by (simp add: l1 s2_def)
  have fs: "hls_formats s3 = hls_formats st @ ms @ [f]"
    by (simp add: s3_def 2(2) s1_def)
  have li: "last_info s3 = Map.empty"
    by (simp add: s3_def)
  have t: "tbr f = store (map_option of_int (int_or_none
              (or_str (parse_m3u8_attributes E info ''AVERAGE-BANDWIDTH'')
                      (parse_m3u8_attributes E info ''BANDWIDTH'')) 1000))"
    unfolding f_def by (simp add: m3u8_stream_line_tbr 2(1) s1_def)
  have id: "format_id f = Val (join ''-'' (if truthy i then [the i] else []))" if live
    using that unfolding f_def by (simp add: m3u8_stream_line_live_id)
  have plain: "ms = [] \<and> last_media s3 = Map.empty \<and>
        f = last (hls_formats (m3u8_stream_line E u e p pr i live uri s1))"
    if "\<forall>l\<in>set cs. \<not> prefix ''#EXT-X-MEDIA:'' l"
  proof -
    from that 2(4) have "s2 = s1" by blast
    with 2(2) show ?thesis by (simp add: f_def s3_def)
  qed
  from run fs 2(3) li t id plain show ?thesis
    unfolding s1_def by blast
qed

lemma average_lines:
  "splitlines average_playlist =
     [''#EXTM3U'', ''#EXT-X-STREAM-INF:AVERAGE-BANDWIDTH=400000,BANDWIDTH=500000'', ''low.m3u8'',
      ''#EXT-X-STREAM-INF:AVERAGE-BANDWIDTH=1200000,BANDWIDTH=1500000'', ''high.m3u8'']"
  by (simp add: average_playlist_def splitlines_def is_line_boundary_def)

text \<open>
  C6, as stated, fails: the bitrate of a stream is read from \<^verbatim>\<open>AVERAGE-BANDWIDTH\<close>
  when the entry has one, and from \<^verbatim>\<open>BANDWIDTH\<close> only otherwise. The two entries of
  \<open>average_playlist\<close> have \<^verbatim>\<open>BANDWIDTH\<close> 500000 and 1500000, and their descriptors
  have \<^verbatim>\<open>tbr\<close> 400 and 1200.
\<close>

theorem average_bandwidth_counterexample:
  "map_sum id (map tbr)
     (extract_m3u8_formats average_environment ''http://h/master.m3u8'' None ''m3u8'' None
        None True False) = Inr [Absent, Val 400, Val 1200]"
proof -
  let ?line = "m3u8_line average_environment ''http://h/master.m3u8'' None ''m3u8'' None None False"
  let ?st0 = "\<lparr>audio_in_video_stream = Map.empty, last_info = Map.empty,
     last_media = Map.empty,
     hls_formats = [m3u8_meta_format ''http://h/master.m3u8'' None None None]\<rparr>"
  have "map tbr (hls_formats (fold ?line (splitlines average_playlist) ?st0))
          = [Absent, Val 400, Val 1200]"
    unfolding average_lines
    by (simp add: m3u8_line_def m3u8_stream_line_def m3u8_meta_format_def empty_format_def
        average_environment_def example_environment_def or_str_def number_defs strip_def
        is_space_def format_url_def is_http_url_def Let_def)
  moreover have "\<not> contains average_playlist ''#EXT-X-TARGETDURATION''"
    by (simp add: average_playlist_def)
  ultimately show ?thesis
    by (simp add: extract_m3u8_formats_def average_environment_def example_environment_def)
qed

text \<open>
  C6, amended. A master playlist (no \<^verbatim>\<open>#EXT-X-TARGETDURATION\<close>) with exactly two
  stream entries: its lines are two \<^verbatim>\<open>#EXT-X-STREAM-INF\<close> lines, each followed by its
  URI line, and before, between and after them any lines \<open>c0\<close> to \<open>c4\<close> that are blank
  or start with \<^verbatim>\<open>#\<close> and are no \<^verbatim>\<open>#EXT-X-STREAM-INF\<close> lines (other tags, among them
  \<^verbatim>\<open>#EXT-X-MEDIA\<close>, and comments). The entries have \<^verbatim>\<open>BANDWIDTH\<close> 500000 and
  1500000 and no \<^verbatim>\<open>AVERAGE-BANDWIDTH\<close>. Then the parser returns a list whose first
  element is the meta descriptor, with the preference of the caller minus 100, or
  \<open>-100\<close> when there is none. The descriptors with a \<^verbatim>\<open>tbr\<close> key, which are those of
  the streams (the meta descriptor and the descriptors of \<^verbatim>\<open>#EXT-X-MEDIA\<close> renditions
  have none), are two, with \<^verbatim>\<open>tbr\<close> 500 and 1500 in this order. With \<^verbatim>\<open>live=True\<close>
  their \<^verbatim>\<open>format_id\<close> is the id prefix alone. Without \<^verbatim>\<open>#EXT-X-MEDIA\<close> lines the
  two are all that follows the meta descriptor, and with \<^verbatim>\<open>live=False\<close>, when
  neither entry has a \<^verbatim>\<open>NAME\<close>, their \<^verbatim>\<open>format_id\<close> ends in the bitrate.
\<close>

theorem m3u8_master_two_streams:
  assumes "download_webpage_handle E m3u8_url0 fatal = Inr (Some (doc, m3u8_url))"
    and "\<not> contains doc ''#EXT-X-TARGETDURATION''"
    and "splitlines doc = c0 @ [inf1] @ c1 @ [uri1] @ c2 @ [inf2] @ c3 @ [uri2] @ c4"
    and "\<forall>l\<in>set (c0 @ c1 @ c2 @ c3 @ c4).
           \<not> prefix ''#EXT-X-STREAM-INF:'' l \<and> (prefix ''#'' l \<or> strip l = [])"
    and "prefix ''#EXT-X-STREAM-INF:'' inf1" and "prefix ''#EXT-X-STREAM-INF:'' inf2"
    and "parse_m3u8_attributes E inf1 ''BANDWIDTH'' = Some ''500000''"
    and "\<not> truthy (parse_m3u8_attributes E inf1 ''AVERAGE-BANDWIDTH'')"
    and "parse_m3u8_attributes E inf2 ''BANDWIDTH'' = Some ''1500000''"
    and "\<not> truthy (parse_m3u8_attributes E inf2 ''AVERAGE-BANDWIDTH'')"
    and "\<not> prefix ''#'' uri1" and "strip uri1 \<noteq> []"
    and "\<not> prefix ''#'' uri2" and "strip uri2 \<noteq> []"
  shows "\<exists>meta rest low high.
     extract_m3u8_formats E m3u8_url0 ext0 entry_protocol preference0 m3u8_id fatal live
       = Inr (meta # rest) \<and>
     meta = m3u8_meta_format m3u8_url ext0 preference0 m3u8_id \<and>
     preference meta = Val (case preference0 of None \<Rightarrow> - 100 | Some p \<Rightarrow> p - 100) \<and>
     filter (\<lambda>f. tbr f \<noteq> Absent) (meta # rest) = [low, high] \<and>
     tbr low = Val 500 \<and> tbr high = Val 1500 \<and>
     (live \<longrightarrow>
        format_id low = Val (join ''-'' (if truthy m3u8_id then [the m3u8_id] else [])) \<and>
        format_id high = Val (join ''-'' (if truthy m3u8_id then [the m3u8_id] else []))) \<and>
     ((\<forall>l\<in>set (c0 @ c1 @ c2 @ c3 @ c4). \<not> prefix ''#EXT-X-MEDIA:'' l) \<longrightarrow>
        rest = [low, high] \<and>
        (\<not> live \<longrightarrow> \<not> truthy (parse_m3u8_attributes E inf1 ''NAME'') \<longrightarrow>
           \<not> truthy (parse_m3u8_attributes E inf2 ''NAME'') \<longrightarrow>
           format_id low =
             Val (join ''-'' ((if truthy m3u8_id then [the m3u8_id] else []) @ [''500''])) \<and>
           format_id high =
             Val (join ''-'' ((if truthy m3u8_id then [the m3u8_id] else []) @ [''1500'']))))"
proof -
  let ?line = "m3u8_line E m3u8_url ext0 entry_protocol preference0 m3u8_id live"
  let ?stream = "m3u8_stream_line E m3u8_url ext0 entry_protocol preference0 m3u8_id live"
  let ?meta = "m3u8_meta_format m3u8_url ext0 preference0 m3u8_id"
  let ?plain = "\<forall>l\<in>set (c0 @ c1 @ c2 @ c3 @ c4). \<not> prefix ''#EXT-X-MEDIA:'' l"
  let ?id = "Val (join ''-'' (if truthy m3u8_id then [the m3u8_id] else []))"
  define st0 where "st0 = \<lparr>audio_in_video_stream = Map.empty, last_info = Map.empty,
     last_media = Map.empty, hls_formats = [?meta]\<rparr>"
  define sa where "sa = fold ?line c0 st0"
  define sb where "sb = fold ?line ([inf1] @ c1 @ [uri1]) sa"
  define sc where "sc = fold ?line c2 sb"
  define sd where "sd = fold ?line ([inf2] @ c3 @ [uri2]) sc"
  define se where "se = fold ?line c4 sd"
  have other: "\<forall>l\<in>set c. \<not> prefix ''#EXT-X-STREAM-INF:'' l \<and> (prefix ''#'' l \<or> strip l = [])"
    if "c \<in> {c0, c1, c2, c3, c4}" for c
    using assms(4) that by auto
  from fold_other_lines [OF other, of c0 E m3u8_url ext0 entry_protocol preference0 m3u8_id live st0]
  obtain m0 where a: "hls_formats sa = [?meta] @ m0" "\<forall>f\<in>set m0. tbr f = Absent"
      "(\<forall>l\<in>set c0. \<not> prefix ''#EXT-X-MEDIA:'' l) \<longrightarrow> sa = st0"
    unfolding sa_def by (auto simp: st0_def)
  from m3u8_entry [OF assms(5) other assms(11,12), of c1 E m3u8_url ext0 entry_protocol
      preference0 m3u8_id live sa]
  obtain m1 low where b: "hls_formats sb = hls_formats sa @ m1 @ [low]"
      "\<forall>f\<in>set m1. tbr f = Absent" "last_info sb = Map.empty"
      "tbr low = store (map_option of_int (int_or_none
              (or_str (parse_m3u8_attributes E inf1 ''AVERAGE-BANDWIDTH'')
                      (parse_m3u8_attributes E inf1 ''BANDWIDTH'')) 1000))"
      "live \<longrightarrow> format_id low = ?id"
      "(\<forall>l\<in>set c1. \<not> prefix ''#EXT-X-MEDIA:'' l) \<longrightarrow>
        m1 = [] \<and> last_media sb = Map.empty \<and>
        low = last (hls_formats (?stream uri1 (sa\<lparr>last_info := parse_m3u8_attributes E inf1\<rparr>)))"
    unfolding sb_def by auto
  from fold_other_lines [OF other, of c2 E m3u8_url ext0 entry_protocol preference0 m3u8_id live sb]
  obtain m2 where c: "hls_formats sc = hls_formats sb @ m2" "\<forall>f\<in>set m2. tbr f = Absent"
      "(\<forall>l\<in>set c2. \<not> prefix ''#EXT-X-MEDIA:'' l) \<longrightarrow> sc = sb"
    unfolding sc_def by auto
  from m3u8_entry [OF assms(6) other assms(13,14), of c3 E m3u8_url ext0 entry_protocol
      preference0 m3u8_id live sc]
  obtain m3 high where d: "hls_formats sd = hls_formats sc @ m3 @ [high]"
      "\<forall>f\<in>set m3. tbr f = Absent"
      "tbr high = store (map_option of_int (int_or_none
              (or_str (parse_m3u8_attributes E inf2 ''AVERAGE-BANDWIDTH'')
                      (parse_m3u8_attributes E inf2 ''BANDWIDTH'')) 1000))"
      "live \<longrightarrow> format_id high = ?id"
      "(\<forall>l\<in>set c3. \<not> prefix ''#EXT-X-MEDIA:'' l) \<longrightarrow>
        m3 = [] \<and>
        high = last (hls_formats (?stream uri2 (sc\<lparr>last_info := parse_m3u8_attributes E inf2\<rparr>)))"
    unfolding sd_def by auto
  from fold_other_lines [OF other, of c4 E m3u8_url ext0 entry_protocol preference0 m3u8_id live sd]
  obtain m4 where e: "hls_formats se = hls_formats sd @ m4" "\<forall>f\<in>set m4. tbr f = Absent"
    unfolding se_def by auto
  define rest where "rest = m0 @ m1 @ [low] @ m2 @ m3 @ [high] @ m4"
  have "fold ?line (splitlines doc) st0 = se"
    by (simp add: assms(3) se_def sd_def sc_def sb_def sa_def)
  then have "hls_formats (fold ?line (splitlines doc) st0) = ?meta # rest"
    by (simp add: e(1) d(1) c(1) b(1) a(1) rest_def)
  then have result: "extract_m3u8_formats E m3u8_url0 ext0 entry_protocol preference0 m3u8_id
                  fatal live = Inr (?meta # rest)"
    using assms(1,2) by (simp add: extract_m3u8_formats_def st0_def)
  have pref: "preference ?meta = Val (case preference0 of None \<Rightarrow> - 100 | Some p \<Rightarrow> p - 100)"
    by (simp add: m3u8_meta_format_def empty_format_def split: option.split)
  have meta_tbr: "tbr ?meta = Absent"
    by (simp add: m3u8_meta_format_def empty_format_def)
  have n1: "int_or_none (or_str (parse_m3u8_attributes E inf1 ''AVERAGE-BANDWIDTH'')
                (parse_m3u8_attributes E inf1 ''BANDWIDTH'')) 1000 = Some 500"
    using assms(7,8) by (simp add: or_str_def number_defs)
  have n2: "int_or_none (or_str (parse_m3u8_attributes E inf2 ''AVERAGE-BANDWIDTH'')
                (parse_m3u8_attributes E inf2 ''BANDWIDTH'')) 1000 = Some 1500"
    using assms(9,10) by (simp add: or_str_def number_defs)
  have tbrs: "tbr low = Val 500" "tbr high = Val 1500"
    by (simp_all add: b(4) d(3) n1 n2)
  have streams: "filter (\<lambda>f. tbr f \<noteq> Absent) (?meta # rest) = [low, high]"
    using a(2) b(2) c(2) d(2) e(2) by (simp add: rest_def meta_tbr tbrs)
  have plain: "rest = [low, high] \<and>
        (\<not> live \<longrightarrow> \<not> truthy (parse_m3u8_attributes E inf1 ''NAME'') \<longrightarrow>
           \<not> truthy (parse_m3u8_attributes E inf2 ''NAME'') \<longrightarrow>
           format_id low =
             Val (join ''-'' ((if truthy m3u8_id then [the m3u8_id] else []) @ [''500''])) \<and>
           format_id high =
             Val (join ''-'' ((if truthy m3u8_id then [the m3u8_id] else []) @ [''1500''])))"
    if ?plain
  proof -
    from that have p: "\<forall>l\<in>set c0. \<not> prefix ''#EXT-X-MEDIA:'' l"
      "\<forall>l\<in>set c1. \<not> prefix ''#EXT-X-MEDIA:'' l" "\<forall>l\<in>set c2. \<not> prefix ''#EXT-X-MEDIA:'' l"
      "\<forall>l\<in>set c3. \<not> prefix ''#EXT-X-MEDIA:'' l" "\<forall>l\<in>set c4. \<not> prefix ''#EXT-X-MEDIA:'' l"
      by auto
    from fold_other_lines [OF other, of c0 E m3u8_url ext0 entry_protocol preference0 m3u8_id
        live st0] p(1) a(1)
    have m0: "m0 = []" and sa: "sa = st0"
      unfolding sa_def by (auto simp: st0_def)
    from b(6) p(2) have m1: "m1 = []" and lm: "last_media sb = Map.empty"
      and low: "low = last (hls_formats (?stream uri1
                        (sa\<lparr>last_info := parse_m3u8_attributes E inf1\<rparr>)))"
      by blast+
    from c(3) p(3) have sc: "sc = sb" by blast
    with c(1) have m2: "m2 = []" by simp
    from d(5) p(4) have m3: "m3 = []"
      and high: "high = last (hls_formats (?stream uri2
                        (sc\<lparr>last_info := parse_m3u8_attributes E inf2\<rparr>)))"
      by blast+
    from fold_other_lines [OF other, of c4 E m3u8_url ext0 entry_protocol preference0 m3u8_id
        live sd] p(5) e(1)
    have m4: "m4 = []"
      unfolding se_def by auto
    have r: "rest = [low, high]"
      by (simp add: rest_def m0 m1 m2 m3 m4)
    have "format_id low =
        Val (join ''-'' ((if truthy m3u8_id then [the m3u8_id] else []) @ [''500'']))"
      if "\<not> live" and "\<not> truthy (parse_m3u8_attributes E inf1 ''NAME'')"
    proof -
      have "\<not> truthy (or_str (last_info (sa\<lparr>last_info := parse_m3u8_attributes E inf1\<rparr>) ''NAME'')
                (last_media (sa\<lparr>last_info := parse_m3u8_attributes E inf1\<rparr>) ''NAME''))"
        using that(2) by (simp add: sa st0_def or_str_def)
      then show ?thesis
        using that(1) unfolding low
        by (simp add: m3u8_stream_line_id n1 str_int_def digits.simps)
    qed
    moreover have "format_id high =
        Val (join ''-'' ((if truthy m3u8_id then [the m3u8_id] else []) @ [''1500'']))"
      if "\<not> live" and "\<not> truthy (parse_m3u8_attributes E inf2 ''NAME'')"
    proof -
      have "\<not> truthy (or_str (last_info (sc\<lparr>last_info := parse_m3u8_attributes E inf2\<rparr>) ''NAME'')
                (last_media (sc\<lparr>last_info := parse_m3u8_attributes E inf2\<rparr>) ''NAME''))"
        using that(2) by (simp add: sc lm or_str_def)
      then show ?thesis
        using that(1) unfolding high
        by (simp add: m3u8_stream_line_id n2 str_int_def digits.simps)
    qed
    ultimately show ?thesis using r by blast
  qed
  from result pref streams tbrs b(5) d(4) plain show ?thesis
    by (intro exI [of _ ?meta] exI [of _ rest] exI [of _ low] exI [of _ high]) blast
qed

theorem m3u8_master_two_streams_witness:
  "download_webpage_handle rendition_environment ''http://h/master.m3u8'' True
     = Inr (Some (rendition_playlist, ''http://h/master.m3u8'')) \<and>
   \<not> contains rendition_playlist ''#EXT-X-TARGETDURATION'' \<and>
   splitlines rendition_playlist =
     [''#EXTM3U'', ''#EXT-X-MEDIA:TYPE=AUDIO,GROUP-ID=aud,NAME=en,URI=audio.m3u8'',
      ''#EXT-X-STREAM-INF:BANDWIDTH=500000'', ''low.m3u8'', [],
      ''#EXT-X-STREAM-INF:BANDWIDTH=1500000'', ''# the best one'', ''high.m3u8''] \<and>
   parse_m3u8_attributes rendition_environment ''#EXT-X-STREAM-INF:BANDWIDTH=500000''
     ''BANDWIDTH'' = Some ''500000'' \<and>
   parse_m3u8_attributes rendition_environment ''#EXT-X-STREAM-INF:BANDWIDTH=1500000''
     ''BANDWIDTH'' = Some ''1500000'' \<and>
   (\<exists>meta rest low high.
      extract_m3u8_formats rendition_environment ''http://h/master.m3u8'' (Some ''mp4'') ''m3u8''
        None None True True = Inr (meta # rest) \<and>
      preference meta = Val (- 100) \<and>
      filter (\<lambda>f. tbr f \<noteq> Absent) (meta # rest) = [low, high] \<and>
      tbr low = Val 500 \<and> tbr high = Val 1500 \<and>
      format_id low = Val [] \<and> format_id high = Val [])"
proof -
  let ?inf1 = "''#EXT-X-STREAM-INF:BANDWIDTH=500000''"
  let ?inf2 = "''#EXT-X-STREAM-INF:BANDWIDTH=1500000''"
  let ?media = "''#EXT-X-MEDIA:TYPE=AUDIO,GROUP-ID=aud,NAME=en,URI=audio.m3u8''"
  have 1: "download_webpage_handle rendition_environment ''http://h/master.m3u8'' True
     = Inr (Some (rendition_playlist, ''http://h/master.m3u8''))"
    by (simp add: rendition_environment_def)
  have 2: "\<not> contains rendition_playlist ''#EXT-X-TARGETDURATION''"
    by (simp add: rendition_playlist_def)
  have 3: "splitlines rendition_playlist =
     [''#EXTM3U'', ?media] @ [?inf1] @ [] @ [''low.m3u8''] @ [[]] @ [?inf2] @
     [''# the best one''] @ [''high.m3u8''] @ []"
    by (simp add: rendition_playlist_def splitlines_def is_line_boundary_def)
  have 4: "\<forall>l\<in>set ([''#EXTM3U'', ?media] @ [] @ [[]] @ [''# the best one''] @ []).
             \<not> prefix ''#EXT-X-STREAM-INF:'' l \<and> (prefix ''#'' l \<or> strip l = [])"
    by (simp add: strip_def)
  have 5: "prefix ''#EXT-X-STREAM-INF:'' ?inf1" and 6: "prefix ''#EXT-X-STREAM-INF:'' ?inf2"
    by simp_all
  have 7: "parse_m3u8_attributes rendition_environment ?inf1 ''BANDWIDTH'' = Some ''500000''"
    and 8: "\<not> truthy (parse_m3u8_attributes rendition_environment ?inf1 ''AVERAGE-BANDWIDTH'')"
    and 9: "parse_m3u8_attributes rendition_environment ?inf2 ''BANDWIDTH'' = Some ''1500000''"
    and 10: "\<not> truthy (parse_m3u8_attributes rendition_environment ?inf2 ''AVERAGE-BANDWIDTH'')"
    by (simp_all add: rendition_environment_def example_environment_def)
  have 11: "\<not> prefix ''#'' ''low.m3u8''" and 12: "strip ''low.m3u8'' \<noteq> []"
    and 13: "\<not> prefix ''#'' ''high.m3u8''" and 14: "strip ''high.m3u8'' \<noteq> []"
    by (simp_all add: strip_def is_space_def)
  from m3u8_master_two_streams [OF 1 2 3 4 5 6 7 8 9 10 11 12 13 14,
      of "Some ''mp4''" "''m3u8''" None None True]
  obtain meta rest low high where
    "extract_m3u8_formats rendition_environment ''http://h/master.m3u8'' (Some ''mp4'') ''m3u8''
        None None True True = Inr (meta # rest)"
    "preference meta = Val (- 100)"
    "filter (\<lambda>f. tbr f \<noteq> Absent) (meta # rest) = [low, high]"
    "tbr low = Val 500" "tbr high = Val 1500"
    "format_id low = Val []" "format_id high = Val []"
    by auto
  with 1 2 3 7 9 show ?thesis by (simp del: filter.simps)
qed

section \<open>Properties of the HDS parser\<close>

lemma split_on_head:
  "(case split_on c t of [] \<Rightarrow> [] | w # ws \<Rightarrow> w) = takeWhile (\<lambda>x. x \<noteq> c) t"
  by (induction t) (auto split: list.splits)

lemma contains_single: "contains t [c] = (c \<in> set t)"
  by (induction t) auto

text \<open>
  The test of the challenge: the manifest is refused when the text of the \<^verbatim>\<open>pv-2.0\<close>
  element holds a \<^verbatim>\<open>;\<close> and the text before the first \<^verbatim>\<open>;\<close> is not blank, and only
  then.
\<close>

lemma akamai_challenge_iff:
  assumes "efind manifest ''{http://ns.adobe.com/f4m/1.0}pv-2.0'' = Some pv"
    and "etext pv = Some t"
  shows "akamai_challenge manifest =
           Inr (CHR '';'' \<in> set t \<and> strip (takeWhile (\<lambda>c. c \<noteq> CHR '';'') t) \<noteq> [])"
  using assms by (simp add: akamai_challenge_def contains_single split_on_head)

text \<open>
  C8, as stated, fails: a challenge text that is present and not empty does not make the
  parser refuse the manifest unless it holds a \<^verbatim>\<open>;\<close>. The challenge of
  \<open>plain_challenge_manifest\<close> is \<^verbatim>\<open>Zm9v\<close>, and the call returns the descriptor of the
  media entry.
\<close>

theorem challenge_without_field_counterexample:
  "parse_f4m_formats 3 example_environment plain_challenge_manifest ''http://h/manifest.f4m''
     None None True None =
   Inr [empty_format\<lparr>format_id := Val ''800'', url := Val ''http://h/stream'',
          manifest_url := Val ''http://h/stream'', ext := Null, tbr := Val 800,
          width := Null, height := Null, vcodec := Null, preference := Null\<rparr>]"
  by (simp add: plain_challenge_manifest_def parse_f4m_formats_def f4m_body_def
      akamai_challenge_def f4m_media_def efind_def findall_def attr_def example_environment_def
      is_http_url_def number_defs enumerate_eq_zip upt_conv_Cons empty_format_def Let_def)

text \<open>
  C8, amended. If the manifest has a \<^verbatim>\<open>pv-2.0\<close> element (F4M 1.0 namespace) whose text
  holds a \<^verbatim>\<open>;\<close> and whose challenge, the text before the first \<^verbatim>\<open>;\<close>, is not blank
  (\<^verbatim>\<open>strip()\<close> leaves some of it), then \<^verbatim>\<open>_parse_f4m_formats\<close> returns the empty list,
  whatever else the manifest holds and whatever the other arguments are.
\<close>

theorem f4m_akamai_challenge_refused:
  assumes "efind manifest ''{http://ns.adobe.com/f4m/1.0}pv-2.0'' = Some pv"
    and "etext pv = Some t"
    and "CHR '';'' \<in> set t"
    and "strip (takeWhile (\<lambda>c. c \<noteq> CHR '';'') t) \<noteq> []"
  shows "parse_f4m_formats depth E manifest manifest_url0 preference0 f4m_id fatal m3u8_id = Inr []"
proof -
  have "akamai_challenge manifest = Inr True"
    using assms by (simp add: akamai_challenge_iff)
  then show ?thesis
    by (simp add: parse_f4m_formats_def f4m_body_def)
qed

theorem f4m_akamai_challenge_refused_witness:
  "efind akamai_manifest ''{http://ns.adobe.com/f4m/1.0}pv-2.0'' = Some akamai_pv_element \<and>
   etext akamai_pv_element = Some ''Zm9v;hdntl=exp'' \<and>
   CHR '';'' \<in> set ''Zm9v;hdntl=exp'' \<and>
   strip (takeWhile (\<lambda>c. c \<noteq> CHR '';'') ''Zm9v;hdntl=exp'') \<noteq> [] \<and>
   parse_f4m_formats 3 example_environment akamai_manifest ''http://h/manifest.f4m'' None None
     True None = Inr []"
proof -
  have 1: "efind akamai_manifest ''{http://ns.adobe.com/f4m/1.0}pv-2.0'' = Some akamai_pv_element"
    by (simp add: akamai_manifest_def akamai_pv_element_def efind_def)
  have 2: "etext akamai_pv_element = Some ''Zm9v;hdntl=exp''"
    by (simp add: akamai_pv_element_def)
  have 3: "CHR '';'' \<in> set ''Zm9v;hdntl=exp''" by simp
  have 4: "strip (takeWhile (\<lambda>c. c \<noteq> CHR '';'') ''Zm9v;hdntl=exp'') \<noteq> []"
    by (simp add: strip_def is_space_def)
  from f4m_akamai_challenge_refused [OF 1 2 3 4] 1 2 3 4
  show ?thesis by simp
qed

end
